theory Spec2Isabelle
  imports Complex_Main
begin

section \<open>Flappy Bird with Open Game Protocol integration\<close>

text \<open>
  The repository holds two variants of the same game: the rotation-enabled one (the
  source file whose name is unknown, with \<open>flap\<close>, \<open>updateBirdRotation\<close> and incremental
  \<open>addPoints\<close>) and the simpler \<open>game.js\<close> (with \<open>jump\<close>, one monolithic \<open>update\<close>,
  and \<open>saveScore\<close> at the end only). Both are embedded. The rotation-enabled variant keeps
  the names of the source; the names of \<open>game.js\<close> that would clash with them carry the suffix \<open>_js\<close>.

  Modelling decisions.
  \<^item> A JavaScript Number holding a coordinate, a velocity or an angle is a \<open>real\<close>:
    arithmetic is exact, the rounding of IEEE doubles is not modelled. The score and the
    counters, which only ever hold small integers, are \<open>int\<close> and \<open>nat\<close>.
  \<^item> The global objects \<open>CONFIG\<close> and \<open>gameState\<close> are a constant and a record. The
    record \<open>world\<close> extends \<open>gameState\<close> by what the code reaches outside of it: the
    \<open>OGPManager\<close> held by the game object, the source of \<open>Math.random()\<close>, the handle
    counter of \<open>requestAnimationFrame\<close>, and the trace of calls made on the page, the
    console, the browser and the rewards SDK.
  \<^item> Every method is a function of the world, in the statement order of the source. A
    method that can throw returns a sum: \<open>Inr\<close> the world it leaves when it returns,
    \<open>Inl\<close> the exception together with the world as it stands at the throw, since what
    was assigned before the throw stays assigned. \<open>after\<close> reads the world off either.
  \<^item> The canvas context \<open>ctx\<close> and the drawing calls are not modelled beyond the fact that
    \<open>render\<close> was called: they read the state and never write it.
  \<^item> The field \<open>ogp\<close> of the manager is \<open>null\<close> until the SDK constructor has returned,
    and stays \<open>null\<close> when that constructor throws (the case \<open>handleInitError\<close> is
    for): it is an option, and a call through it while it is \<open>None\<close> is the TypeError
    that JavaScript raises. An SDK object that exists is taken to accept the calls made
    on it. The promise returned by its \<open>savePoints\<close> settles with the outcome the SDK
    model gives, and the only thing the code does with that outcome is to write to the
    console.
\<close>

subsection \<open>Calls that leave the simulation\<close>

datatype outcome = Resolved | Rejected

datatype effect =
    SetDisplay string string
  | SetTextContent string int
  | Render
  | RequestAnimationFrame nat
  | CancelAnimationFrame nat
  | AddPoints int
  | SaveScore int
  | UiAddPoints int
  | SavePoints int
  | ConsoleLog string
  | ConsoleError string

text \<open>
  \<open>AddPoints\<close> and \<open>SaveScore\<close> record that the method of that name was invoked on the
  \<open>OGPManager\<close>; \<open>UiAddPoints\<close> and \<open>SavePoints\<close> are the calls the manager then makes on
  the SDK.
\<close>

record OpenGameSDK =
  savePoints :: "int \<Rightarrow> outcome"

record OGPManager =
  ogp :: "OpenGameSDK option"
  isInitialized :: bool

subsection \<open>Exceptions\<close>

datatype error = TypeError

type_synonym 'w result = "(error \<times> 'w) + 'w"

definition after :: "'w result \<Rightarrow> 'w" where
  "after r = (case r of Inl (e, w) \<Rightarrow> w | Inr w \<Rightarrow> w)"

subsection \<open>The rotation-enabled variant: configuration and state\<close>

record config =
  gameId :: string
  testLoggedInPlayerId :: string
  gravity :: real
  flapStrength :: real
  maxVelocity :: real
  birdInitialY :: real
  birdWidth :: real
  birdHeight :: real
  birdX :: real
  obstacleWidth :: real
  obstacleSpeed :: real
  gapSize :: real
  canvasWidth :: real
  canvasHeight :: real
  birdColor :: string
  beakColor :: string
  wingColor :: string
  obstacleColor :: string
  animationFrameInterval :: nat
  rotationFriction :: real
  rotationSensitivity :: real
  maxRotation :: real

definition CONFIG :: config where
  "CONFIG = \<lparr>
     gameId = ''08a17f31-977f-4404-aa47-32d986e66419'',
     testLoggedInPlayerId = '''',
     gravity = 0.05,
     flapStrength = 3,
     maxVelocity = 5,
     birdInitialY = 300,
     birdWidth = 30,
     birdHeight = 30,
     birdX = 50,
     obstacleWidth = 50,
     obstacleSpeed = 2,
     gapSize = 150,
     canvasWidth = 400,
     canvasHeight = 600,
     birdColor = ''#FFD700'',
     beakColor = ''#FF8C00'',
     wingColor = ''white'',
     obstacleColor = ''#228B22'',
     animationFrameInterval = 10,
     rotationFriction = 0.4,
     rotationSensitivity = 0.3,
     maxRotation = pi / 4
   \<rparr>"

record gameState =
  birdY :: real
  birdVelocity :: real
  birdRotation :: real
  birdRotationVelocity :: real
  obstacleX :: real
  gap :: real
  obstacleHeight :: real
  score :: int
  ogpPoints :: int
  gameRunning :: bool
  animationFrameId :: "nat option"
  animationFrame :: nat
  animationCounter :: nat

record world = gameState +
  ogpManager :: OGPManager
  random :: "nat \<Rightarrow> real"
  randomCalls :: nat
  frameHandle :: nat
  trace :: "effect list"

text \<open>The object literal that \<open>gameState\<close> is initialised with, placed in a given environment.\<close>

definition gameState_initial :: "OGPManager \<Rightarrow> (nat \<Rightarrow> real) \<Rightarrow> world" where
  "gameState_initial m rnd = \<lparr>
     birdY = birdInitialY CONFIG,
     birdVelocity = 0,
     birdRotation = 0,
     birdRotationVelocity = 0,
     obstacleX = canvasWidth CONFIG,
     gap = gapSize CONFIG,
     obstacleHeight = 0,
     score = 0,
     ogpPoints = 0,
     gameRunning = False,
     animationFrameId = None,
     animationFrame = 0,
     animationCounter = 0,
     ogpManager = m,
     random = rnd,
     randomCalls = 0,
     frameHandle = 0,
     trace = []
   \<rparr>"

subsection \<open>The environment\<close>

definition emit :: "effect \<Rightarrow> world \<Rightarrow> world" where
  "emit e w = w\<lparr>trace := trace w @ [e]\<rparr>"

text \<open>\<open>Math.random()\<close>: the next value of the source; the caller gets it with the world.\<close>

definition Math_random :: "world \<Rightarrow> real \<times> world" where
  "Math_random w = (random w (randomCalls w), w\<lparr>randomCalls := Suc (randomCalls w)\<rparr>)"

text \<open>
  \<open>requestAnimationFrame\<close>: the browser increments its callback identifier, which starts at
  zero, and returns it, so a handle is never zero.
\<close>

definition requestAnimationFrame :: "world \<Rightarrow> nat \<times> world" where
  "requestAnimationFrame w =
     (let h = Suc (frameHandle w)
      in (h, emit (RequestAnimationFrame h) (w\<lparr>frameHandle := h\<rparr>)))"

definition cancelAnimationFrame :: "nat \<Rightarrow> world \<Rightarrow> world" where
  "cancelAnimationFrame h w = emit (CancelAnimationFrame h) w"

subsection \<open>OGPManager\<close>

text \<open>
  \<open>addPoints\<close> logs and then calls \<open>this.ogp.ui.addPoints\<close> with no test of \<open>this.ogp\<close>
  or of \<open>isInitialized\<close>. \<open>saveScore\<close> returns early unless \<open>isInitialized\<close> holds and the
  points are positive, and only then calls \<open>this.ogp.savePoints\<close>.
\<close>

definition addPoints :: "int \<Rightarrow> world \<Rightarrow> world result" where
  "addPoints points w =
     (let w1 = emit (AddPoints points) w;
          w2 = emit (ConsoleLog ''Adding points:'') w1
      in case ogp (ogpManager w2) of
           None \<Rightarrow> Inl (TypeError, w2)
         | Some sdk \<Rightarrow> Inr (emit (UiAddPoints points) w2))"

definition saveScore :: "int \<Rightarrow> world \<Rightarrow> world result" where
  "saveScore points w =
     (let w1 = emit (SaveScore points) w
      in if \<not> isInitialized (ogpManager w1) \<or> points \<le> 0 then Inr w1
         else
           (case ogp (ogpManager w1) of
              None \<Rightarrow> Inl (TypeError, w1)
            | Some sdk \<Rightarrow>
                (let w2 = emit (SavePoints points) w1
                 in case savePoints sdk points of
                      Resolved \<Rightarrow> Inr (emit (ConsoleLog ''Points saved:'') w2)
                    | Rejected \<Rightarrow> Inr (emit (ConsoleError ''Failed to save points:'') w2))))"

subsection \<open>FlappyBirdGame\<close>

definition resetObstacle :: "world \<Rightarrow> world" where
  "resetObstacle w =
     (let w1 = w\<lparr>obstacleX := canvasWidth CONFIG\<rparr>;
          (r, w2) = Math_random w1
      in w2\<lparr>obstacleHeight := r * (canvasHeight CONFIG - gap w2 - 100) + 50\<rparr>)"

definition endGame :: "world \<Rightarrow> world result" where
  "endGame w =
     (let w1 = w\<lparr>gameRunning := False\<rparr>;
          w2 = (case animationFrameId w1 of
                  None \<Rightarrow> w1
                | Some h \<Rightarrow>
                    if h \<noteq> 0 then (cancelAnimationFrame h w1)\<lparr>animationFrameId := None\<rparr>
                    else w1);
          w3 = emit (SetTextContent ''roundScore'' (score w2)) w2;
          w4 = emit (SetDisplay ''gameOverScreen'' ''block'') w3
      in if score w4 > 0 then saveScore (score w4) w4 else Inr w4)"

definition updateBirdPosition :: "world \<Rightarrow> world" where
  "updateBirdPosition w =
     (let w1 = w\<lparr>birdVelocity := min (birdVelocity w + gravity CONFIG) (maxVelocity CONFIG)\<rparr>
      in w1\<lparr>birdY := birdY w1 + birdVelocity w1\<rparr>)"

definition updateBirdRotation :: "world \<Rightarrow> world" where
  "updateBirdRotation w =
     (let targetRotation =
            max (- maxRotation CONFIG)
                (min (maxRotation CONFIG) (birdVelocity w * rotationSensitivity CONFIG));
          rotationDifference = targetRotation - birdRotation w;
          w1 = w\<lparr>birdRotationVelocity := birdRotationVelocity w + rotationDifference * 0.1\<rparr>;
          w2 = w1\<lparr>birdRotationVelocity := birdRotationVelocity w1 * rotationFriction CONFIG\<rparr>
      in w2\<lparr>birdRotation := birdRotation w2 + birdRotationVelocity w2\<rparr>)"

definition updateObstaclePosition :: "world \<Rightarrow> world" where
  "updateObstaclePosition w = w\<lparr>obstacleX := obstacleX w - obstacleSpeed CONFIG\<rparr>"

definition updateObstaclePassed :: "world \<Rightarrow> world result" where
  "updateObstaclePassed w =
     (if obstacleX w < - obstacleWidth CONFIG then
        (let w1 = resetObstacle w;
             w2 = w1\<lparr>score := score w1 + 1\<rparr>
         in addPoints 1 w2)
      else Inr w)"

definition updateAnimationFrame :: "world \<Rightarrow> world" where
  "updateAnimationFrame w =
     (let w1 = (if birdRotation w > 0 then w\<lparr>animationFrame := 0\<rparr>
                else w\<lparr>animationFrame := (if animationFrame w = 0 then 1 else 0)\<rparr>)
      in w1\<lparr>animationCounter := 0\<rparr>)"

definition updateAnimation :: "world \<Rightarrow> world" where
  "updateAnimation w =
     (let w1 = w\<lparr>animationCounter := Suc (animationCounter w)\<rparr>
      in if animationCounter w1 \<ge> animationFrameInterval CONFIG then updateAnimationFrame w1
         else w1)"

definition checkCollisions :: "world \<Rightarrow> world result" where
  "checkCollisions w =
     (if birdY w < 0 \<or> birdY w + birdHeight CONFIG > canvasHeight CONFIG then endGame w
      else
        (let birdRight = birdX CONFIG + birdWidth CONFIG;
             birdBottom = birdY w + birdHeight CONFIG;
             obstacleRight = obstacleX w + obstacleWidth CONFIG
         in if birdRight > obstacleX w \<and> birdX CONFIG < obstacleRight \<and>
               (birdY w < obstacleHeight w \<or> birdBottom > obstacleHeight w + gap w)
            then endGame w
            else Inr w))"

text \<open>
  \<open>update\<close> calls its six steps in a row; an exception out of \<open>updateObstaclePassed\<close>
  leaves \<open>update\<close> at once, so \<open>updateAnimation\<close> and \<open>checkCollisions\<close> are not run.
\<close>

definition update :: "world \<Rightarrow> world result" where
  "update w =
     (let w1 = updateBirdPosition w;
          w2 = updateBirdRotation w1;
          w3 = updateObstaclePosition w2
      in case updateObstaclePassed w3 of
           Inl thrown \<Rightarrow> Inl thrown
         | Inr w4 \<Rightarrow> checkCollisions (updateAnimation w4))"

definition render :: "world \<Rightarrow> world" where
  "render w = emit Render w"

definition gameLoop :: "world \<Rightarrow> world result" where
  "gameLoop w =
     (if \<not> gameRunning w then Inr w
      else
        (case update w of
           Inl thrown \<Rightarrow> Inl thrown
         | Inr w1 \<Rightarrow>
             (let w2 = render w1;
                  (h, w3) = requestAnimationFrame w2
              in Inr (w3\<lparr>animationFrameId := Some h\<rparr>))))"

definition startGame :: "world \<Rightarrow> world result" where
  "startGame w =
     (let w1 = emit (SetDisplay ''startScreen'' ''none'') w;
          w2 = emit (SetDisplay ''gameOverScreen'' ''none'') w1;
          w3 = w2\<lparr>birdY := birdInitialY CONFIG,
                  birdVelocity := 0,
                  birdRotation := 0,
                  birdRotationVelocity := 0,
                  obstacleX := canvasWidth CONFIG,
                  score := 0,
                  gameRunning := True,
                  animationFrame := 0,
                  animationCounter := 0\<rparr>;
          w4 = resetObstacle w3
      in gameLoop w4)"

definition flap :: "world \<Rightarrow> world" where
  "flap w =
     (if gameRunning w then updateAnimationFrame (w\<lparr>birdVelocity := - flapStrength CONFIG\<rparr>)
      else w)"

subsection \<open>The variant of game.js: configuration and state\<close>

record config_js =
  gravity_js :: real
  jumpStrength :: real
  maxVelocity_js :: real
  birdInitialY_js :: real
  birdWidth_js :: real
  birdHeight_js :: real
  birdX_js :: real
  obstacleWidth_js :: real
  obstacleSpeed_js :: real
  gapSize_js :: real
  canvasWidth_js :: real
  canvasHeight_js :: real
  birdColor_js :: string
  obstacleColor_js :: string

definition CONFIG_js :: config_js where
  "CONFIG_js = \<lparr>
     gravity_js = 0.05,
     jumpStrength = 3,
     maxVelocity_js = 5,
     birdInitialY_js = 300,
     birdWidth_js = 30,
     birdHeight_js = 30,
     birdX_js = 50,
     obstacleWidth_js = 50,
     obstacleSpeed_js = 2,
     gapSize_js = 150,
     canvasWidth_js = 400,
     canvasHeight_js = 600,
     birdColor_js = ''#FFD700'',
     obstacleColor_js = ''#228B22''
   \<rparr>"

record gameState_js =
  birdY_js :: real
  birdVelocity_js :: real
  obstacleX_js :: real
  gap_js :: real
  obstacleHeight_js :: real
  score_js :: int
  ogpPoints_js :: int
  gameRunning_js :: bool
  animationFrameId_js :: "nat option"

record world_js = gameState_js +
  ogpManager_js :: OGPManager
  random_js :: "nat \<Rightarrow> real"
  randomCalls_js :: nat
  frameHandle_js :: nat
  trace_js :: "effect list"

definition gameState_initial_js :: "OGPManager \<Rightarrow> (nat \<Rightarrow> real) \<Rightarrow> world_js" where
  "gameState_initial_js m rnd = \<lparr>
     birdY_js = birdInitialY_js CONFIG_js,
     birdVelocity_js = 0,
     obstacleX_js = canvasWidth_js CONFIG_js,
     gap_js = gapSize_js CONFIG_js,
     obstacleHeight_js = 0,
     score_js = 0,
     ogpPoints_js = 0,
     gameRunning_js = False,
     animationFrameId_js = None,
     ogpManager_js = m,
     random_js = rnd,
     randomCalls_js = 0,
     frameHandle_js = 0,
     trace_js = []
   \<rparr>"

definition emit_js :: "effect \<Rightarrow> world_js \<Rightarrow> world_js" where
  "emit_js e w = w\<lparr>trace_js := trace_js w @ [e]\<rparr>"

definition Math_random_js :: "world_js \<Rightarrow> real \<times> world_js" where
  "Math_random_js w =
     (random_js w (randomCalls_js w), w\<lparr>randomCalls_js := Suc (randomCalls_js w)\<rparr>)"

definition requestAnimationFrame_js :: "world_js \<Rightarrow> nat \<times> world_js" where
  "requestAnimationFrame_js w =
     (let h = Suc (frameHandle_js w)
      in (h, emit_js (RequestAnimationFrame h) (w\<lparr>frameHandle_js := h\<rparr>)))"

definition cancelAnimationFrame_js :: "nat \<Rightarrow> world_js \<Rightarrow> world_js" where
  "cancelAnimationFrame_js h w = emit_js (CancelAnimationFrame h) w"

text \<open>
  The manager of \<open>game.js\<close> has no \<open>addPoints\<close>. Its listener for the SDK event
  \<open>SavePointsSuccess\<close>, which later overwrites \<open>ogpPoints\<close> with the account's total, runs
  after the step that ended the game and is not part of it.
\<close>

definition saveScore_js :: "int \<Rightarrow> world_js \<Rightarrow> world_js result" where
  "saveScore_js points w =
     (let w1 = emit_js (SaveScore points) w
      in if \<not> isInitialized (ogpManager_js w1) \<or> points \<le> 0 then Inr w1
         else
           (case ogp (ogpManager_js w1) of
              None \<Rightarrow> Inl (TypeError, w1)
            | Some sdk \<Rightarrow>
                (let w2 = emit_js (SavePoints points) w1
                 in case savePoints sdk points of
                      Resolved \<Rightarrow> Inr (emit_js (ConsoleLog ''Points saved:'') w2)
                    | Rejected \<Rightarrow>
                        Inr (emit_js (ConsoleError ''Failed to save points:'') w2))))"

definition resetObstacle_js :: "world_js \<Rightarrow> world_js" where
  "resetObstacle_js w =
     (let w1 = w\<lparr>obstacleX_js := canvasWidth_js CONFIG_js\<rparr>;
          (r, w2) = Math_random_js w1
      in w2\<lparr>obstacleHeight_js := r * (canvasHeight_js CONFIG_js - gap_js w2 - 100) + 50\<rparr>)"

definition endGame_js :: "world_js \<Rightarrow> world_js result" where
  "endGame_js w =
     (let w1 = w\<lparr>gameRunning_js := False\<rparr>;
          w2 = (case animationFrameId_js w1 of
                  None \<Rightarrow> w1
                | Some h \<Rightarrow>
                    if h \<noteq> 0 then (cancelAnimationFrame_js h w1)\<lparr>animationFrameId_js := None\<rparr>
                    else w1);
          w3 = emit_js (SetTextContent ''finalScore'' (score_js w2)) w2;
          w4 = emit_js (SetTextContent ''ogpPoints'' (ogpPoints_js w3)) w3;
          w5 = emit_js (SetDisplay ''gameOverScreen'' ''block'') w4
      in if score_js w5 > 0 then saveScore_js (score_js w5) w5 else Inr w5)"

definition checkCollisions_js :: "world_js \<Rightarrow> world_js result" where
  "checkCollisions_js w =
     (if birdY_js w < 0 \<or> birdY_js w + birdHeight_js CONFIG_js > canvasHeight_js CONFIG_js
      then endGame_js w
      else
        (let birdRight = birdX_js CONFIG_js + birdWidth_js CONFIG_js;
             birdBottom = birdY_js w + birdHeight_js CONFIG_js;
             obstacleRight = obstacleX_js w + obstacleWidth_js CONFIG_js
         in if birdRight > obstacleX_js w \<and> birdX_js CONFIG_js < obstacleRight \<and>
               (birdY_js w < obstacleHeight_js w \<or> birdBottom > obstacleHeight_js w + gap_js w)
            then endGame_js w
            else Inr w))"

definition update_js :: "world_js \<Rightarrow> world_js result" where
  "update_js w =
     (let w1 = w\<lparr>birdVelocity_js :=
                   min (birdVelocity_js w + gravity_js CONFIG_js) (maxVelocity_js CONFIG_js)\<rparr>;
          w2 = w1\<lparr>birdY_js := birdY_js w1 + birdVelocity_js w1\<rparr>;
          w3 = w2\<lparr>obstacleX_js := obstacleX_js w2 - obstacleSpeed_js CONFIG_js\<rparr>;
          w4 = (if obstacleX_js w3 < - obstacleWidth_js CONFIG_js then
                  (let w3a = resetObstacle_js w3
                   in w3a\<lparr>score_js := score_js w3a + 1\<rparr>)
                else w3)
      in checkCollisions_js w4)"

definition render_js :: "world_js \<Rightarrow> world_js" where
  "render_js w = emit_js Render w"

definition gameLoop_js :: "world_js \<Rightarrow> world_js result" where
  "gameLoop_js w =
     (if \<not> gameRunning_js w then Inr w
      else
        (case update_js w of
           Inl thrown \<Rightarrow> Inl thrown
         | Inr w1 \<Rightarrow>
             (let w2 = render_js w1;
                  (h, w3) = requestAnimationFrame_js w2
              in Inr (w3\<lparr>animationFrameId_js := Some h\<rparr>))))"

definition startGame_js :: "world_js \<Rightarrow> world_js result" where
  "startGame_js w =
     (let w1 = emit_js (SetDisplay ''startScreen'' ''none'') w;
          w2 = emit_js (SetDisplay ''gameOverScreen'' ''none'') w1;
          w3 = w2\<lparr>birdY_js := birdInitialY_js CONFIG_js,
                  birdVelocity_js := 0,
                  obstacleX_js := canvasWidth_js CONFIG_js,
                  score_js := 0,
                  gameRunning_js := True\<rparr>;
          w4 = resetObstacle_js w3
      in gameLoop_js w4)"

definition jump :: "world_js \<Rightarrow> world_js" where
  "jump w = (if gameRunning_js w then w\<lparr>birdVelocity_js := - jumpStrength CONFIG_js\<rparr> else w)"

subsection \<open>Runs\<close>

text \<open>
  The methods that the page and the browser invoke on the game object: the start and replay
  buttons call \<open>startGame\<close>, a fired frame callback calls \<open>gameLoop\<close>, a click, a touch or
  the space bar calls \<open>flap\<close> (\<open>jump\<close> in \<open>game.js\<close>). \<open>Update\<close> is the simulation step on
  its own, without the guard of \<open>gameLoop\<close>. An exception that leaves the invoked method
  ends that call and nothing else: the world stays as it stood at the throw, and the next
  operation starts from it. \<open>step\<close> and \<open>frame\<close> are the world that one call of \<open>update\<close>
  and of \<open>gameLoop\<close> leaves, so that calls can be iterated.
\<close>

datatype operation = StartGame | GameLoop | Update | Flap

definition step :: "world \<Rightarrow> world" where
  "step w = after (update w)"

definition frame :: "world \<Rightarrow> world" where
  "frame w = after (gameLoop w)"

fun perform :: "operation \<Rightarrow> world \<Rightarrow> world" where
  "perform StartGame w = after (startGame w)"
| "perform GameLoop w = frame w"
| "perform Update w = step w"
| "perform Flap w = flap w"

definition run :: "operation list \<Rightarrow> world \<Rightarrow> world" where
  "run ops w = fold perform ops w"

datatype operation_js = StartGame_js | GameLoop_js | Update_js | Jump

definition step_js :: "world_js \<Rightarrow> world_js" where
  "step_js w = after (update_js w)"

definition frame_js :: "world_js \<Rightarrow> world_js" where
  "frame_js w = after (gameLoop_js w)"

fun perform_js :: "operation_js \<Rightarrow> world_js \<Rightarrow> world_js" where
  "perform_js StartGame_js w = after (startGame_js w)"
| "perform_js GameLoop_js w = frame_js w"
| "perform_js Update_js w = step_js w"
| "perform_js Jump w = jump w"

definition run_js :: "operation_js list \<Rightarrow> world_js \<Rightarrow> world_js" where
  "run_js ops w = fold perform_js ops w"

text \<open>
  The state that \<open>startGame\<close> has set up when it hands over to \<open>gameLoop\<close>: exactly the
  fields it assigns, with the values it assigns. The obstacle height it draws, and every
  field it does not touch, are left open.
\<close>

definition startState :: "world \<Rightarrow> bool" where
  "startState w \<longleftrightarrow>
     birdY w = birdInitialY CONFIG \<and> birdVelocity w = 0 \<and> birdRotation w = 0 \<and>
     birdRotationVelocity w = 0 \<and> obstacleX w = canvasWidth CONFIG \<and> score w = 0 \<and>
     gameRunning w \<and> animationFrame w = 0 \<and> animationCounter w = 0"

definition startState_js :: "world_js \<Rightarrow> bool" where
  "startState_js w \<longleftrightarrow>
     birdY_js w = birdInitialY_js CONFIG_js \<and> birdVelocity_js w = 0 \<and>
     obstacleX_js w = canvasWidth_js CONFIG_js \<and> score_js w = 0 \<and> gameRunning_js w"

text \<open>The arguments of the invocations of \<open>saveScore\<close> in a trace, in order.\<close>

fun saveScore_calls :: "effect list \<Rightarrow> int list" where
  "saveScore_calls [] = []"
| "saveScore_calls (SaveScore n # es) = n # saveScore_calls es"
| "saveScore_calls (e # es) = saveScore_calls es"

subsection \<open>The rotation update as the specification words it\<close>

text \<open>
  The specification's description of the tilt: a target clamped to the maximal rotation, a
  spring force toward it, then friction, then integration. The spring constant, the
  friction, the sensitivity and the maximal rotation are parameters here.
\<close>

definition clamp :: "real \<Rightarrow> real \<Rightarrow> real \<Rightarrow> real" where
  "clamp x lo hi = (if x < lo then lo else if hi < x then hi else x)"

definition spec_rotation :: "real \<Rightarrow> real \<Rightarrow> real \<Rightarrow> real \<Rightarrow> real \<Rightarrow> real \<times> real \<Rightarrow> real \<times> real"
  where
  "spec_rotation sensitivity maxRot springConstant friction velocity rs =
     (let (rotation, rotationVelocity) = rs;
          target = clamp (velocity * sensitivity) (- maxRot) maxRot;
          rotationVelocity1 = rotationVelocity + (target - rotation) * springConstant;
          rotationVelocity2 = rotationVelocity1 * friction;
          rotation1 = rotation + rotationVelocity2
      in (rotation1, rotationVelocity2))"

subsection \<open>The specification's SimulationState\<close>

text \<open>
  The fields that the specification's data model lists for the simulation state: position
  and velocity, rotation and its velocity (rotation-enabled variant only), obstacle
  position and gap top, gap size, score, running.
\<close>

definition simulationState ::
  "world \<Rightarrow> real \<times> real \<times> real \<times> real \<times> real \<times> real \<times> real \<times> int \<times> bool" where
  "simulationState w =
     (birdY w, birdVelocity w, birdRotation w, birdRotationVelocity w, obstacleX w,
      obstacleHeight w, gap w, score w, gameRunning w)"

definition simulationState_js ::
  "world_js \<Rightarrow> real \<times> real \<times> real \<times> real \<times> real \<times> int \<times> bool" where
  "simulationState_js w =
     (birdY_js w, birdVelocity_js w, obstacleX_js w, obstacleHeight_js w, gap_js w, score_js w,
      gameRunning_js w)"

subsection \<open>Sample worlds\<close>

definition sample_manager :: OGPManager where
  "sample_manager = \<lparr>ogp = Some \<lparr>savePoints = (\<lambda>n. Resolved)\<rparr>, isInitialized = True\<rparr>"

text \<open>The manager after the SDK constructor has thrown.\<close>

definition failed_manager :: OGPManager where
  "failed_manager = \<lparr>ogp = None, isInitialized = False\<rparr>"

text \<open>
  A round played on a page whose SDK constructor threw: the random source gives 29/35, so
  the gap is drawn at 340; the player starts the game, lets the bird fall for 66 frames
  (the first of them run by \<open>startGame\<close> itself), flaps once, and then watches for 160
  frames.
\<close>

definition sdkless_world :: world where
  "sdkless_world = gameState_initial failed_manager (\<lambda>n. 29 / 35)"

definition sdkless_round :: "operation list" where
  "sdkless_round = StartGame # replicate 65 GameLoop @ [Flap] @ replicate 160 GameLoop"

definition sample_world :: world where
  "sample_world = (gameState_initial sample_manager (\<lambda>n. 1 / 2))\<lparr>gameRunning := True\<rparr>"

definition sample_world_js :: world_js where
  "sample_world_js =
     (gameState_initial_js sample_manager (\<lambda>n. 1 / 2))\<lparr>gameRunning_js := True\<rparr>"

text \<open>
  A running game on such a page, with the position, the velocity and the obstacle that
  the round above has after 225 frames: one step before the bird crosses the ground line
  and the obstacle leaves the canvas.
\<close>

definition sdkless_pass :: world where
  "sdkless_pass = sample_world\<lparr>birdY := 569.55, birdVelocity := 4.95, obstacleX := - 50,
     obstacleHeight := 340, ogpManager := failed_manager\<rparr>"

section \<open>Auxiliary facts\<close>

subsection \<open>Results\<close>

lemma after_simps [simp]: "after (Inl (e, w)) = w" "after (Inr w) = w"
  by (simp_all add: after_def)

lemma result_thrown: "isl r \<Longrightarrow> r = Inl (TypeError, after r)"
  by (cases r) (auto simp add: after_def intro: error.exhaust [of _ "_ = _"] split: prod.split)

lemma result_returned: "\<not> isl r \<Longrightarrow> r = Inr (after r)"
  by (cases r) simp_all

subsection \<open>What each method of the rotation-enabled variant does to each field\<close>

lemma saveScore_isl:
  "isl (saveScore points w) \<longleftrightarrow>
     isInitialized (ogpManager w) \<and> points > 0 \<and> ogp (ogpManager w) = None"
  by (auto simp add: saveScore_def emit_def Let_def split: option.split outcome.split)

lemma endGame_fields:
  "birdY (after (endGame w)) = birdY w"
  "birdVelocity (after (endGame w)) = birdVelocity w"
  "birdRotation (after (endGame w)) = birdRotation w"
  "birdRotationVelocity (after (endGame w)) = birdRotationVelocity w"
  "obstacleX (after (endGame w)) = obstacleX w"
  "obstacleHeight (after (endGame w)) = obstacleHeight w"
  "gap (after (endGame w)) = gap w"
  "score (after (endGame w)) = score w"
  "gameRunning (after (endGame w)) = False"
  "ogpManager (after (endGame w)) = ogpManager w"
  "frameHandle (after (endGame w)) = frameHandle w"
  by (simp_all add: endGame_def saveScore_def cancelAnimationFrame_def emit_def Let_def
      split: option.split outcome.split)

lemma endGame_isl:
  "isl (endGame w) \<longleftrightarrow>
     score w > 0 \<and> isInitialized (ogpManager w) \<and> ogp (ogpManager w) = None"
  by (auto simp add: endGame_def saveScore_isl cancelAnimationFrame_def emit_def Let_def
      split: option.split)

lemma checkCollisions_fields:
  "birdY (after (checkCollisions w)) = birdY w"
  "birdVelocity (after (checkCollisions w)) = birdVelocity w"
  "birdRotation (after (checkCollisions w)) = birdRotation w"
  "birdRotationVelocity (after (checkCollisions w)) = birdRotationVelocity w"
  "obstacleX (after (checkCollisions w)) = obstacleX w"
  "obstacleHeight (after (checkCollisions w)) = obstacleHeight w"
  "gap (after (checkCollisions w)) = gap w"
  "score (after (checkCollisions w)) = score w"
  "ogpManager (after (checkCollisions w)) = ogpManager w"
  "frameHandle (after (checkCollisions w)) = frameHandle w"
  by (simp_all add: checkCollisions_def Let_def endGame_fields)

lemma checkCollisions_gameRunning:
  "gameRunning (after (checkCollisions w)) \<longleftrightarrow>
     gameRunning w \<and> 0 \<le> birdY w \<and> birdY w + birdHeight CONFIG \<le> canvasHeight CONFIG \<and>
     \<not> (birdX CONFIG + birdWidth CONFIG > obstacleX w \<and>
        birdX CONFIG < obstacleX w + obstacleWidth CONFIG \<and>
        (birdY w < obstacleHeight w \<or> birdY w + birdHeight CONFIG > obstacleHeight w + gap w))"
  by (auto simp add: checkCollisions_def Let_def endGame_fields)

lemma updateAnimation_fields:
  "birdY (updateAnimation w) = birdY w"
  "birdVelocity (updateAnimation w) = birdVelocity w"
  "birdRotation (updateAnimation w) = birdRotation w"
  "birdRotationVelocity (updateAnimation w) = birdRotationVelocity w"
  "obstacleX (updateAnimation w) = obstacleX w"
  "obstacleHeight (updateAnimation w) = obstacleHeight w"
  "gap (updateAnimation w) = gap w"
  "score (updateAnimation w) = score w"
  "gameRunning (updateAnimation w) = gameRunning w"
  "animationFrameId (updateAnimation w) = animationFrameId w"
  "trace (updateAnimation w) = trace w"
  "ogpManager (updateAnimation w) = ogpManager w"
  "frameHandle (updateAnimation w) = frameHandle w"
  by (simp_all add: updateAnimation_def updateAnimationFrame_def Let_def)

lemma resetObstacle_fields:
  "birdY (resetObstacle w) = birdY w"
  "birdVelocity (resetObstacle w) = birdVelocity w"
  "birdRotation (resetObstacle w) = birdRotation w"
  "birdRotationVelocity (resetObstacle w) = birdRotationVelocity w"
  "obstacleX (resetObstacle w) = canvasWidth CONFIG"
  "obstacleHeight (resetObstacle w) =
     random w (randomCalls w) * (canvasHeight CONFIG - gap w - 100) + 50"
  "gap (resetObstacle w) = gap w"
  "score (resetObstacle w) = score w"
  "gameRunning (resetObstacle w) = gameRunning w"
  "animationFrameId (resetObstacle w) = animationFrameId w"
  "trace (resetObstacle w) = trace w"
  "ogpManager (resetObstacle w) = ogpManager w"
  "frameHandle (resetObstacle w) = frameHandle w"
  by (simp_all add: resetObstacle_def Math_random_def Let_def)

lemma addPoints_isl: "isl (addPoints points w) \<longleftrightarrow> ogp (ogpManager w) = None"
  by (simp add: addPoints_def emit_def Let_def split: option.split)

lemma updateObstaclePassed_isl:
  "isl (updateObstaclePassed w) \<longleftrightarrow>
     obstacleX w < - obstacleWidth CONFIG \<and> ogp (ogpManager w) = None"
  by (simp add: updateObstaclePassed_def addPoints_isl resetObstacle_fields Let_def)

lemma updateObstaclePassed_fields:
  "birdY (after (updateObstaclePassed w)) = birdY w"
  "birdVelocity (after (updateObstaclePassed w)) = birdVelocity w"
  "birdRotation (after (updateObstaclePassed w)) = birdRotation w"
  "birdRotationVelocity (after (updateObstaclePassed w)) = birdRotationVelocity w"
  "obstacleX (after (updateObstaclePassed w)) =
     (if obstacleX w < - obstacleWidth CONFIG then canvasWidth CONFIG else obstacleX w)"
  "gap (after (updateObstaclePassed w)) = gap w"
  "score (after (updateObstaclePassed w)) =
     (if obstacleX w < - obstacleWidth CONFIG then score w + 1 else score w)"
  "gameRunning (after (updateObstaclePassed w)) = gameRunning w"
  "animationFrameId (after (updateObstaclePassed w)) = animationFrameId w"
  "ogpManager (after (updateObstaclePassed w)) = ogpManager w"
  "frameHandle (after (updateObstaclePassed w)) = frameHandle w"
  by (simp_all add: updateObstaclePassed_def resetObstacle_fields addPoints_def emit_def Let_def
      split: option.split)

lemma updateObstaclePosition_fields:
  "birdY (updateObstaclePosition w) = birdY w"
  "birdVelocity (updateObstaclePosition w) = birdVelocity w"
  "birdRotation (updateObstaclePosition w) = birdRotation w"
  "birdRotationVelocity (updateObstaclePosition w) = birdRotationVelocity w"
  "obstacleX (updateObstaclePosition w) = obstacleX w - obstacleSpeed CONFIG"
  "obstacleHeight (updateObstaclePosition w) = obstacleHeight w"
  "gap (updateObstaclePosition w) = gap w"
  "score (updateObstaclePosition w) = score w"
  "gameRunning (updateObstaclePosition w) = gameRunning w"
  "animationFrameId (updateObstaclePosition w) = animationFrameId w"
  "trace (updateObstaclePosition w) = trace w"
  "ogpManager (updateObstaclePosition w) = ogpManager w"
  "frameHandle (updateObstaclePosition w) = frameHandle w"
  by (simp_all add: updateObstaclePosition_def)

lemma updateBirdRotation_fields:
  "birdY (updateBirdRotation w) = birdY w"
  "birdVelocity (updateBirdRotation w) = birdVelocity w"
  "obstacleX (updateBirdRotation w) = obstacleX w"
  "obstacleHeight (updateBirdRotation w) = obstacleHeight w"
  "gap (updateBirdRotation w) = gap w"
  "score (updateBirdRotation w) = score w"
  "gameRunning (updateBirdRotation w) = gameRunning w"
  "animationFrameId (updateBirdRotation w) = animationFrameId w"
  "trace (updateBirdRotation w) = trace w"
  "ogpManager (updateBirdRotation w) = ogpManager w"
  "frameHandle (updateBirdRotation w) = frameHandle w"
  by (simp_all add: updateBirdRotation_def Let_def)

lemma updateBirdPosition_fields:
  "birdY (updateBirdPosition w) =
     birdY w + min (birdVelocity w + gravity CONFIG) (maxVelocity CONFIG)"
  "birdVelocity (updateBirdPosition w) = min (birdVelocity w + gravity CONFIG) (maxVelocity CONFIG)"
  "birdRotation (updateBirdPosition w) = birdRotation w"
  "birdRotationVelocity (updateBirdPosition w) = birdRotationVelocity w"
  "obstacleX (updateBirdPosition w) = obstacleX w"
  "obstacleHeight (updateBirdPosition w) = obstacleHeight w"
  "gap (updateBirdPosition w) = gap w"
  "score (updateBirdPosition w) = score w"
  "gameRunning (updateBirdPosition w) = gameRunning w"
  "animationFrameId (updateBirdPosition w) = animationFrameId w"
  "trace (updateBirdPosition w) = trace w"
  "ogpManager (updateBirdPosition w) = ogpManager w"
  "frameHandle (updateBirdPosition w) = frameHandle w"
  by (simp_all add: updateBirdPosition_def Let_def)

lemmas step_fields = checkCollisions_fields updateAnimation_fields updateObstaclePassed_fields
  updateObstaclePosition_fields updateBirdRotation_fields updateBirdPosition_fields

text \<open>
  The two ways through \<open>update\<close>: the obstacle passes while there is no SDK object, and
  \<open>addPoints\<close> throws; or the collision check is reached.
\<close>

lemma update_thrown:
  assumes "obstacleX w - obstacleSpeed CONFIG < - obstacleWidth CONFIG"
    and "ogp (ogpManager w) = None"
  shows "update w = Inl (TypeError, after (updateObstaclePassed (updateObstaclePosition
           (updateBirdRotation (updateBirdPosition w)))))"
proof -
  define p where "p = updateObstaclePosition (updateBirdRotation (updateBirdPosition w))"
  define q where "q = after (updateObstaclePassed p)"
  have "isl (updateObstaclePassed p)"
    using assms
    by (simp add: p_def updateObstaclePassed_isl updateObstaclePosition_fields
        updateBirdRotation_fields updateBirdPosition_fields)
  then have e: "updateObstaclePassed p = Inl (TypeError, q)"
    unfolding q_def by (rule result_thrown)
  have "update w = (case updateObstaclePassed p of Inl thrown \<Rightarrow> Inl thrown
      | Inr w4 \<Rightarrow> checkCollisions (updateAnimation w4))"
    by (simp add: update_def Let_def p_def)
  then have "update w = Inl (TypeError, q)" by (simp add: e)
  then show ?thesis unfolding q_def p_def .
qed

lemma update_checked:
  assumes "\<not> (obstacleX w - obstacleSpeed CONFIG < - obstacleWidth CONFIG \<and>
              ogp (ogpManager w) = None)"
  shows "update w = checkCollisions (updateAnimation (after (updateObstaclePassed
           (updateObstaclePosition (updateBirdRotation (updateBirdPosition w))))))"
proof -
  define p where "p = updateObstaclePosition (updateBirdRotation (updateBirdPosition w))"
  define q where "q = after (updateObstaclePassed p)"
  have "\<not> isl (updateObstaclePassed p)"
    using assms
    by (simp add: p_def updateObstaclePassed_isl updateObstaclePosition_fields
        updateBirdRotation_fields updateBirdPosition_fields)
  then have e: "updateObstaclePassed p = Inr q"
    unfolding q_def by (rule result_returned)
  have "update w = (case updateObstaclePassed p of Inl thrown \<Rightarrow> Inl thrown
      | Inr w4 \<Rightarrow> checkCollisions (updateAnimation w4))"
    by (simp add: update_def Let_def p_def)
  then have "update w = checkCollisions (updateAnimation q)" by (simp add: e)
  then show ?thesis unfolding q_def p_def .
qed

lemma update_fields:
  "birdVelocity (after (update w)) = min (birdVelocity w + gravity CONFIG) (maxVelocity CONFIG)"
  "birdY (after (update w)) =
     birdY w + min (birdVelocity w + gravity CONFIG) (maxVelocity CONFIG)"
  "obstacleX (after (update w)) =
     (if obstacleX w - obstacleSpeed CONFIG < - obstacleWidth CONFIG then canvasWidth CONFIG
      else obstacleX w - obstacleSpeed CONFIG)"
  "score (after (update w)) =
     (if obstacleX w - obstacleSpeed CONFIG < - obstacleWidth CONFIG then score w + 1
      else score w)"
  "gap (after (update w)) = gap w"
  "ogpManager (after (update w)) = ogpManager w"
  "frameHandle (after (update w)) = frameHandle w"
proof -
  have "birdVelocity (after (update w)) =
       min (birdVelocity w + gravity CONFIG) (maxVelocity CONFIG) \<and>
     birdY (after (update w)) =
       birdY w + min (birdVelocity w + gravity CONFIG) (maxVelocity CONFIG) \<and>
     obstacleX (after (update w)) =
       (if obstacleX w - obstacleSpeed CONFIG < - obstacleWidth CONFIG then canvasWidth CONFIG
        else obstacleX w - obstacleSpeed CONFIG) \<and>
     score (after (update w)) =
       (if obstacleX w - obstacleSpeed CONFIG < - obstacleWidth CONFIG then score w + 1
        else score w) \<and>
     gap (after (update w)) = gap w \<and>
     ogpManager (after (update w)) = ogpManager w \<and>
     frameHandle (after (update w)) = frameHandle w"
  proof (cases "obstacleX w - obstacleSpeed CONFIG < - obstacleWidth CONFIG \<and>
      ogp (ogpManager w) = None")
    case True
    then have t: "obstacleX w - obstacleSpeed CONFIG < - obstacleWidth CONFIG"
      "ogp (ogpManager w) = None" by simp_all
    show ?thesis
      unfolding update_thrown [OF t] using t(1) by (simp add: step_fields)
  next
    case False
    show ?thesis
      unfolding update_checked [OF False] by (simp add: step_fields)
  qed
  then show
    "birdVelocity (after (update w)) = min (birdVelocity w + gravity CONFIG) (maxVelocity CONFIG)"
    "birdY (after (update w)) =
       birdY w + min (birdVelocity w + gravity CONFIG) (maxVelocity CONFIG)"
    "obstacleX (after (update w)) =
       (if obstacleX w - obstacleSpeed CONFIG < - obstacleWidth CONFIG then canvasWidth CONFIG
        else obstacleX w - obstacleSpeed CONFIG)"
    "score (after (update w)) =
       (if obstacleX w - obstacleSpeed CONFIG < - obstacleWidth CONFIG then score w + 1
        else score w)"
    "gap (after (update w)) = gap w"
    "ogpManager (after (update w)) = ogpManager w"
    "frameHandle (after (update w)) = frameHandle w"
    by simp_all
qed

lemma update_isl_pass:
  "obstacleX w - obstacleSpeed CONFIG < - obstacleWidth CONFIG \<Longrightarrow> ogp (ogpManager w) = None \<Longrightarrow>
     isl (update w)"
  by (simp add: update_thrown)

lemma update_gameRunning_thrown:
  "obstacleX w - obstacleSpeed CONFIG < - obstacleWidth CONFIG \<Longrightarrow> ogp (ogpManager w) = None \<Longrightarrow>
     gameRunning (after (update w)) = gameRunning w"
  by (simp add: update_thrown step_fields)

lemma update_gameRunning:
  assumes "\<not> (obstacleX w - obstacleSpeed CONFIG < - obstacleWidth CONFIG \<and>
              ogp (ogpManager w) = None)"
  shows "gameRunning (after (update w)) \<longleftrightarrow>
     gameRunning w \<and> 0 \<le> birdY (after (update w)) \<and>
     birdY (after (update w)) + birdHeight CONFIG \<le> canvasHeight CONFIG \<and>
     \<not> (birdX CONFIG + birdWidth CONFIG > obstacleX (after (update w)) \<and>
        birdX CONFIG < obstacleX (after (update w)) + obstacleWidth CONFIG \<and>
        (birdY (after (update w)) < obstacleHeight (after (update w)) \<or>
         birdY (after (update w)) + birdHeight CONFIG
           > obstacleHeight (after (update w)) + gap (after (update w))))"
  unfolding update_checked [OF assms] checkCollisions_gameRunning checkCollisions_fields
  by (simp add: step_fields)

lemma gameLoop_stopped: "\<not> gameRunning w \<Longrightarrow> gameLoop w = Inr w"
  by (simp add: gameLoop_def)

lemma gameLoop_thrown:
  "gameRunning w \<Longrightarrow> isl (update w) \<Longrightarrow> gameLoop w = update w"
  by (cases "update w") (simp_all add: gameLoop_def)

lemma gameLoop_returned:
  "gameRunning w \<Longrightarrow> \<not> isl (update w) \<Longrightarrow>
     gameLoop w =
       Inr ((after (update w))\<lparr>animationFrameId := Some (Suc (frameHandle (after (update w)))),
              frameHandle := Suc (frameHandle (after (update w))),
              trace := trace (after (update w)) @
                [Render, RequestAnimationFrame (Suc (frameHandle (after (update w))))]\<rparr>)"
  by (cases "update w")
     (simp_all add: gameLoop_def render_def requestAnimationFrame_def emit_def Let_def)

lemma gameLoop_isl: "isl (gameLoop w) \<longleftrightarrow> gameRunning w \<and> isl (update w)"
  by (cases "update w") (simp_all add: gameLoop_def Let_def split: prod.split)

lemma gameLoop_fields:
  assumes "gameRunning w"
  shows "birdY (after (gameLoop w)) = birdY (after (update w))"
    and "birdVelocity (after (gameLoop w)) = birdVelocity (after (update w))"
    and "birdRotation (after (gameLoop w)) = birdRotation (after (update w))"
    and "birdRotationVelocity (after (gameLoop w)) = birdRotationVelocity (after (update w))"
    and "obstacleX (after (gameLoop w)) = obstacleX (after (update w))"
    and "obstacleHeight (after (gameLoop w)) = obstacleHeight (after (update w))"
    and "gap (after (gameLoop w)) = gap (after (update w))"
    and "score (after (gameLoop w)) = score (after (update w))"
    and "gameRunning (after (gameLoop w)) = gameRunning (after (update w))"
    and "ogpManager (after (gameLoop w)) = ogpManager (after (update w))"
  using assms
  by (cases "isl (update w)"; simp add: gameLoop_thrown gameLoop_returned)+

lemma flap_fields:
  "birdY (flap w) = birdY w"
  "birdVelocity (flap w) = (if gameRunning w then - flapStrength CONFIG else birdVelocity w)"
  "obstacleX (flap w) = obstacleX w"
  "obstacleHeight (flap w) = obstacleHeight w"
  "gap (flap w) = gap w"
  "score (flap w) = score w"
  "gameRunning (flap w) = gameRunning w"
  "trace (flap w) = trace w"
  "ogpManager (flap w) = ogpManager w"
  by (simp_all add: flap_def updateAnimationFrame_def Let_def)

lemma flap_running: "gameRunning w \<Longrightarrow> birdVelocity (flap w) = - flapStrength CONFIG"
  by (simp add: flap_fields)

lemma flap_stopped: "\<not> gameRunning w \<Longrightarrow> flap w = w"
  by (simp add: flap_def)

lemma startGame_unfold:
  "startGame w = gameLoop (resetObstacle
     (w\<lparr>trace := trace w @ [SetDisplay ''startScreen'' ''none'',
                            SetDisplay ''gameOverScreen'' ''none''],
        birdY := birdInitialY CONFIG, birdVelocity := 0, birdRotation := 0,
        birdRotationVelocity := 0, obstacleX := canvasWidth CONFIG, score := 0,
        gameRunning := True, animationFrame := 0, animationCounter := 0\<rparr>))"
  by (simp add: startGame_def emit_def Let_def)

lemma startGame_startState:
  "\<exists>w'. startState w' \<and> startGame w = gameLoop w' \<and> ogpManager w' = ogpManager w \<and>
     gap w' = gap w \<and>
     trace w' = trace w @ [SetDisplay ''startScreen'' ''none'',
                           SetDisplay ''gameOverScreen'' ''none'']"
  unfolding startGame_unfold
  by (rule exI [of _ "resetObstacle
     (w\<lparr>trace := trace w @ [SetDisplay ''startScreen'' ''none'',
                            SetDisplay ''gameOverScreen'' ''none''],
        birdY := birdInitialY CONFIG, birdVelocity := 0, birdRotation := 0,
        birdRotationVelocity := 0, obstacleX := canvasWidth CONFIG, score := 0,
        gameRunning := True, animationFrame := 0, animationCounter := 0\<rparr>)"])
     (simp add: startState_def resetObstacle_fields resetObstacle_def Math_random_def Let_def)

text \<open>The first frame, which \<open>startGame\<close> runs itself, neither passes an obstacle nor collides.\<close>

lemma first_frame:
  assumes "startState w"
  shows "\<not> isl (update w)" and "gameRunning (after (update w))"
    and "birdVelocity (after (update w)) = gravity CONFIG"
    and "birdY (after (update w)) = birdInitialY CONFIG + gravity CONFIG"
proof -
  from assms have s: "birdY w = 300" "birdVelocity w = 0" "obstacleX w = 400" "gameRunning w"
    by (simp_all add: startState_def CONFIG_def)
  have n: "\<not> (obstacleX w - obstacleSpeed CONFIG < - obstacleWidth CONFIG \<and>
      ogp (ogpManager w) = None)"
    using s by (simp add: CONFIG_def)
  show r: "gameRunning (after (update w))"
    unfolding update_gameRunning [OF n] using s by (simp add: update_fields CONFIG_def)
  show "birdVelocity (after (update w)) = gravity CONFIG"
    "birdY (after (update w)) = birdInitialY CONFIG + gravity CONFIG"
    using s by (simp_all add: update_fields CONFIG_def)
  have "isl (checkCollisions x) \<Longrightarrow> \<not> gameRunning (after (checkCollisions x))" for x
    by (auto simp add: checkCollisions_def Let_def endGame_fields split: if_splits)
  with r show "\<not> isl (update w)"
    unfolding update_checked [OF n] by blast
qed

lemma startGame_fields:
  "birdVelocity (after (startGame w)) = min (gravity CONFIG) (maxVelocity CONFIG)"
  "birdY (after (startGame w)) = birdInitialY CONFIG + min (gravity CONFIG) (maxVelocity CONFIG)"
  "gap (after (startGame w)) = gap w"
  "ogpManager (after (startGame w)) = ogpManager w"
proof -
  obtain w' where w': "startState w'" "startGame w = gameLoop w'" "ogpManager w' = ogpManager w"
    "gap w' = gap w"
    using startGame_startState by blast
  from w'(1) have r: "gameRunning w'" "birdVelocity w' = 0" "birdY w' = birdInitialY CONFIG"
    by (simp_all add: startState_def)
  show "birdVelocity (after (startGame w)) = min (gravity CONFIG) (maxVelocity CONFIG)"
    "birdY (after (startGame w)) = birdInitialY CONFIG + min (gravity CONFIG) (maxVelocity CONFIG)"
    "gap (after (startGame w)) = gap w"
    "ogpManager (after (startGame w)) = ogpManager w"
    unfolding w'(2) using r w'(3,4) by (simp_all add: gameLoop_fields update_fields)
qed

lemma perform_ogpManager: "ogpManager (perform op w) = ogpManager w"
proof (cases op)
  case StartGame
  then show ?thesis by (simp add: startGame_fields)
next
  case GameLoop
  then show ?thesis
    by (cases "gameRunning w")
       (simp_all add: frame_def gameLoop_fields gameLoop_stopped update_fields)
next
  case Update
  then show ?thesis by (simp add: step_def update_fields)
next
  case Flap
  then show ?thesis by (simp add: flap_fields)
qed

lemma run_ogpManager: "ogpManager (run ops w) = ogpManager w"
  unfolding run_def by (induction ops arbitrary: w) (simp_all add: perform_ogpManager)

lemma perform_birdVelocity:
  assumes "birdVelocity w \<le> maxVelocity CONFIG"
  shows "birdVelocity (perform op w) \<le> maxVelocity CONFIG"
proof (cases op)
  case StartGame
  then show ?thesis by (simp add: startGame_fields)
next
  case GameLoop
  with assms show ?thesis
    by (cases "gameRunning w")
       (simp_all add: frame_def gameLoop_fields gameLoop_stopped update_fields)
next
  case Update
  then show ?thesis by (simp add: step_def update_fields)
next
  case Flap
  with assms show ?thesis by (simp add: flap_fields CONFIG_def)
qed

lemma run_birdVelocity:
  "birdVelocity w \<le> maxVelocity CONFIG \<Longrightarrow> birdVelocity (run ops w) \<le> maxVelocity CONFIG"
  unfolding run_def
  by (induction ops arbitrary: w) (simp_all add: perform_birdVelocity)

lemma perform_gap: "gap (perform op w) = gap w"
proof (cases op)
  case StartGame
  then show ?thesis by (simp add: startGame_fields)
next
  case GameLoop
  then show ?thesis
    by (cases "gameRunning w")
       (simp_all add: frame_def gameLoop_fields gameLoop_stopped update_fields)
next
  case Update
  then show ?thesis by (simp add: step_def update_fields)
next
  case Flap
  then show ?thesis by (simp add: flap_fields)
qed

lemma run_gap: "gap (run ops w) = gap w"
  unfolding run_def by (induction ops arbitrary: w) (simp_all add: perform_gap)

text \<open>
  With an SDK object in place no frame is cut short, and the bird of a running game is in
  range after every operation.
\<close>

lemma update_running_bounds:
  assumes "\<not> (obstacleX w - obstacleSpeed CONFIG < - obstacleWidth CONFIG \<and>
              ogp (ogpManager w) = None)"
    and "gameRunning (after (update w))"
  shows "0 \<le> birdY (after (update w)) \<and>
     birdY (after (update w)) \<le> canvasHeight CONFIG - birdHeight CONFIG"
  using assms(2) unfolding update_gameRunning [OF assms(1)] by auto

lemma gameLoop_inBounds:
  assumes "ogp (ogpManager w) \<noteq> None"
    and "gameRunning w \<longrightarrow> 0 \<le> birdY w \<and> birdY w \<le> canvasHeight CONFIG - birdHeight CONFIG"
  shows "gameRunning (after (gameLoop w)) \<longrightarrow>
     0 \<le> birdY (after (gameLoop w)) \<and>
     birdY (after (gameLoop w)) \<le> canvasHeight CONFIG - birdHeight CONFIG"
proof (cases "gameRunning w")
  case True
  from assms(1) have "\<not> (obstacleX w - obstacleSpeed CONFIG < - obstacleWidth CONFIG \<and>
              ogp (ogpManager w) = None)" by simp
  from update_running_bounds [OF this] True show ?thesis by (simp add: gameLoop_fields)
next
  case False
  then show ?thesis by (simp add: gameLoop_stopped)
qed

lemma perform_inBounds:
  assumes "ogp (ogpManager w) \<noteq> None"
    and "gameRunning w \<longrightarrow> 0 \<le> birdY w \<and> birdY w \<le> canvasHeight CONFIG - birdHeight CONFIG"
  shows "gameRunning (perform op w) \<longrightarrow>
     0 \<le> birdY (perform op w) \<and> birdY (perform op w) \<le> canvasHeight CONFIG - birdHeight CONFIG"
proof (cases op)
  case StartGame
  obtain w' where w': "startState w'" "startGame w = gameLoop w'" "ogpManager w' = ogpManager w"
    using startGame_startState by blast
  from w'(1) have "gameRunning w' \<longrightarrow>
      0 \<le> birdY w' \<and> birdY w' \<le> canvasHeight CONFIG - birdHeight CONFIG"
    by (simp add: startState_def CONFIG_def)
  from gameLoop_inBounds [OF _ this] assms(1) StartGame w'(2,3) show ?thesis by simp
next
  case GameLoop
  with gameLoop_inBounds [OF assms] show ?thesis by (simp add: frame_def)
next
  case Update
  from assms(1) have "\<not> (obstacleX w - obstacleSpeed CONFIG < - obstacleWidth CONFIG \<and>
              ogp (ogpManager w) = None)" by simp
  from update_running_bounds [OF this] Update show ?thesis by (simp add: step_def)
next
  case Flap
  with assms show ?thesis by (simp add: flap_fields)
qed

lemma run_inBounds:
  "ogp (ogpManager w) \<noteq> None \<Longrightarrow>
   gameRunning w \<longrightarrow> 0 \<le> birdY w \<and> birdY w \<le> canvasHeight CONFIG - birdHeight CONFIG \<Longrightarrow>
   gameRunning (run ops w) \<longrightarrow>
     0 \<le> birdY (run ops w) \<and> birdY (run ops w) \<le> canvasHeight CONFIG - birdHeight CONFIG"
  unfolding run_def
proof (induction ops arbitrary: w)
  case Nil
  then show ?case by simp
next
  case (Cons op ops)
  have "ogp (ogpManager (perform op w)) \<noteq> None"
    using Cons.prems(1) by (simp add: perform_ogpManager)
  from Cons.IH [OF this perform_inBounds [OF Cons.prems]] show ?case by simp
qed

lemma resetObstacle_range:
  assumes "gap w = gapSize CONFIG" "0 \<le> random w (randomCalls w)" "random w (randomCalls w) < 1"
  shows "50 \<le> obstacleHeight (resetObstacle w) \<and>
         obstacleHeight (resetObstacle w) \<le> canvasHeight CONFIG - gapSize CONFIG - 50 \<and>
         obstacleX (resetObstacle w) = canvasWidth CONFIG"
  using assms by (simp add: resetObstacle_fields CONFIG_def)

lemma clamp_max_min: "0 \<le> m \<Longrightarrow> clamp x (- m) m = max (- m) (min m x)"
  by (simp add: clamp_def max_def min_def)

lemma updateBirdRotation_spec:
  "updateBirdRotation w =
     (let (r, rv) = spec_rotation (rotationSensitivity CONFIG) (maxRotation CONFIG) 0.1
                      (rotationFriction CONFIG) (birdVelocity w)
                      (birdRotation w, birdRotationVelocity w)
      in w\<lparr>birdRotationVelocity := rv, birdRotation := r\<rparr>)"
proof -
  have "0 \<le> maxRotation CONFIG" by (simp add: CONFIG_def)
  then show ?thesis
    by (simp add: updateBirdRotation_def spec_rotation_def Let_def clamp_max_min)
qed

lemma update_rotation_fields:
  "birdRotationVelocity (after (update w)) =
     birdRotationVelocity (updateBirdRotation (updateBirdPosition w))"
  "birdRotation (after (update w)) = birdRotation (updateBirdRotation (updateBirdPosition w))"
proof -
  have "birdRotationVelocity (after (update w)) =
     birdRotationVelocity (updateBirdRotation (updateBirdPosition w)) \<and>
    birdRotation (after (update w)) = birdRotation (updateBirdRotation (updateBirdPosition w))"
  proof (cases "obstacleX w - obstacleSpeed CONFIG < - obstacleWidth CONFIG \<and>
      ogp (ogpManager w) = None")
    case True
    then have t: "obstacleX w - obstacleSpeed CONFIG < - obstacleWidth CONFIG"
      "ogp (ogpManager w) = None" by simp_all
    show ?thesis
      unfolding update_thrown [OF t]
      by (simp add: updateObstaclePassed_fields updateObstaclePosition_fields)
  next
    case False
    show ?thesis
      unfolding update_checked [OF False]
      by (simp add: checkCollisions_fields updateAnimation_fields updateObstaclePassed_fields
          updateObstaclePosition_fields)
  qed
  then show "birdRotationVelocity (after (update w)) =
     birdRotationVelocity (updateBirdRotation (updateBirdPosition w))"
    "birdRotation (after (update w)) = birdRotation (updateBirdRotation (updateBirdPosition w))"
    by simp_all
qed

lemma update_rotation:
  "birdRotationVelocity (after (update w)) =
     (birdRotationVelocity w +
      (clamp (birdVelocity (after (update w)) * rotationSensitivity CONFIG)
         (- maxRotation CONFIG) (maxRotation CONFIG) - birdRotation w) * 0.1)
     * rotationFriction CONFIG"
  "birdRotation (after (update w)) = birdRotation w + birdRotationVelocity (after (update w))"
proof -
  have m: "0 \<le> maxRotation CONFIG" by (simp add: CONFIG_def)
  show "birdRotationVelocity (after (update w)) =
     (birdRotationVelocity w +
      (clamp (birdVelocity (after (update w)) * rotationSensitivity CONFIG)
         (- maxRotation CONFIG) (maxRotation CONFIG) - birdRotation w) * 0.1)
     * rotationFriction CONFIG"
    unfolding update_fields update_rotation_fields clamp_max_min [OF m]
    by (simp add: updateBirdRotation_def Let_def updateBirdPosition_fields)
  show "birdRotation (after (update w)) = birdRotation w + birdRotationVelocity (after (update w))"
    unfolding update_rotation_fields
    by (simp add: updateBirdRotation_def Let_def updateBirdPosition_fields)
qed

lemma endGame_frame:
  "after (endGame w) =
     w\<lparr>gameRunning := False,
       animationFrameId := (case animationFrameId w of None \<Rightarrow> None
                            | Some h \<Rightarrow> if h \<noteq> 0 then None else Some h),
       trace := trace (after (endGame w))\<rparr>"
  by (simp add: endGame_def saveScore_def cancelAnimationFrame_def emit_def Let_def
      split: option.split outcome.split)

lemma endGame_reports:
  "trace (after (endGame w)) =
     trace w @ (case animationFrameId w of None \<Rightarrow> []
                | Some h \<Rightarrow> if h \<noteq> 0 then [CancelAnimationFrame h] else [])
     @ [SetTextContent ''roundScore'' (score w), SetDisplay ''gameOverScreen'' ''block'']
     @ (if score w > 0 then trace (after (saveScore (score w) (w\<lparr>trace := []\<rparr>))) else [])"
  by (simp add: endGame_def saveScore_def cancelAnimationFrame_def emit_def Let_def
      split: option.split outcome.split)

lemma saveScore_calls_append:
  "saveScore_calls (xs @ ys) = saveScore_calls xs @ saveScore_calls ys"
  by (induction xs rule: saveScore_calls.induct) simp_all

lemma saveScore_saveScore_calls:
  "saveScore_calls (trace (after (saveScore points w))) = saveScore_calls (trace w) @ [points]"
  by (simp add: saveScore_def emit_def Let_def saveScore_calls_append
      split: option.split outcome.split)

lemma endGame_saveScore_calls:
  "saveScore_calls (trace (after (endGame w))) =
     saveScore_calls (trace w) @ (if score w > 0 then [score w] else [])"
  by (simp add: endGame_def saveScore_def cancelAnimationFrame_def emit_def Let_def
      saveScore_calls_append split: option.split outcome.split)

lemma checkCollisions_cases:
  "gameRunning w \<Longrightarrow> gameRunning (after (checkCollisions w)) \<Longrightarrow> checkCollisions w = Inr w"
  "gameRunning w \<Longrightarrow> \<not> gameRunning (after (checkCollisions w)) \<Longrightarrow> checkCollisions w = endGame w"
  by (auto simp add: checkCollisions_def Let_def endGame_fields split: if_splits)

lemma updateObstaclePassed_saveScore_calls:
  "saveScore_calls (trace (after (updateObstaclePassed w))) = saveScore_calls (trace w)"
  by (simp add: updateObstaclePassed_def addPoints_def emit_def Let_def resetObstacle_fields
      saveScore_calls_append split: option.split)

lemma update_trace_pre:
  "saveScore_calls (trace (updateAnimation (after (updateObstaclePassed (updateObstaclePosition
       (updateBirdRotation (updateBirdPosition w))))))) = saveScore_calls (trace w)"
  "saveScore_calls (trace (after (updateObstaclePassed (updateObstaclePosition
       (updateBirdRotation (updateBirdPosition w)))))) = saveScore_calls (trace w)"
  by (simp_all add: updateAnimation_fields updateObstaclePassed_saveScore_calls
      updateObstaclePosition_fields updateBirdRotation_fields updateBirdPosition_fields)

lemma update_saveScore_calls:
  assumes "gameRunning w"
  shows "saveScore_calls (trace (after (update w))) =
     saveScore_calls (trace w) @
       (if gameRunning (after (update w)) then []
        else if score (after (update w)) > 0 then [score (after (update w))] else [])"
proof (cases "obstacleX w - obstacleSpeed CONFIG < - obstacleWidth CONFIG \<and>
      ogp (ogpManager w) = None")
  case True
  then have t: "obstacleX w - obstacleSpeed CONFIG < - obstacleWidth CONFIG"
    "ogp (ogpManager w) = None" by simp_all
  have "gameRunning (after (update w))"
    using assms by (simp add: update_gameRunning_thrown [OF t])
  then show ?thesis
    by (simp add: update_thrown [OF t] update_trace_pre)
next
  case False
  define v where "v = updateAnimation (after (updateObstaclePassed (updateObstaclePosition
       (updateBirdRotation (updateBirdPosition w)))))"
  have r: "gameRunning v" using assms by (simp add: v_def step_fields)
  have u: "update w = checkCollisions v" unfolding v_def by (rule update_checked [OF False])
  have t: "saveScore_calls (trace v) = saveScore_calls (trace w)"
    unfolding v_def by (rule update_trace_pre)
  show ?thesis
  proof (cases "gameRunning (after (checkCollisions v))")
    case True
    with checkCollisions_cases(1) [OF r] have "checkCollisions v = Inr v" by simp
    with True u show ?thesis by (simp add: t)
  next
    case False
    with checkCollisions_cases(2) [OF r] have e: "checkCollisions v = endGame v" by simp
    have "score (after (update w)) = score v" unfolding u by (simp add: checkCollisions_fields)
    with False u e show ?thesis
      by (simp add: endGame_saveScore_calls t)
  qed
qed

lemma gameLoop_saveScore_calls:
  assumes "gameRunning w"
  shows "saveScore_calls (trace (after (gameLoop w))) =
     saveScore_calls (trace w) @
       (if gameRunning (after (gameLoop w)) then []
        else if score (after (gameLoop w)) > 0 then [score (after (gameLoop w))] else [])"
proof -
  have "saveScore_calls (trace (after (gameLoop w))) = saveScore_calls (trace (after (update w)))"
    using assms
    by (cases "isl (update w)")
       (simp_all add: gameLoop_thrown gameLoop_returned saveScore_calls_append)
  with update_saveScore_calls [OF assms] assms show ?thesis
    by (simp add: gameLoop_fields)
qed

lemma startGame_saveScore_calls:
  "saveScore_calls (trace (after (startGame w))) = saveScore_calls (trace w)"
proof -
  obtain w' where w': "startState w'" "startGame w = gameLoop w'"
    "trace w' = trace w @ [SetDisplay ''startScreen'' ''none'',
                           SetDisplay ''gameOverScreen'' ''none'']"
    using startGame_startState by blast
  from w'(1) have r: "gameRunning w'" by (simp add: startState_def)
  have "gameRunning (after (gameLoop w'))"
    using first_frame(2) [OF w'(1)] r by (simp add: gameLoop_fields)
  with gameLoop_saveScore_calls [OF r] w'(2,3) show ?thesis
    by (simp add: saveScore_calls_append)
qed

text \<open>An obstacle that is still far enough to the right is not passed.\<close>

lemma funpow_obstacle:
  "2 * real n \<le> obstacleX w + obstacleWidth CONFIG \<Longrightarrow>
     obstacleX ((step ^^ n) w) = obstacleX w - 2 * real n \<and>
     score ((step ^^ n) w) = score w"
proof (induction n)
  case 0
  then show ?case by simp
next
  case (Suc n)
  then show ?case by (simp add: step_def update_fields CONFIG_def)
qed

lemma run_no_pass:
  "set ops \<subseteq> {Update, GameLoop, Flap} \<Longrightarrow>
   2 * real (count_list ops Update + count_list ops GameLoop) \<le> obstacleX w + obstacleWidth CONFIG \<Longrightarrow>
   score (run ops w) = score w"
  unfolding run_def
proof (induction ops arbitrary: w)
  case Nil
  then show ?case by simp
next
  case (Cons op ops)
  show ?case
  proof (cases op)
    case StartGame
    with Cons.prems show ?thesis by simp
  next
    case GameLoop
    show ?thesis
    proof (cases "gameRunning w")
      case True
      with GameLoop Cons.prems
      have "score (fold perform ops (after (gameLoop w))) = score (after (gameLoop w))"
        by (intro Cons.IH) (simp_all add: gameLoop_fields update_fields CONFIG_def)
      with True GameLoop Cons.prems show ?thesis
        by (simp add: frame_def gameLoop_fields update_fields CONFIG_def)
    next
      case False
      with GameLoop Cons.prems have "score (fold perform ops w) = score w"
        by (intro Cons.IH) simp_all
      with False GameLoop show ?thesis by (simp add: frame_def gameLoop_stopped)
    qed
  next
    case Update
    with Cons.prems have "score (fold perform ops (after (update w))) = score (after (update w))"
      by (intro Cons.IH) (simp_all add: update_fields CONFIG_def)
    with Update Cons.prems show ?thesis by (simp add: step_def update_fields CONFIG_def)
  next
    case Flap
    with Cons.prems have "score (fold perform ops (flap w)) = score (flap w)"
      by (intro Cons.IH) (simp_all add: flap_fields)
    with Flap show ?thesis by (simp add: flap_fields)
  qed
qed

lemma checkCollisions_not_thrown: "score w \<le> 0 \<Longrightarrow> \<not> isl (checkCollisions w)"
  by (simp add: checkCollisions_def endGame_isl Let_def)

lemma update_not_thrown:
  assumes "\<not> obstacleX w - obstacleSpeed CONFIG < - obstacleWidth CONFIG" and "score w \<le> 0"
  shows "\<not> isl (update w)"
proof -
  from assms(1) have n: "\<not> (obstacleX w - obstacleSpeed CONFIG < - obstacleWidth CONFIG \<and>
      ogp (ogpManager w) = None)" by simp
  show ?thesis
    unfolding update_checked [OF n]
    using assms by (intro checkCollisions_not_thrown) (simp add: step_fields)
qed

lemma update_sdk_not_thrown: "ogp (ogpManager w) \<noteq> None \<Longrightarrow> \<not> isl (update w)"
proof -
  assume a: "ogp (ogpManager w) \<noteq> None"
  then have n: "\<not> (obstacleX w - obstacleSpeed CONFIG < - obstacleWidth CONFIG \<and>
      ogp (ogpManager w) = None)" by simp
  have "\<not> isl (checkCollisions x)" if "ogp (ogpManager x) \<noteq> None" for x
    using that by (simp add: checkCollisions_def endGame_isl Let_def)
  then show ?thesis
    unfolding update_checked [OF n] using a by (simp add: step_fields)
qed

lemma frame_Suc: "(frame ^^ Suc k) w = after (gameLoop ((frame ^^ k) w))"
  by (simp add: frame_def)

text \<open>Free fall from the start: the velocity grows by the gravity until it is capped.\<close>

lemma falling_accelerating:
  "startState w \<Longrightarrow> k \<le> 100 \<Longrightarrow>
     gameRunning ((frame ^^ k) w) \<and>
     birdVelocity ((frame ^^ k) w) = real k / 20 \<and>
     birdY ((frame ^^ k) w) = 300 + real k * (real k + 1) / 40 \<and>
     obstacleX ((frame ^^ k) w) = 400 - 2 * real k \<and>
     score ((frame ^^ k) w) = 0"
proof (induction k)
  case 0
  then show ?case by (simp add: startState_def CONFIG_def)
next
  case (Suc k)
  let ?v = "(frame ^^ k) w"
  from Suc have run: "gameRunning ?v" and vel: "birdVelocity ?v = real k / 20"
    and y: "birdY ?v = 300 + real k * (real k + 1) / 40"
    and x: "obstacleX ?v = 400 - 2 * real k" and k: "real k + 1 \<le> 100"
    and s: "score ?v = 0"
    by simp_all
  have n: "\<not> (obstacleX ?v - obstacleSpeed CONFIG < - obstacleWidth CONFIG \<and>
      ogp (ogpManager ?v) = None)"
    using x k by (simp add: CONFIG_def)
  have vel': "birdVelocity (after (update ?v)) = (real k + 1) / 20"
    using vel k by (simp add: update_fields CONFIG_def min_def field_simps)
  have y': "birdY (after (update ?v)) = 300 + (real k + 1) * (real k + 2) / 40"
    using vel k y by (simp add: update_fields CONFIG_def min_def field_simps)
  have x': "obstacleX (after (update ?v)) = 400 - 2 * (real k + 1)"
    using x k by (simp add: update_fields CONFIG_def)
  have s': "score (after (update ?v)) = 0"
    using x k s by (simp add: update_fields CONFIG_def)
  have "(real k + 1) * (real k + 2) \<le> 100 * 101"
    using k by (intro mult_mono) simp_all
  then have yb: "birdY (after (update ?v)) \<le> 570" "0 \<le> birdY (after (update ?v))"
    unfolding y' by simp_all
  have "gameRunning (after (update ?v))"
    unfolding update_gameRunning [OF n] using run yb x' k by (simp add: CONFIG_def)
  with vel' y' x' s' run show ?case
    unfolding frame_Suc by (simp add: gameLoop_fields add.commute)
qed

lemma falling_terminal:
  "gameRunning v \<and> birdVelocity v = 5 \<and> birdY v = 552.5 \<and> obstacleX v = 200 \<and> score v = 0 \<Longrightarrow>
   j \<le> 3 \<Longrightarrow>
     gameRunning ((frame ^^ j) v) \<and>
     birdVelocity ((frame ^^ j) v) = 5 \<and>
     birdY ((frame ^^ j) v) = 552.5 + 5 * real j \<and>
     obstacleX ((frame ^^ j) v) = 200 - 2 * real j \<and>
     score ((frame ^^ j) v) = 0"
proof (induction j)
  case 0
  then show ?case by simp
next
  case (Suc j)
  let ?v = "(frame ^^ j) v"
  from Suc have run: "gameRunning ?v" and vel: "birdVelocity ?v = 5"
    and y: "birdY ?v = 552.5 + 5 * real j"
    and x: "obstacleX ?v = 200 - 2 * real j" and j: "real j \<le> 2"
    and s: "score ?v = 0"
    by simp_all
  have n: "\<not> (obstacleX ?v - obstacleSpeed CONFIG < - obstacleWidth CONFIG \<and>
      ogp (ogpManager ?v) = None)"
    using x j by (simp add: CONFIG_def)
  have vel': "birdVelocity (after (update ?v)) = 5"
    using vel by (simp add: update_fields CONFIG_def)
  have y': "birdY (after (update ?v)) = 552.5 + 5 * (real j + 1)"
    using vel y by (simp add: update_fields CONFIG_def)
  have x': "obstacleX (after (update ?v)) = 200 - 2 * (real j + 1)"
    using x j by (simp add: update_fields CONFIG_def)
  have s': "score (after (update ?v)) = 0"
    using x j s by (simp add: update_fields CONFIG_def)
  have "gameRunning (after (update ?v))"
    unfolding update_gameRunning [OF n] using run y' x' j by (simp add: CONFIG_def)
  with vel' y' x' s' run show ?case
    unfolding frame_Suc by (simp add: gameLoop_fields add.commute)
qed

lemma falling_ground:
  assumes "startState w"
  shows "gameRunning ((frame ^^ 103) w)"
    and "\<not> gameRunning ((frame ^^ 104) w)"
    and "birdY ((frame ^^ 104) w) = 572.5"
    and "gameLoop ((frame ^^ 103) w) = Inr ((frame ^^ 104) w)"
proof -
  let ?u = "(frame ^^ 100) w"
  let ?v = "(frame ^^ 3) ?u"
  have four: "(frame ^^ 4) x = after (gameLoop ((frame ^^ 3) x))" for x
    using frame_Suc [of 3 x] by simp
  have "(frame ^^ (3 + 100)) w = ?v"
    "(frame ^^ (4 + 100)) w = after (gameLoop ?v)"
    unfolding funpow_add by (simp_all add: four)
  then have s: "(frame ^^ 103) w = ?v"
    "(frame ^^ 104) w = after (gameLoop ?v)"
    by simp_all
  from falling_accelerating [OF assms, of 100]
  have "gameRunning ?u \<and> birdVelocity ?u = 5 \<and> birdY ?u = 552.5 \<and> obstacleX ?u = 200 \<and>
      score ?u = 0"
    by simp
  from falling_terminal [OF this, of 3]
  have run: "gameRunning ?v" and vel: "birdVelocity ?v = 5" and y: "birdY ?v = 567.5"
    and x: "obstacleX ?v = 194" and sc: "score ?v = 0"
    by simp_all
  have n: "\<not> obstacleX ?v - obstacleSpeed CONFIG < - obstacleWidth CONFIG"
    using x by (simp add: CONFIG_def)
  then have n': "\<not> (obstacleX ?v - obstacleSpeed CONFIG < - obstacleWidth CONFIG \<and>
      ogp (ogpManager ?v) = None)" by simp
  have y': "birdY (after (update ?v)) = 572.5"
    using vel y by (simp add: update_fields CONFIG_def)
  have "\<not> gameRunning (after (update ?v))"
    unfolding update_gameRunning [OF n'] using y' by (simp add: CONFIG_def)
  with run y' show "gameRunning ((frame ^^ 103) w)"
    "\<not> gameRunning ((frame ^^ 104) w)"
    "birdY ((frame ^^ 104) w) = 572.5"
    unfolding s by (simp_all add: gameLoop_fields)
  have "\<not> isl (update ?v)" using n sc by (intro update_not_thrown) simp_all
  then have "\<not> isl (gameLoop ?v)" by (simp add: gameLoop_isl)
  then show "gameLoop ((frame ^^ 103) w) = Inr ((frame ^^ 104) w)"
    unfolding s by (rule result_returned)
qed

lemma gameLoop_stays_stopped:
  "\<not> gameRunning w \<Longrightarrow> (frame ^^ n) w = w"
  by (induction n) (simp_all add: frame_def gameLoop_stopped funpow_swap1)

text \<open>
  Replacing the manager by one that agrees with it on whether there is an SDK object and
  on \<open>isInitialized\<close> changes the trace and nothing else.
\<close>

lemma pre_collision_manager:
  "updateBirdPosition (w\<lparr>ogpManager := m\<rparr>) = (updateBirdPosition w)\<lparr>ogpManager := m\<rparr>"
  "updateBirdRotation (w\<lparr>ogpManager := m\<rparr>) = (updateBirdRotation w)\<lparr>ogpManager := m\<rparr>"
  "updateObstaclePosition (w\<lparr>ogpManager := m\<rparr>) = (updateObstaclePosition w)\<lparr>ogpManager := m\<rparr>"
  "updateAnimation (w\<lparr>ogpManager := m\<rparr>) = (updateAnimation w)\<lparr>ogpManager := m\<rparr>"
  by (simp_all add: updateBirdPosition_def updateBirdRotation_def updateObstaclePosition_def
      updateAnimation_def updateAnimationFrame_def Let_def)

lemma updateObstaclePassed_manager:
  "(ogp m = None \<longleftrightarrow> ogp (ogpManager w) = None) \<Longrightarrow>
     after (updateObstaclePassed (w\<lparr>ogpManager := m\<rparr>)) =
       (after (updateObstaclePassed w))\<lparr>ogpManager := m\<rparr>"
  by (cases "ogp m"; cases "ogp (ogpManager w)")
     (simp_all add: updateObstaclePassed_def resetObstacle_def Math_random_def addPoints_def
        emit_def Let_def)

lemma endGame_manager:
  "(after (endGame (w\<lparr>ogpManager := m\<rparr>)))\<lparr>trace := t\<rparr> =
     (after (endGame w))\<lparr>ogpManager := m, trace := t\<rparr>"
  by (simp add: endGame_def saveScore_def cancelAnimationFrame_def emit_def Let_def
      split: option.split outcome.split)

lemma checkCollisions_manager:
  "(after (checkCollisions (w\<lparr>ogpManager := m\<rparr>)))\<lparr>trace := t\<rparr> =
     (after (checkCollisions w))\<lparr>ogpManager := m, trace := t\<rparr>"
  by (auto simp add: checkCollisions_def Let_def endGame_manager)

lemma checkCollisions_isl_manager:
  "(ogp m = None \<longleftrightarrow> ogp (ogpManager w) = None) \<Longrightarrow>
   isInitialized m = isInitialized (ogpManager w) \<Longrightarrow>
     isl (checkCollisions (w\<lparr>ogpManager := m\<rparr>)) = isl (checkCollisions w)"
  by (auto simp add: checkCollisions_def Let_def endGame_isl)

lemma update_manager:
  assumes "ogp m = None \<longleftrightarrow> ogp (ogpManager w) = None"
  shows "(after (update (w\<lparr>ogpManager := m\<rparr>)))\<lparr>trace := t\<rparr> =
     (after (update w))\<lparr>ogpManager := m, trace := t\<rparr>"
proof (cases "obstacleX w - obstacleSpeed CONFIG < - obstacleWidth CONFIG \<and>
      ogp (ogpManager w) = None")
  case True
  then have t: "obstacleX w - obstacleSpeed CONFIG < - obstacleWidth CONFIG"
    "ogp (ogpManager w) = None" by simp_all
  have t': "obstacleX (w\<lparr>ogpManager := m\<rparr>) - obstacleSpeed CONFIG < - obstacleWidth CONFIG"
    "ogp (ogpManager (w\<lparr>ogpManager := m\<rparr>)) = None"
    using t assms by simp_all
  have a: "ogp m = None \<longleftrightarrow> ogp (ogpManager (updateObstaclePosition (updateBirdRotation
      (updateBirdPosition w)))) = None"
    using assms
    by (simp add: updateObstaclePosition_fields updateBirdRotation_fields
        updateBirdPosition_fields)
  show ?thesis
    unfolding update_thrown [OF t] update_thrown [OF t']
    by (simp add: pre_collision_manager updateObstaclePassed_manager [OF a])
next
  case False
  then have f': "\<not> (obstacleX (w\<lparr>ogpManager := m\<rparr>) - obstacleSpeed CONFIG
      < - obstacleWidth CONFIG \<and> ogp (ogpManager (w\<lparr>ogpManager := m\<rparr>)) = None)"
    using assms by simp
  have a: "ogp m = None \<longleftrightarrow> ogp (ogpManager (updateObstaclePosition (updateBirdRotation
      (updateBirdPosition w)))) = None"
    using assms
    by (simp add: updateObstaclePosition_fields updateBirdRotation_fields
        updateBirdPosition_fields)
  show ?thesis
    unfolding update_checked [OF False] update_checked [OF f']
    by (simp add: pre_collision_manager updateObstaclePassed_manager [OF a]
        checkCollisions_manager)
qed

lemma update_isl_manager:
  assumes "ogp m = None \<longleftrightarrow> ogp (ogpManager w) = None"
    and "isInitialized m = isInitialized (ogpManager w)"
  shows "isl (update (w\<lparr>ogpManager := m\<rparr>)) = isl (update w)"
proof (cases "obstacleX w - obstacleSpeed CONFIG < - obstacleWidth CONFIG \<and>
      ogp (ogpManager w) = None")
  case True
  then have t: "obstacleX w - obstacleSpeed CONFIG < - obstacleWidth CONFIG"
    "ogp (ogpManager w) = None" by simp_all
  have t': "obstacleX (w\<lparr>ogpManager := m\<rparr>) - obstacleSpeed CONFIG < - obstacleWidth CONFIG"
    "ogp (ogpManager (w\<lparr>ogpManager := m\<rparr>)) = None"
    using t assms by simp_all
  show ?thesis
    unfolding update_thrown [OF t] update_thrown [OF t'] by simp
next
  case False
  then have f': "\<not> (obstacleX (w\<lparr>ogpManager := m\<rparr>) - obstacleSpeed CONFIG
      < - obstacleWidth CONFIG \<and> ogp (ogpManager (w\<lparr>ogpManager := m\<rparr>)) = None)"
    using assms by simp
  define v where "v = updateAnimation (after (updateObstaclePassed (updateObstaclePosition
      (updateBirdRotation (updateBirdPosition w)))))"
  have a: "ogp m = None \<longleftrightarrow> ogp (ogpManager (updateObstaclePosition (updateBirdRotation
      (updateBirdPosition w)))) = None"
    using assms
    by (simp add: updateObstaclePosition_fields updateBirdRotation_fields
        updateBirdPosition_fields)
  have m: "ogpManager v = ogpManager w" by (simp add: v_def step_fields)
  have "isl (checkCollisions (v\<lparr>ogpManager := m\<rparr>)) = isl (checkCollisions v)"
    using assms by (intro checkCollisions_isl_manager) (simp_all add: m)
  then show ?thesis
    unfolding update_checked [OF False] update_checked [OF f']
    by (simp add: pre_collision_manager updateObstaclePassed_manager [OF a] v_def)
qed

lemma update_state_independent:
  assumes "ogp m = None \<longleftrightarrow> ogp (ogpManager w) = None"
  shows "gameState.truncate (after (update (w\<lparr>ogpManager := m\<rparr>))) =
      gameState.truncate (after (update w))"
    and "frameHandle (after (update (w\<lparr>ogpManager := m\<rparr>))) = frameHandle (after (update w))"
  using arg_cong [OF update_manager [OF assms, where t = "[]"], of gameState.truncate]
    arg_cong [OF update_manager [OF assms, where t = "[]"], of frameHandle]
  by (simp_all add: gameState.truncate_def)

lemma gameLoop_truncate:
  "gameRunning w \<Longrightarrow>
     gameState.truncate (after (gameLoop w)) =
       (if isl (update w) then gameState.truncate (after (update w))
        else (gameState.truncate (after (update w)))
               \<lparr>animationFrameId := Some (Suc (frameHandle (after (update w))))\<rparr>)"
  by (simp add: gameLoop_thrown gameLoop_returned gameState.truncate_def)

lemma gameLoop_state_independent:
  assumes "ogp m = None \<longleftrightarrow> ogp (ogpManager w) = None"
    and "isInitialized m = isInitialized (ogpManager w)"
  shows "gameState.truncate (after (gameLoop (w\<lparr>ogpManager := m\<rparr>))) =
     gameState.truncate (after (gameLoop w))"
proof (cases "gameRunning w")
  case True
  then have "gameRunning (w\<lparr>ogpManager := m\<rparr>)" by simp
  from gameLoop_truncate [OF this] gameLoop_truncate [OF True] show ?thesis
    by (simp only: update_state_independent [OF assms(1)] update_isl_manager [OF assms])
next
  case False
  then show ?thesis by (simp add: gameLoop_stopped gameState.truncate_def)
qed

lemma gameLoop_isl_manager:
  assumes "ogp m = None \<longleftrightarrow> ogp (ogpManager w) = None"
    and "isInitialized m = isInitialized (ogpManager w)"
  shows "isl (gameLoop (w\<lparr>ogpManager := m\<rparr>)) = isl (gameLoop w)"
  by (simp add: gameLoop_isl update_isl_manager [OF assms])

subsection \<open>A game without the SDK object, up to the first obstacle\<close>

lemma update_no_pass_obstacleHeight:
  assumes "\<not> obstacleX w - obstacleSpeed CONFIG < - obstacleWidth CONFIG"
  shows "obstacleHeight (after (update w)) = obstacleHeight w"
proof -
  from assms have n: "\<not> (obstacleX w - obstacleSpeed CONFIG < - obstacleWidth CONFIG \<and>
      ogp (ogpManager w) = None)" by simp
  have "obstacleHeight (after (updateObstaclePassed x)) = obstacleHeight x"
    if "\<not> obstacleX x < - obstacleWidth CONFIG" for x
    using that by (simp add: updateObstaclePassed_def)
  then show ?thesis
    unfolding update_checked [OF n] using assms
    by (simp add: checkCollisions_fields updateAnimation_fields updateObstaclePosition_fields
        updateBirdRotation_fields updateBirdPosition_fields)
qed

lemma run_append: "run (xs @ ys) w = run ys (run xs w)"
  by (simp add: run_def)

lemma run_frames: "run (replicate n GameLoop) w = (frame ^^ n) w"
  unfolding run_def
  by (induction n arbitrary: w) (simp_all add: funpow_swap1)

text \<open>Sixty-six frames of free fall from the start leave the obstacle as it was drawn.\<close>

lemma falling_obstacle:
  "startState w \<Longrightarrow> k \<le> 100 \<Longrightarrow>
     obstacleHeight ((frame ^^ k) w) = obstacleHeight w \<and> gap ((frame ^^ k) w) = gap w \<and>
     ogpManager ((frame ^^ k) w) = ogpManager w"
proof (induction k)
  case 0
  then show ?case by simp
next
  case (Suc k)
  let ?v = "(frame ^^ k) w"
  from Suc.prems falling_accelerating [of w k]
  have r: "gameRunning ?v" and x: "obstacleX ?v = 400 - 2 * real k" and k: "real k + 1 \<le> 100"
    by simp_all
  have n: "\<not> obstacleX ?v - obstacleSpeed CONFIG < - obstacleWidth CONFIG"
    using x k by (simp add: CONFIG_def)
  from Suc r update_no_pass_obstacleHeight [OF n] show ?case
    unfolding frame_Suc by (simp add: gameLoop_fields update_fields)
qed

text \<open>
  The hop after a flap at frame 66, with the gap between 340 and 490: the bird stays in
  range and inside the gap for 159 frames.
\<close>

lemma hop:
  assumes v: "gameRunning v" "birdVelocity v = - 3" "birdY v = 410.55" "obstacleX v = 268"
    "obstacleHeight v = 340" "gap v = 150"
  shows "n \<le> 159 \<Longrightarrow>
     gameRunning ((frame ^^ n) v) \<and>
     birdVelocity ((frame ^^ n) v) = real n / 20 - 3 \<and>
     birdY ((frame ^^ n) v) = 410.55 - 3 * real n + real n * (real n + 1) / 40 \<and>
     obstacleX ((frame ^^ n) v) = 268 - 2 * real n \<and>
     obstacleHeight ((frame ^^ n) v) = 340 \<and> gap ((frame ^^ n) v) = 150 \<and>
     ogpManager ((frame ^^ n) v) = ogpManager v \<and> score ((frame ^^ n) v) = score v"
proof (induction n)
  case 0
  with v show ?case by simp
next
  case (Suc n)
  let ?u = "(frame ^^ n) v"
  define t where "t = real n + 1"
  from Suc have run: "gameRunning ?u" and vel: "birdVelocity ?u = real n / 20 - 3"
    and y: "birdY ?u = 410.55 - 3 * real n + real n * (real n + 1) / 40"
    and x: "obstacleX ?u = 268 - 2 * real n" and h: "obstacleHeight ?u = 340"
    and g: "gap ?u = 150" and m: "ogpManager ?u = ogpManager v" and s: "score ?u = score v"
    by simp_all
  from Suc.prems have t: "1 \<le> t" "t \<le> 159" by (simp_all add: t_def)
  have np: "\<not> obstacleX ?u - obstacleSpeed CONFIG < - obstacleWidth CONFIG"
    using x t by (simp add: CONFIG_def t_def)
  then have n': "\<not> (obstacleX ?u - obstacleSpeed CONFIG < - obstacleWidth CONFIG \<and>
      ogp (ogpManager ?u) = None)" by simp
  have vel': "birdVelocity (after (update ?u)) = t / 20 - 3"
    using vel t by (simp add: update_fields CONFIG_def min_def t_def field_simps)
  have y': "birdY (after (update ?u)) = 410.55 - 3 * t + t * (t + 1) / 40"
    using vel y t by (simp add: update_fields CONFIG_def min_def t_def field_simps)
  have x': "obstacleX (after (update ?u)) = 268 - 2 * t"
    using x t by (simp add: update_fields CONFIG_def t_def)
  have h': "obstacleHeight (after (update ?u)) = 340"
    using update_no_pass_obstacleHeight [OF np] h by simp
  have g': "gap (after (update ?u)) = 150" using g by (simp add: update_fields)
  have m': "ogpManager (after (update ?u)) = ogpManager v" using m by (simp add: update_fields)
  have s': "score (after (update ?u)) = score v" using s np by (simp add: update_fields)
  have e: "410.55 - 3 * t + t * (t + 1) / 40 = (t * t - 119 * t + 16422) / 40"
    by (simp add: field_simps)
  have lo: "0 \<le> birdY (after (update ?u))"
  proof -
    have "0 \<le> (t - 119 / 2) * (t - 119 / 2)" by simp
    then have "0 \<le> t * t - 119 * t + 16422" by (simp add: algebra_simps)
    then show ?thesis unfolding y' e by simp
  qed
  have hi: "birdY (after (update ?u)) \<le> 570"
  proof -
    have "0 \<le> (159 - t) * (t + 40)" using t by (intro mult_nonneg_nonneg) simp_all
    then have "t * t - 119 * t + 16422 \<le> 22800" by (simp add: algebra_simps)
    then show ?thesis unfolding y' e by simp
  qed
  have top: "340 \<le> birdY (after (update ?u))" if "94 < t"
  proof -
    from that have "0 \<le> (t - 94) * (t - 25)" by (intro mult_nonneg_nonneg) simp_all
    then have "13600 \<le> t * t - 119 * t + 16422" by (simp add: algebra_simps)
    then show ?thesis unfolding y' e by simp
  qed
  have bottom: "birdY (after (update ?u)) \<le> 460" if "t < 134"
  proof -
    from that have "real (Suc n) < real (134::nat)" by (simp add: t_def)
    then have "Suc n < 134" by (simp only: of_nat_less_iff)
    then have "Suc n \<le> 133" by simp
    then have "real (Suc n) \<le> real (133::nat)" by (simp only: of_nat_le_iff)
    then have "t \<le> 133" unfolding t_def by simp
    then have "0 \<le> (133 - t) * (t + 14)" using t by (intro mult_nonneg_nonneg) simp_all
    then have "t * t - 119 * t + 16422 \<le> 18400" by (simp add: algebra_simps)
    then show ?thesis unfolding y' e by simp
  qed
  have "gameRunning (after (update ?u))"
    unfolding update_gameRunning [OF n'] h' g' x'
    using run lo hi top bottom by (auto simp add: CONFIG_def)
  with vel' y' x' h' g' m' s' run show ?case
    unfolding frame_Suc by (simp add: gameLoop_fields t_def add.commute)
qed

lemma sdkless_round_frames:
  "\<exists>w. startState w \<and> obstacleHeight w = 340 \<and> gap w = 150 \<and> ogpManager w = failed_manager \<and>
     run sdkless_round sdkless_world = (frame ^^ 160) (flap ((frame ^^ 66) w))"
proof -
  define w where "w = resetObstacle
     (sdkless_world\<lparr>trace := trace sdkless_world @ [SetDisplay ''startScreen'' ''none'',
                            SetDisplay ''gameOverScreen'' ''none''],
        birdY := birdInitialY CONFIG, birdVelocity := 0, birdRotation := 0,
        birdRotationVelocity := 0, obstacleX := canvasWidth CONFIG, score := 0,
        gameRunning := True, animationFrame := 0, animationCounter := 0\<rparr>)"
  have s: "startState w"
    by (simp add: w_def startState_def resetObstacle_fields resetObstacle_def Math_random_def
        Let_def)
  have f: "obstacleHeight w = 340" "gap w = 150" "ogpManager w = failed_manager"
    by (simp_all add: w_def resetObstacle_fields sdkless_world_def gameState_initial_def
        CONFIG_def)
  have g: "after (startGame sdkless_world) = frame w"
    unfolding w_def frame_def by (simp only: startGame_unfold)
  have "(frame ^^ (65 + 1)) w = (frame ^^ 65) (frame w)"
    unfolding funpow_add by simp
  then have h: "(frame ^^ 65) (frame w) = (frame ^^ 66) w" by simp
  have "run sdkless_round sdkless_world =
      run (replicate 160 GameLoop) (run [Flap] (run (replicate 65 GameLoop)
        (run [StartGame] sdkless_world)))"
    unfolding sdkless_round_def run_append [symmetric] by simp
  also have "\<dots> = (frame ^^ 160) (flap ((frame ^^ 65) (after (startGame sdkless_world))))"
    unfolding run_frames by (simp add: run_def)
  finally have "run sdkless_round sdkless_world = (frame ^^ 160) (flap ((frame ^^ 66) w))"
    unfolding g h .
  with s f show ?thesis by blast
qed

lemma sdkless_round_last:
  assumes w: "startState w" "obstacleHeight w = 340" "gap w = 150"
    "ogpManager w = failed_manager"
  shows "gameRunning ((frame ^^ 159) (flap ((frame ^^ 66) w)))"
    and "birdVelocity ((frame ^^ 159) (flap ((frame ^^ 66) w))) = 4.95"
    and "birdY ((frame ^^ 159) (flap ((frame ^^ 66) w))) = 569.55"
    and "obstacleX ((frame ^^ 159) (flap ((frame ^^ 66) w))) = - 50"
    and "ogpManager ((frame ^^ 159) (flap ((frame ^^ 66) w))) = failed_manager"
    and "score ((frame ^^ 159) (flap ((frame ^^ 66) w))) = 0"
    and "(frame ^^ 160) (flap ((frame ^^ 66) w)) =
           after (gameLoop ((frame ^^ 159) (flap ((frame ^^ 66) w))))"
proof -
  let ?a = "(frame ^^ 66) w"
  from falling_accelerating [OF w(1), of 66] falling_obstacle [OF w(1), of 66] w(2,3,4)
  have a: "gameRunning ?a" "birdY ?a = 410.55" "obstacleX ?a = 268" "obstacleHeight ?a = 340"
    "gap ?a = 150" "ogpManager ?a = failed_manager" "score ?a = 0"
    by simp_all
  let ?b = "flap ?a"
  have b: "gameRunning ?b" "birdVelocity ?b = - 3" "birdY ?b = 410.55" "obstacleX ?b = 268"
    "obstacleHeight ?b = 340" "gap ?b = 150"
    using a by (simp_all add: flap_fields CONFIG_def)
  have bm: "ogpManager ?b = failed_manager" "score ?b = 0"
    using a by (simp_all add: flap_fields)
  let ?c = "(frame ^^ 159) ?b"
  from hop [OF b, of 159] bm
  show "gameRunning ?c" "birdVelocity ?c = 4.95" "birdY ?c = 569.55" "obstacleX ?c = - 50"
    "ogpManager ?c = failed_manager" "score ?c = 0"
    by simp_all
  have "(frame ^^ (1 + 159)) ?b = frame ?c" unfolding funpow_add by simp
  then show "(frame ^^ 160) ?b = after (gameLoop ?c)" by (simp add: frame_def)
qed

text \<open>
  At the 226th frame the bird drops below the ground line in the very frame that the first
  obstacle passes: \<open>addPoints\<close> throws, the collision check is not reached, and the game is
  left running.
\<close>

lemma sdkless_round_thrown:
  "\<exists>w. startState w \<and>
     run sdkless_round sdkless_world = (frame ^^ 160) (flap ((frame ^^ 66) w)) \<and>
     isl (gameLoop ((frame ^^ 159) (flap ((frame ^^ 66) w))))"
proof -
  obtain w where w: "startState w" "obstacleHeight w = 340" "gap w = 150"
    "ogpManager w = failed_manager"
    "run sdkless_round sdkless_world = (frame ^^ 160) (flap ((frame ^^ 66) w))"
    using sdkless_round_frames by blast
  note c = sdkless_round_last [OF w(1,2,3,4)]
  have "isl (update ((frame ^^ 159) (flap ((frame ^^ 66) w))))"
    by (rule update_isl_pass) (simp_all add: c CONFIG_def failed_manager_def)
  with c(1) have "isl (gameLoop ((frame ^^ 159) (flap ((frame ^^ 66) w))))"
    by (simp add: gameLoop_isl)
  with w(1,5) show ?thesis by blast
qed

lemma sdkless_round_result:
  "gameRunning (run sdkless_round sdkless_world)"
  "birdY (run sdkless_round sdkless_world) = 574.55"
  "score (run sdkless_round sdkless_world) = 1"
proof -
  obtain w where w: "startState w" "obstacleHeight w = 340" "gap w = 150"
    "ogpManager w = failed_manager"
    "run sdkless_round sdkless_world = (frame ^^ 160) (flap ((frame ^^ 66) w))"
    using sdkless_round_frames by blast
  note c = sdkless_round_last [OF w(1,2,3,4)]
  let ?c = "(frame ^^ 159) (flap ((frame ^^ 66) w))"
  have p: "obstacleX ?c - obstacleSpeed CONFIG < - obstacleWidth CONFIG"
    "ogp (ogpManager ?c) = None"
    using c by (simp_all add: CONFIG_def failed_manager_def)
  show "gameRunning (run sdkless_round sdkless_world)"
    "birdY (run sdkless_round sdkless_world) = 574.55"
    "score (run sdkless_round sdkless_world) = 1"
    unfolding w(5) c(7) using c(1,2,3,4,6) p(1)
    by (simp_all add: gameLoop_fields update_gameRunning_thrown [OF p] update_fields CONFIG_def)
qed

subsection \<open>The same facts for game.js\<close>

lemma endGame_js_fields:
  "birdY_js (after (endGame_js w)) = birdY_js w"
  "birdVelocity_js (after (endGame_js w)) = birdVelocity_js w"
  "obstacleX_js (after (endGame_js w)) = obstacleX_js w"
  "obstacleHeight_js (after (endGame_js w)) = obstacleHeight_js w"
  "gap_js (after (endGame_js w)) = gap_js w"
  "score_js (after (endGame_js w)) = score_js w"
  "gameRunning_js (after (endGame_js w)) = False"
  "ogpManager_js (after (endGame_js w)) = ogpManager_js w"
  "frameHandle_js (after (endGame_js w)) = frameHandle_js w"
  by (simp_all add: endGame_js_def saveScore_js_def cancelAnimationFrame_js_def emit_js_def
      Let_def split: option.split outcome.split)

lemma saveScore_js_isl:
  "isl (saveScore_js points w) \<longleftrightarrow>
     isInitialized (ogpManager_js w) \<and> points > 0 \<and> ogp (ogpManager_js w) = None"
  by (auto simp add: saveScore_js_def emit_js_def Let_def split: option.split outcome.split)

lemma endGame_js_isl:
  "isl (endGame_js w) \<longleftrightarrow>
     score_js w > 0 \<and> isInitialized (ogpManager_js w) \<and> ogp (ogpManager_js w) = None"
  by (auto simp add: endGame_js_def saveScore_js_isl cancelAnimationFrame_js_def emit_js_def
      Let_def split: option.split)

lemma checkCollisions_js_fields:
  "birdY_js (after (checkCollisions_js w)) = birdY_js w"
  "birdVelocity_js (after (checkCollisions_js w)) = birdVelocity_js w"
  "obstacleX_js (after (checkCollisions_js w)) = obstacleX_js w"
  "obstacleHeight_js (after (checkCollisions_js w)) = obstacleHeight_js w"
  "gap_js (after (checkCollisions_js w)) = gap_js w"
  "score_js (after (checkCollisions_js w)) = score_js w"
  "ogpManager_js (after (checkCollisions_js w)) = ogpManager_js w"
  "frameHandle_js (after (checkCollisions_js w)) = frameHandle_js w"
  by (simp_all add: checkCollisions_js_def Let_def endGame_js_fields)

lemma checkCollisions_js_gameRunning:
  "gameRunning_js (after (checkCollisions_js w)) \<longleftrightarrow>
     gameRunning_js w \<and> 0 \<le> birdY_js w \<and>
     birdY_js w + birdHeight_js CONFIG_js \<le> canvasHeight_js CONFIG_js \<and>
     \<not> (birdX_js CONFIG_js + birdWidth_js CONFIG_js > obstacleX_js w \<and>
        birdX_js CONFIG_js < obstacleX_js w + obstacleWidth_js CONFIG_js \<and>
        (birdY_js w < obstacleHeight_js w \<or>
         birdY_js w + birdHeight_js CONFIG_js > obstacleHeight_js w + gap_js w))"
  by (auto simp add: checkCollisions_js_def Let_def endGame_js_fields)

lemma resetObstacle_js_fields:
  "birdY_js (resetObstacle_js w) = birdY_js w"
  "birdVelocity_js (resetObstacle_js w) = birdVelocity_js w"
  "obstacleX_js (resetObstacle_js w) = canvasWidth_js CONFIG_js"
  "obstacleHeight_js (resetObstacle_js w) =
     random_js w (randomCalls_js w) * (canvasHeight_js CONFIG_js - gap_js w - 100) + 50"
  "gap_js (resetObstacle_js w) = gap_js w"
  "score_js (resetObstacle_js w) = score_js w"
  "gameRunning_js (resetObstacle_js w) = gameRunning_js w"
  "animationFrameId_js (resetObstacle_js w) = animationFrameId_js w"
  "trace_js (resetObstacle_js w) = trace_js w"
  "ogpManager_js (resetObstacle_js w) = ogpManager_js w"
  "frameHandle_js (resetObstacle_js w) = frameHandle_js w"
  by (simp_all add: resetObstacle_js_def Math_random_js_def Let_def)

text \<open>The part of \<open>update\<close> before the collision check.\<close>

lemma update_js_split:
  "update_js w = checkCollisions_js
     (let w3 = w\<lparr>birdVelocity_js :=
                   min (birdVelocity_js w + gravity_js CONFIG_js) (maxVelocity_js CONFIG_js),
                 birdY_js := birdY_js w +
                   min (birdVelocity_js w + gravity_js CONFIG_js) (maxVelocity_js CONFIG_js),
                 obstacleX_js := obstacleX_js w - obstacleSpeed_js CONFIG_js\<rparr>
      in if obstacleX_js w3 < - obstacleWidth_js CONFIG_js
         then (resetObstacle_js w3)\<lparr>score_js := score_js w3 + 1\<rparr>
         else w3)"
  by (simp add: update_js_def Let_def resetObstacle_js_fields)

lemma update_js_fields:
  "birdVelocity_js (after (update_js w)) =
     min (birdVelocity_js w + gravity_js CONFIG_js) (maxVelocity_js CONFIG_js)"
  "birdY_js (after (update_js w)) =
     birdY_js w + min (birdVelocity_js w + gravity_js CONFIG_js) (maxVelocity_js CONFIG_js)"
  "obstacleX_js (after (update_js w)) =
     (if obstacleX_js w - obstacleSpeed_js CONFIG_js < - obstacleWidth_js CONFIG_js
      then canvasWidth_js CONFIG_js
      else obstacleX_js w - obstacleSpeed_js CONFIG_js)"
  "score_js (after (update_js w)) =
     (if obstacleX_js w - obstacleSpeed_js CONFIG_js < - obstacleWidth_js CONFIG_js
      then score_js w + 1 else score_js w)"
  "gap_js (after (update_js w)) = gap_js w"
  "ogpManager_js (after (update_js w)) = ogpManager_js w"
  "frameHandle_js (after (update_js w)) = frameHandle_js w"
  by (simp_all add: update_js_split checkCollisions_js_fields resetObstacle_js_fields Let_def)

lemma update_js_gameRunning:
  "gameRunning_js (after (update_js w)) \<longleftrightarrow>
     gameRunning_js w \<and> 0 \<le> birdY_js (after (update_js w)) \<and>
     birdY_js (after (update_js w)) + birdHeight_js CONFIG_js \<le> canvasHeight_js CONFIG_js \<and>
     \<not> (birdX_js CONFIG_js + birdWidth_js CONFIG_js > obstacleX_js (after (update_js w)) \<and>
        birdX_js CONFIG_js < obstacleX_js (after (update_js w)) + obstacleWidth_js CONFIG_js \<and>
        (birdY_js (after (update_js w)) < obstacleHeight_js (after (update_js w)) \<or>
         birdY_js (after (update_js w)) + birdHeight_js CONFIG_js
           > obstacleHeight_js (after (update_js w)) + gap_js (after (update_js w))))"
  unfolding update_js_split checkCollisions_js_gameRunning checkCollisions_js_fields
  by (simp add: resetObstacle_js_fields Let_def)

lemma update_js_isl:
  "isl (update_js w) \<longleftrightarrow>
     gameRunning_js w \<and> \<not> gameRunning_js (after (update_js w)) \<and>
       score_js (after (update_js w)) > 0 \<and> isInitialized (ogpManager_js w) \<and>
       ogp (ogpManager_js w) = None \<or>
     \<not> gameRunning_js w \<and> isl (update_js w)"
proof (cases "gameRunning_js w")
  case True
  define v where "v = (let w3 = w\<lparr>birdVelocity_js :=
                   min (birdVelocity_js w + gravity_js CONFIG_js) (maxVelocity_js CONFIG_js),
                 birdY_js := birdY_js w +
                   min (birdVelocity_js w + gravity_js CONFIG_js) (maxVelocity_js CONFIG_js),
                 obstacleX_js := obstacleX_js w - obstacleSpeed_js CONFIG_js\<rparr>
      in if obstacleX_js w3 < - obstacleWidth_js CONFIG_js
         then (resetObstacle_js w3)\<lparr>score_js := score_js w3 + 1\<rparr>
         else w3)"
  have u: "update_js w = checkCollisions_js v" unfolding v_def by (rule update_js_split)
  have r: "gameRunning_js v" "ogpManager_js v = ogpManager_js w"
    using True by (simp_all add: v_def resetObstacle_js_fields Let_def)
  have "isl (checkCollisions_js v) \<longleftrightarrow>
      \<not> gameRunning_js (after (checkCollisions_js v)) \<and> score_js v > 0 \<and>
      isInitialized (ogpManager_js v) \<and> ogp (ogpManager_js v) = None"
    using r(1)
    by (auto simp add: checkCollisions_js_def Let_def endGame_js_isl endGame_js_fields)
  then show ?thesis
    using True r(2) unfolding u by (simp add: checkCollisions_js_fields)
next
  case False
  then show ?thesis by simp
qed

lemma gameLoop_js_stopped: "\<not> gameRunning_js w \<Longrightarrow> gameLoop_js w = Inr w"
  by (simp add: gameLoop_js_def)

lemma gameLoop_js_thrown:
  "gameRunning_js w \<Longrightarrow> isl (update_js w) \<Longrightarrow> gameLoop_js w = update_js w"
  by (cases "update_js w") (simp_all add: gameLoop_js_def)

lemma gameLoop_js_returned:
  "gameRunning_js w \<Longrightarrow> \<not> isl (update_js w) \<Longrightarrow>
     gameLoop_js w =
       Inr ((after (update_js w))
              \<lparr>animationFrameId_js := Some (Suc (frameHandle_js (after (update_js w)))),
               frameHandle_js := Suc (frameHandle_js (after (update_js w))),
               trace_js := trace_js (after (update_js w)) @
                 [Render, RequestAnimationFrame (Suc (frameHandle_js (after (update_js w))))]\<rparr>)"
  by (cases "update_js w")
     (simp_all add: gameLoop_js_def render_js_def requestAnimationFrame_js_def emit_js_def
        Let_def)

lemma gameLoop_js_isl: "isl (gameLoop_js w) \<longleftrightarrow> gameRunning_js w \<and> isl (update_js w)"
  by (cases "update_js w") (simp_all add: gameLoop_js_def Let_def split: prod.split)

lemma gameLoop_js_fields:
  assumes "gameRunning_js w"
  shows "birdY_js (after (gameLoop_js w)) = birdY_js (after (update_js w))"
    and "birdVelocity_js (after (gameLoop_js w)) = birdVelocity_js (after (update_js w))"
    and "obstacleX_js (after (gameLoop_js w)) = obstacleX_js (after (update_js w))"
    and "obstacleHeight_js (after (gameLoop_js w)) = obstacleHeight_js (after (update_js w))"
    and "gap_js (after (gameLoop_js w)) = gap_js (after (update_js w))"
    and "score_js (after (gameLoop_js w)) = score_js (after (update_js w))"
    and "gameRunning_js (after (gameLoop_js w)) = gameRunning_js (after (update_js w))"
    and "ogpManager_js (after (gameLoop_js w)) = ogpManager_js (after (update_js w))"
  using assms
  by (cases "isl (update_js w)"; simp add: gameLoop_js_thrown gameLoop_js_returned)+

lemma jump_fields:
  "birdY_js (jump w) = birdY_js w"
  "birdVelocity_js (jump w) =
     (if gameRunning_js w then - jumpStrength CONFIG_js else birdVelocity_js w)"
  "obstacleX_js (jump w) = obstacleX_js w"
  "obstacleHeight_js (jump w) = obstacleHeight_js w"
  "gap_js (jump w) = gap_js w"
  "score_js (jump w) = score_js w"
  "gameRunning_js (jump w) = gameRunning_js w"
  "trace_js (jump w) = trace_js w"
  "ogpManager_js (jump w) = ogpManager_js w"
  by (simp_all add: jump_def)

lemma jump_running: "gameRunning_js w \<Longrightarrow> birdVelocity_js (jump w) = - jumpStrength CONFIG_js"
  by (simp add: jump_fields)

lemma jump_stopped: "\<not> gameRunning_js w \<Longrightarrow> jump w = w"
  by (simp add: jump_def)

lemma startGame_js_unfold:
  "startGame_js w = gameLoop_js (resetObstacle_js
     (w\<lparr>trace_js := trace_js w @ [SetDisplay ''startScreen'' ''none'',
                                  SetDisplay ''gameOverScreen'' ''none''],
        birdY_js := birdInitialY_js CONFIG_js, birdVelocity_js := 0,
        obstacleX_js := canvasWidth_js CONFIG_js, score_js := 0, gameRunning_js := True\<rparr>))"
  by (simp add: startGame_js_def emit_js_def Let_def)

lemma startGame_js_startState:
  "\<exists>w'. startState_js w' \<and> startGame_js w = gameLoop_js w' \<and>
     ogpManager_js w' = ogpManager_js w \<and> gap_js w' = gap_js w \<and>
     trace_js w' = trace_js w @ [SetDisplay ''startScreen'' ''none'',
                                 SetDisplay ''gameOverScreen'' ''none'']"
  unfolding startGame_js_unfold
  by (rule exI [of _ "resetObstacle_js
     (w\<lparr>trace_js := trace_js w @ [SetDisplay ''startScreen'' ''none'',
                                  SetDisplay ''gameOverScreen'' ''none''],
        birdY_js := birdInitialY_js CONFIG_js, birdVelocity_js := 0,
        obstacleX_js := canvasWidth_js CONFIG_js, score_js := 0, gameRunning_js := True\<rparr>)"])
     (simp add: startState_js_def resetObstacle_js_fields)

lemma first_frame_js:
  assumes "startState_js w"
  shows "\<not> isl (update_js w)" and "gameRunning_js (after (update_js w))"
    and "birdVelocity_js (after (update_js w)) = gravity_js CONFIG_js"
    and "birdY_js (after (update_js w)) = birdInitialY_js CONFIG_js + gravity_js CONFIG_js"
proof -
  from assms have s: "birdY_js w = 300" "birdVelocity_js w = 0" "obstacleX_js w = 400"
    "gameRunning_js w"
    by (simp_all add: startState_js_def CONFIG_js_def)
  show r: "gameRunning_js (after (update_js w))"
    unfolding update_js_gameRunning using s by (simp add: update_js_fields CONFIG_js_def)
  show "birdVelocity_js (after (update_js w)) = gravity_js CONFIG_js"
    "birdY_js (after (update_js w)) = birdInitialY_js CONFIG_js + gravity_js CONFIG_js"
    using s by (simp_all add: update_js_fields CONFIG_js_def)
  from r s(4) show "\<not> isl (update_js w)"
    using update_js_isl [of w] by blast
qed

lemma startGame_fields_js:
  "birdVelocity_js (after (startGame_js w)) = min (gravity_js CONFIG_js) (maxVelocity_js CONFIG_js)"
  "birdY_js (after (startGame_js w)) = birdInitialY_js CONFIG_js + min (gravity_js CONFIG_js) (maxVelocity_js CONFIG_js)"
  "gap_js (after (startGame_js w)) = gap_js w"
  "ogpManager_js (after (startGame_js w)) = ogpManager_js w"
proof -
  obtain w' where w': "startState_js w'" "startGame_js w = gameLoop_js w'" "ogpManager_js w' = ogpManager_js w"
    "gap_js w' = gap_js w"
    using startGame_js_startState by blast
  from w'(1) have r: "gameRunning_js w'" "birdVelocity_js w' = 0" "birdY_js w' = birdInitialY_js CONFIG_js"
    by (simp_all add: startState_js_def)
  show "birdVelocity_js (after (startGame_js w)) = min (gravity_js CONFIG_js) (maxVelocity_js CONFIG_js)"
    "birdY_js (after (startGame_js w)) = birdInitialY_js CONFIG_js + min (gravity_js CONFIG_js) (maxVelocity_js CONFIG_js)"
    "gap_js (after (startGame_js w)) = gap_js w"
    "ogpManager_js (after (startGame_js w)) = ogpManager_js w"
    unfolding w'(2) using r w'(3,4) by (simp_all add: gameLoop_js_fields update_js_fields)
qed

lemma perform_ogpManager_js: "ogpManager_js (perform_js op w) = ogpManager_js w"
proof (cases op)
  case StartGame_js
  then show ?thesis by (simp add: startGame_fields_js)
next
  case GameLoop_js
  then show ?thesis
    by (cases "gameRunning_js w")
       (simp_all add: frame_js_def gameLoop_js_fields gameLoop_js_stopped update_js_fields)
next
  case Update_js
  then show ?thesis by (simp add: step_js_def update_js_fields)
next
  case Jump
  then show ?thesis by (simp add: jump_fields)
qed

lemma run_ogpManager_js: "ogpManager_js (run_js ops w) = ogpManager_js w"
  unfolding run_js_def by (induction ops arbitrary: w) (simp_all add: perform_ogpManager_js)

lemma perform_birdVelocity_js:
  assumes "birdVelocity_js w \<le> maxVelocity_js CONFIG_js"
  shows "birdVelocity_js (perform_js op w) \<le> maxVelocity_js CONFIG_js"
proof (cases op)
  case StartGame_js
  then show ?thesis by (simp add: startGame_fields_js)
next
  case GameLoop_js
  with assms show ?thesis
    by (cases "gameRunning_js w")
       (simp_all add: frame_js_def gameLoop_js_fields gameLoop_js_stopped update_js_fields)
next
  case Update_js
  then show ?thesis by (simp add: step_js_def update_js_fields)
next
  case Jump
  with assms show ?thesis by (simp add: jump_fields CONFIG_js_def)
qed

lemma run_birdVelocity_js:
  "birdVelocity_js w \<le> maxVelocity_js CONFIG_js \<Longrightarrow> birdVelocity_js (run_js ops w) \<le> maxVelocity_js CONFIG_js"
  unfolding run_js_def
  by (induction ops arbitrary: w) (simp_all add: perform_birdVelocity_js)

lemma perform_gap_js: "gap_js (perform_js op w) = gap_js w"
proof (cases op)
  case StartGame_js
  then show ?thesis by (simp add: startGame_fields_js)
next
  case GameLoop_js
  then show ?thesis
    by (cases "gameRunning_js w")
       (simp_all add: frame_js_def gameLoop_js_fields gameLoop_js_stopped update_js_fields)
next
  case Update_js
  then show ?thesis by (simp add: step_js_def update_js_fields)
next
  case Jump
  then show ?thesis by (simp add: jump_fields)
qed

lemma run_gap_js: "gap_js (run_js ops w) = gap_js w"
  unfolding run_js_def by (induction ops arbitrary: w) (simp_all add: perform_gap_js)

lemma update_running_bounds_js:
  assumes "gameRunning_js (after (update_js w))"
  shows "0 \<le> birdY_js (after (update_js w)) \<and>
     birdY_js (after (update_js w)) \<le> canvasHeight_js CONFIG_js - birdHeight_js CONFIG_js"
  using assms unfolding update_js_gameRunning by auto

lemma gameLoop_inBounds_js:
  assumes "gameRunning_js w \<longrightarrow>
      0 \<le> birdY_js w \<and> birdY_js w \<le> canvasHeight_js CONFIG_js - birdHeight_js CONFIG_js"
  shows "gameRunning_js (after (gameLoop_js w)) \<longrightarrow>
     0 \<le> birdY_js (after (gameLoop_js w)) \<and>
     birdY_js (after (gameLoop_js w)) \<le> canvasHeight_js CONFIG_js - birdHeight_js CONFIG_js"
proof (cases "gameRunning_js w")
  case True
  with update_running_bounds_js [of w] show ?thesis by (simp add: gameLoop_js_fields)
next
  case False
  with assms show ?thesis by (simp add: gameLoop_js_stopped)
qed

lemma perform_inBounds_js:
  assumes "gameRunning_js w \<longrightarrow>
      0 \<le> birdY_js w \<and> birdY_js w \<le> canvasHeight_js CONFIG_js - birdHeight_js CONFIG_js"
  shows "gameRunning_js (perform_js op w) \<longrightarrow>
     0 \<le> birdY_js (perform_js op w) \<and>
     birdY_js (perform_js op w) \<le> canvasHeight_js CONFIG_js - birdHeight_js CONFIG_js"
proof (cases op)
  case StartGame_js
  obtain w' where w': "startState_js w'" "startGame_js w = gameLoop_js w'"
    using startGame_js_startState by blast
  from w'(1) have "gameRunning_js w' \<longrightarrow>
      0 \<le> birdY_js w' \<and> birdY_js w' \<le> canvasHeight_js CONFIG_js - birdHeight_js CONFIG_js"
    by (simp add: startState_js_def CONFIG_js_def)
  from gameLoop_inBounds_js [OF this] StartGame_js w'(2) show ?thesis by simp
next
  case GameLoop_js
  with gameLoop_inBounds_js [OF assms] show ?thesis by (simp add: frame_js_def)
next
  case Update_js
  with update_running_bounds_js [of w] show ?thesis by (simp add: step_js_def)
next
  case Jump
  with assms show ?thesis by (simp add: jump_fields)
qed

lemma run_inBounds_js:
  "gameRunning_js w \<longrightarrow>
     0 \<le> birdY_js w \<and> birdY_js w \<le> canvasHeight_js CONFIG_js - birdHeight_js CONFIG_js \<Longrightarrow>
   gameRunning_js (run_js ops w) \<longrightarrow>
     0 \<le> birdY_js (run_js ops w) \<and>
     birdY_js (run_js ops w) \<le> canvasHeight_js CONFIG_js - birdHeight_js CONFIG_js"
  unfolding run_js_def
proof (induction ops arbitrary: w)
  case Nil
  then show ?case by simp
next
  case (Cons op ops)
  from Cons.IH [OF perform_inBounds_js [OF Cons.prems]] show ?case by simp
qed

lemma resetObstacle_range_js:
  assumes "gap_js w = gapSize_js CONFIG_js" "0 \<le> random_js w (randomCalls_js w)" "random_js w (randomCalls_js w) < 1"
  shows "50 \<le> obstacleHeight_js (resetObstacle_js w) \<and>
         obstacleHeight_js (resetObstacle_js w) \<le> canvasHeight_js CONFIG_js - gapSize_js CONFIG_js - 50 \<and>
         obstacleX_js (resetObstacle_js w) = canvasWidth_js CONFIG_js"
  using assms by (simp add: resetObstacle_js_fields CONFIG_js_def)

lemma endGame_frame_js:
  "after (endGame_js w) =
     w\<lparr>gameRunning_js := False,
       animationFrameId_js := (case animationFrameId_js w of None \<Rightarrow> None
                            | Some h \<Rightarrow> if h \<noteq> 0 then None else Some h),
       trace_js := trace_js (after (endGame_js w))\<rparr>"
  by (simp add: endGame_js_def saveScore_js_def cancelAnimationFrame_js_def emit_js_def Let_def
      split: option.split outcome.split)

lemma endGame_reports_js:
  "trace_js (after (endGame_js w)) =
     trace_js w @ (case animationFrameId_js w of None \<Rightarrow> []
                | Some h \<Rightarrow> if h \<noteq> 0 then [CancelAnimationFrame h] else [])
     @ [SetTextContent ''finalScore'' (score_js w), SetTextContent ''ogpPoints'' (ogpPoints_js w),
        SetDisplay ''gameOverScreen'' ''block'']
     @ (if score_js w > 0 then trace_js (after (saveScore_js (score_js w) (w\<lparr>trace_js := []\<rparr>))) else [])"
  by (simp add: endGame_js_def saveScore_js_def cancelAnimationFrame_js_def emit_js_def Let_def
      split: option.split outcome.split)

lemma saveScore_saveScore_calls_js:
  "saveScore_calls (trace_js (after (saveScore_js points w))) = saveScore_calls (trace_js w) @ [points]"
  by (simp add: saveScore_js_def emit_js_def Let_def saveScore_calls_append
      split: option.split outcome.split)

lemma endGame_saveScore_calls_js:
  "saveScore_calls (trace_js (after (endGame_js w))) =
     saveScore_calls (trace_js w) @ (if score_js w > 0 then [score_js w] else [])"
  by (simp add: endGame_js_def saveScore_js_def cancelAnimationFrame_js_def emit_js_def Let_def
      saveScore_calls_append split: option.split outcome.split)

lemma checkCollisions_cases_js:
  "gameRunning_js w \<Longrightarrow> gameRunning_js (after (checkCollisions_js w)) \<Longrightarrow> checkCollisions_js w = Inr w"
  "gameRunning_js w \<Longrightarrow> \<not> gameRunning_js (after (checkCollisions_js w)) \<Longrightarrow> checkCollisions_js w = endGame_js w"
  by (auto simp add: checkCollisions_js_def Let_def endGame_js_fields split: if_splits)

lemma update_saveScore_calls_js:
  assumes "gameRunning_js w"
  shows "saveScore_calls (trace_js (after (update_js w))) =
     saveScore_calls (trace_js w) @
       (if gameRunning_js (after (update_js w)) then []
        else if score_js (after (update_js w)) > 0 then [score_js (after (update_js w))] else [])"
proof -
  define v where "v = (let w3 = w\<lparr>birdVelocity_js :=
                   min (birdVelocity_js w + gravity_js CONFIG_js) (maxVelocity_js CONFIG_js),
                 birdY_js := birdY_js w +
                   min (birdVelocity_js w + gravity_js CONFIG_js) (maxVelocity_js CONFIG_js),
                 obstacleX_js := obstacleX_js w - obstacleSpeed_js CONFIG_js\<rparr>
      in if obstacleX_js w3 < - obstacleWidth_js CONFIG_js
         then (resetObstacle_js w3)\<lparr>score_js := score_js w3 + 1\<rparr>
         else w3)"
  have r: "gameRunning_js v" using assms by (simp add: v_def resetObstacle_js_fields Let_def)
  have t: "trace_js v = trace_js w" by (simp add: v_def resetObstacle_js_fields Let_def)
  have u: "update_js w = checkCollisions_js v" unfolding v_def by (rule update_js_split)
  show ?thesis
  proof (cases "gameRunning_js (after (checkCollisions_js v))")
    case True
    with checkCollisions_cases_js(1) [OF r] have "checkCollisions_js v = Inr v" by simp
    with True u show ?thesis by (simp add: t)
  next
    case False
    with checkCollisions_cases_js(2) [OF r] have e: "checkCollisions_js v = endGame_js v"
      by simp
    have "score_js (after (update_js w)) = score_js v"
      unfolding u by (simp add: checkCollisions_js_fields)
    with False u e show ?thesis
      by (simp add: endGame_saveScore_calls_js t)
  qed
qed

lemma gameLoop_saveScore_calls_js:
  assumes "gameRunning_js w"
  shows "saveScore_calls (trace_js (after (gameLoop_js w))) =
     saveScore_calls (trace_js w) @
       (if gameRunning_js (after (gameLoop_js w)) then []
        else if score_js (after (gameLoop_js w)) > 0 then [score_js (after (gameLoop_js w))] else [])"
proof -
  have "saveScore_calls (trace_js (after (gameLoop_js w))) = saveScore_calls (trace_js (after (update_js w)))"
    using assms
    by (cases "isl (update_js w)")
       (simp_all add: gameLoop_js_thrown gameLoop_js_returned saveScore_calls_append)
  with update_saveScore_calls_js [OF assms] assms show ?thesis
    by (simp add: gameLoop_js_fields)
qed

lemma startGame_saveScore_calls_js:
  "saveScore_calls (trace_js (after (startGame_js w))) = saveScore_calls (trace_js w)"
proof -
  obtain w' where w': "startState_js w'" "startGame_js w = gameLoop_js w'"
    "trace_js w' = trace_js w @ [SetDisplay ''startScreen'' ''none'',
                           SetDisplay ''gameOverScreen'' ''none'']"
    using startGame_js_startState by blast
  from w'(1) have r: "gameRunning_js w'" by (simp add: startState_js_def)
  have "gameRunning_js (after (gameLoop_js w'))"
    using first_frame_js(2) [OF w'(1)] r by (simp add: gameLoop_js_fields)
  with gameLoop_saveScore_calls_js [OF r] w'(2,3) show ?thesis
    by (simp add: saveScore_calls_append)
qed

lemma funpow_obstacle_js:
  "2 * real n \<le> obstacleX_js w + obstacleWidth_js CONFIG_js \<Longrightarrow>
     obstacleX_js ((step_js ^^ n) w) = obstacleX_js w - 2 * real n \<and>
     score_js ((step_js ^^ n) w) = score_js w"
proof (induction n)
  case 0
  then show ?case by simp
next
  case (Suc n)
  then show ?case by (simp add: step_js_def update_js_fields CONFIG_js_def)
qed

lemma run_no_pass_js:
  "set ops \<subseteq> {Update_js, GameLoop_js, Jump} \<Longrightarrow>
   2 * real (count_list ops Update_js + count_list ops GameLoop_js) \<le> obstacleX_js w + obstacleWidth_js CONFIG_js \<Longrightarrow>
   score_js (run_js ops w) = score_js w"
  unfolding run_js_def
proof (induction ops arbitrary: w)
  case Nil
  then show ?case by simp
next
  case (Cons op ops)
  show ?case
  proof (cases op)
    case StartGame_js
    with Cons.prems show ?thesis by simp
  next
    case GameLoop_js
    show ?thesis
    proof (cases "gameRunning_js w")
      case True
      with GameLoop_js Cons.prems
      have "score_js (fold perform_js ops (after (gameLoop_js w))) = score_js (after (gameLoop_js w))"
        by (intro Cons.IH) (simp_all add: gameLoop_js_fields update_js_fields CONFIG_js_def)
      with True GameLoop_js Cons.prems show ?thesis
        by (simp add: frame_js_def gameLoop_js_fields update_js_fields CONFIG_js_def)
    next
      case False
      with GameLoop_js Cons.prems have "score_js (fold perform_js ops w) = score_js w"
        by (intro Cons.IH) simp_all
      with False GameLoop_js show ?thesis by (simp add: frame_js_def gameLoop_js_stopped)
    qed
  next
    case Update_js
    with Cons.prems have "score_js (fold perform_js ops (after (update_js w))) = score_js (after (update_js w))"
      by (intro Cons.IH) (simp_all add: update_js_fields CONFIG_js_def)
    with Update_js Cons.prems show ?thesis by (simp add: step_js_def update_js_fields CONFIG_js_def)
  next
    case Jump
    with Cons.prems have "score_js (fold perform_js ops (jump w)) = score_js (jump w)"
      by (intro Cons.IH) (simp_all add: jump_fields)
    with Jump show ?thesis by (simp add: jump_fields)
  qed
qed

lemma checkCollisions_not_thrown_js: "score_js w \<le> 0 \<Longrightarrow> \<not> isl (checkCollisions_js w)"
  by (simp add: checkCollisions_js_def endGame_js_isl Let_def)

lemma update_not_thrown_js: "score_js (after (update_js w)) \<le> 0 \<Longrightarrow> \<not> isl (update_js w)"
proof -
  assume a: "score_js (after (update_js w)) \<le> 0"
  define v where "v = (let w3 = w\<lparr>birdVelocity_js :=
                   min (birdVelocity_js w + gravity_js CONFIG_js) (maxVelocity_js CONFIG_js),
                 birdY_js := birdY_js w +
                   min (birdVelocity_js w + gravity_js CONFIG_js) (maxVelocity_js CONFIG_js),
                 obstacleX_js := obstacleX_js w - obstacleSpeed_js CONFIG_js\<rparr>
      in if obstacleX_js w3 < - obstacleWidth_js CONFIG_js
         then (resetObstacle_js w3)\<lparr>score_js := score_js w3 + 1\<rparr>
         else w3)"
  have u: "update_js w = checkCollisions_js v" unfolding v_def by (rule update_js_split)
  from a have "score_js v \<le> 0" unfolding u by (simp add: checkCollisions_js_fields)
  then show ?thesis unfolding u by (rule checkCollisions_not_thrown_js)
qed

lemma frame_Suc_js: "(frame_js ^^ Suc k) w = after (gameLoop_js ((frame_js ^^ k) w))"
  by (simp add: frame_js_def)

lemma falling_accelerating_js:
  "startState_js w \<Longrightarrow> k \<le> 100 \<Longrightarrow>
     gameRunning_js ((frame_js ^^ k) w) \<and>
     birdVelocity_js ((frame_js ^^ k) w) = real k / 20 \<and>
     birdY_js ((frame_js ^^ k) w) = 300 + real k * (real k + 1) / 40 \<and>
     obstacleX_js ((frame_js ^^ k) w) = 400 - 2 * real k \<and>
     score_js ((frame_js ^^ k) w) = 0"
proof (induction k)
  case 0
  then show ?case by (simp add: startState_js_def CONFIG_js_def)
next
  case (Suc k)
  let ?v = "(frame_js ^^ k) w"
  from Suc have run_js: "gameRunning_js ?v" and vel: "birdVelocity_js ?v = real k / 20"
    and y: "birdY_js ?v = 300 + real k * (real k + 1) / 40"
    and x: "obstacleX_js ?v = 400 - 2 * real k" and k: "real k + 1 \<le> 100"
    and s: "score_js ?v = 0"
    by simp_all
  have vel': "birdVelocity_js (after (update_js ?v)) = (real k + 1) / 20"
    using vel k by (simp add: update_js_fields CONFIG_js_def min_def field_simps)
  have y': "birdY_js (after (update_js ?v)) = 300 + (real k + 1) * (real k + 2) / 40"
    using vel k y by (simp add: update_js_fields CONFIG_js_def min_def field_simps)
  have x': "obstacleX_js (after (update_js ?v)) = 400 - 2 * (real k + 1)"
    using x k by (simp add: update_js_fields CONFIG_js_def)
  have s': "score_js (after (update_js ?v)) = 0"
    using x k s by (simp add: update_js_fields CONFIG_js_def)
  have "(real k + 1) * (real k + 2) \<le> 100 * 101"
    using k by (intro mult_mono) simp_all
  then have yb: "birdY_js (after (update_js ?v)) \<le> 570" "0 \<le> birdY_js (after (update_js ?v))"
    unfolding y' by simp_all
  have "gameRunning_js (after (update_js ?v))"
    unfolding update_js_gameRunning using run_js yb x' k by (simp add: CONFIG_js_def)
  with vel' y' x' s' run_js show ?case
    unfolding frame_Suc_js by (simp add: gameLoop_js_fields add.commute)
qed

lemma falling_terminal_js:
  "gameRunning_js v \<and> birdVelocity_js v = 5 \<and> birdY_js v = 552.5 \<and> obstacleX_js v = 200 \<and> score_js v = 0 \<Longrightarrow>
   j \<le> 3 \<Longrightarrow>
     gameRunning_js ((frame_js ^^ j) v) \<and>
     birdVelocity_js ((frame_js ^^ j) v) = 5 \<and>
     birdY_js ((frame_js ^^ j) v) = 552.5 + 5 * real j \<and>
     obstacleX_js ((frame_js ^^ j) v) = 200 - 2 * real j \<and>
     score_js ((frame_js ^^ j) v) = 0"
proof (induction j)
  case 0
  then show ?case by simp
next
  case (Suc j)
  let ?v = "(frame_js ^^ j) v"
  from Suc have run_js: "gameRunning_js ?v" and vel: "birdVelocity_js ?v = 5"
    and y: "birdY_js ?v = 552.5 + 5 * real j"
    and x: "obstacleX_js ?v = 200 - 2 * real j" and j: "real j \<le> 2"
    and s: "score_js ?v = 0"
    by simp_all
  have vel': "birdVelocity_js (after (update_js ?v)) = 5"
    using vel by (simp add: update_js_fields CONFIG_js_def)
  have y': "birdY_js (after (update_js ?v)) = 552.5 + 5 * (real j + 1)"
    using vel y by (simp add: update_js_fields CONFIG_js_def)
  have x': "obstacleX_js (after (update_js ?v)) = 200 - 2 * (real j + 1)"
    using x j by (simp add: update_js_fields CONFIG_js_def)
  have s': "score_js (after (update_js ?v)) = 0"
    using x j s by (simp add: update_js_fields CONFIG_js_def)
  have "gameRunning_js (after (update_js ?v))"
    unfolding update_js_gameRunning using run_js y' x' j by (simp add: CONFIG_js_def)
  with vel' y' x' s' run_js show ?case
    unfolding frame_Suc_js by (simp add: gameLoop_js_fields add.commute)
qed

lemma falling_ground_js:
  assumes "startState_js w"
  shows "gameRunning_js ((frame_js ^^ 103) w)"
    and "\<not> gameRunning_js ((frame_js ^^ 104) w)"
    and "birdY_js ((frame_js ^^ 104) w) = 572.5"
    and "gameLoop_js ((frame_js ^^ 103) w) = Inr ((frame_js ^^ 104) w)"
proof -
  let ?u = "(frame_js ^^ 100) w"
  let ?v = "(frame_js ^^ 3) ?u"
  have four: "(frame_js ^^ 4) x = after (gameLoop_js ((frame_js ^^ 3) x))" for x
    using frame_Suc_js [of 3 x] by simp
  have "(frame_js ^^ (3 + 100)) w = ?v"
    "(frame_js ^^ (4 + 100)) w = after (gameLoop_js ?v)"
    unfolding funpow_add by (simp_all add: four)
  then have s: "(frame_js ^^ 103) w = ?v"
    "(frame_js ^^ 104) w = after (gameLoop_js ?v)"
    by simp_all
  from falling_accelerating_js [OF assms, of 100]
  have "gameRunning_js ?u \<and> birdVelocity_js ?u = 5 \<and> birdY_js ?u = 552.5 \<and> obstacleX_js ?u = 200 \<and>
      score_js ?u = 0"
    by simp
  from falling_terminal_js [OF this, of 3]
  have run_js: "gameRunning_js ?v" and vel: "birdVelocity_js ?v = 5" and y: "birdY_js ?v = 567.5"
    and x: "obstacleX_js ?v = 194" and sc: "score_js ?v = 0"
    by simp_all
  have sc': "score_js (after (update_js ?v)) \<le> 0"
    using x sc by (simp add: update_js_fields CONFIG_js_def)
  have y': "birdY_js (after (update_js ?v)) = 572.5"
    using vel y by (simp add: update_js_fields CONFIG_js_def)
  have "\<not> gameRunning_js (after (update_js ?v))"
    unfolding update_js_gameRunning using y' by (simp add: CONFIG_js_def)
  with run_js y' show "gameRunning_js ((frame_js ^^ 103) w)"
    "\<not> gameRunning_js ((frame_js ^^ 104) w)"
    "birdY_js ((frame_js ^^ 104) w) = 572.5"
    unfolding s by (simp_all add: gameLoop_js_fields)
  have "\<not> isl (update_js ?v)" using sc' by (rule update_not_thrown_js)
  then have "\<not> isl (gameLoop_js ?v)" by (simp add: gameLoop_js_isl)
  then show "gameLoop_js ((frame_js ^^ 103) w) = Inr ((frame_js ^^ 104) w)"
    unfolding s by (rule result_returned)
qed

lemma gameLoop_stays_stopped_js:
  "\<not> gameRunning_js w \<Longrightarrow> (frame_js ^^ n) w = w"
  by (induction n) (simp_all add: frame_js_def gameLoop_js_stopped funpow_swap1)

lemma endGame_manager_js:
  "(after (endGame_js (w\<lparr>ogpManager_js := m\<rparr>)))\<lparr>trace_js := t\<rparr> =
     (after (endGame_js w))\<lparr>ogpManager_js := m, trace_js := t\<rparr>"
  by (simp add: endGame_js_def saveScore_js_def cancelAnimationFrame_js_def emit_js_def Let_def
      split: option.split outcome.split)

lemma checkCollisions_manager_js:
  "(after (checkCollisions_js (w\<lparr>ogpManager_js := m\<rparr>)))\<lparr>trace_js := t\<rparr> =
     (after (checkCollisions_js w))\<lparr>ogpManager_js := m, trace_js := t\<rparr>"
  by (auto simp add: checkCollisions_js_def Let_def endGame_manager_js)

lemma checkCollisions_isl_manager_js:
  "(ogp m = None \<longleftrightarrow> ogp (ogpManager_js w) = None) \<Longrightarrow>
   isInitialized m = isInitialized (ogpManager_js w) \<Longrightarrow>
     isl (checkCollisions_js (w\<lparr>ogpManager_js := m\<rparr>)) = isl (checkCollisions_js w)"
  by (auto simp add: checkCollisions_js_def Let_def endGame_js_isl)

lemma update_manager_js:
  "(after (update_js (w\<lparr>ogpManager_js := m\<rparr>)))\<lparr>trace_js := t\<rparr> =
     (after (update_js w))\<lparr>ogpManager_js := m, trace_js := t\<rparr>"
proof -
  define pre where "pre = (\<lambda>w. (let w3 = w\<lparr>birdVelocity_js :=
                   min (birdVelocity_js w + gravity_js CONFIG_js) (maxVelocity_js CONFIG_js),
                 birdY_js := birdY_js w +
                   min (birdVelocity_js w + gravity_js CONFIG_js) (maxVelocity_js CONFIG_js),
                 obstacleX_js := obstacleX_js w - obstacleSpeed_js CONFIG_js\<rparr>
      in if obstacleX_js w3 < - obstacleWidth_js CONFIG_js
         then (resetObstacle_js w3)\<lparr>score_js := score_js w3 + 1\<rparr>
         else w3))"
  have u: "update_js x = checkCollisions_js (pre x)" for x
    unfolding pre_def by (rule update_js_split)
  have p: "pre (w\<lparr>ogpManager_js := m\<rparr>) = (pre w)\<lparr>ogpManager_js := m\<rparr>"
    by (simp add: pre_def resetObstacle_js_def Math_random_js_def Let_def)
  show ?thesis unfolding u p by (rule checkCollisions_manager_js)
qed

lemma update_isl_manager_js:
  assumes "ogp m = None \<longleftrightarrow> ogp (ogpManager_js w) = None"
    and "isInitialized m = isInitialized (ogpManager_js w)"
  shows "isl (update_js (w\<lparr>ogpManager_js := m\<rparr>)) = isl (update_js w)"
proof -
  define pre where "pre = (\<lambda>w. (let w3 = w\<lparr>birdVelocity_js :=
                   min (birdVelocity_js w + gravity_js CONFIG_js) (maxVelocity_js CONFIG_js),
                 birdY_js := birdY_js w +
                   min (birdVelocity_js w + gravity_js CONFIG_js) (maxVelocity_js CONFIG_js),
                 obstacleX_js := obstacleX_js w - obstacleSpeed_js CONFIG_js\<rparr>
      in if obstacleX_js w3 < - obstacleWidth_js CONFIG_js
         then (resetObstacle_js w3)\<lparr>score_js := score_js w3 + 1\<rparr>
         else w3))"
  have u: "update_js x = checkCollisions_js (pre x)" for x
    unfolding pre_def by (rule update_js_split)
  have p: "pre (w\<lparr>ogpManager_js := m\<rparr>) = (pre w)\<lparr>ogpManager_js := m\<rparr>"
    by (simp add: pre_def resetObstacle_js_def Math_random_js_def Let_def)
  have m: "ogpManager_js (pre w) = ogpManager_js w"
    by (simp add: pre_def resetObstacle_js_fields Let_def)
  show ?thesis
    unfolding u p using assms by (intro checkCollisions_isl_manager_js) (simp_all add: m)
qed

lemma update_state_independent_js:
  "gameState_js.truncate (after (update_js (w\<lparr>ogpManager_js := m\<rparr>))) =
     gameState_js.truncate (after (update_js w))"
  "frameHandle_js (after (update_js (w\<lparr>ogpManager_js := m\<rparr>))) =
     frameHandle_js (after (update_js w))"
  using arg_cong [OF update_manager_js [where t = "[]"], of gameState_js.truncate]
    arg_cong [OF update_manager_js [where t = "[]"], of frameHandle_js]
  by (simp_all add: gameState_js.truncate_def)

lemma gameLoop_truncate_js:
  "gameRunning_js w \<Longrightarrow>
     gameState_js.truncate (after (gameLoop_js w)) =
       (if isl (update_js w) then gameState_js.truncate (after (update_js w))
        else (gameState_js.truncate (after (update_js w)))
               \<lparr>animationFrameId_js := Some (Suc (frameHandle_js (after (update_js w))))\<rparr>)"
  by (simp add: gameLoop_js_thrown gameLoop_js_returned gameState_js.truncate_def)

lemma gameLoop_state_independent_js:
  assumes "ogp m = None \<longleftrightarrow> ogp (ogpManager_js w) = None"
    and "isInitialized m = isInitialized (ogpManager_js w)"
  shows "gameState_js.truncate (after (gameLoop_js (w\<lparr>ogpManager_js := m\<rparr>))) =
     gameState_js.truncate (after (gameLoop_js w))"
proof (cases "gameRunning_js w")
  case True
  then have "gameRunning_js (w\<lparr>ogpManager_js := m\<rparr>)" by simp
  from gameLoop_truncate_js [OF this] gameLoop_truncate_js [OF True] show ?thesis
    by (simp only: update_state_independent_js update_isl_manager_js [OF assms])
next
  case False
  then show ?thesis by (simp add: gameLoop_js_stopped gameState_js.truncate_def)
qed

lemma gameLoop_isl_manager_js:
  assumes "ogp m = None \<longleftrightarrow> ogp (ogpManager_js w) = None"
    and "isInitialized m = isInitialized (ogpManager_js w)"
  shows "isl (gameLoop_js (w\<lparr>ogpManager_js := m\<rparr>)) = isl (gameLoop_js w)"
  by (simp add: gameLoop_js_isl update_isl_manager_js [OF assms])

section \<open>The claims\<close>

text \<open>
  C1. While the game is running, \<open>flap\<close> (\<open>jump\<close> in \<open>game.js\<close>) sets the bird's velocity
  to minus the flap strength, whatever the velocity was before; while the game is not
  running it changes nothing at all.
\<close>

theorem flap_sets_velocity:
  "(gameRunning w \<longrightarrow> birdVelocity (flap w) = - flapStrength CONFIG) \<and>
   (\<not> gameRunning w \<longrightarrow> flap w = w) \<and>
   (gameRunning_js v \<longrightarrow> birdVelocity_js (jump v) = - jumpStrength CONFIG_js) \<and>
   (\<not> gameRunning_js v \<longrightarrow> jump v = v)"
proof (intro conjI impI)
  assume "gameRunning w"
  then show "birdVelocity (flap w) = - flapStrength CONFIG" by (rule flap_running)
next
  assume "\<not> gameRunning w"
  then show "flap w = w" by (rule flap_stopped)
next
  assume "gameRunning_js v"
  then show "birdVelocity_js (jump v) = - jumpStrength CONFIG_js" by (rule jump_running)
next
  assume "\<not> gameRunning_js v"
  then show "jump v = v" by (rule jump_stopped)
qed

theorem flap_sets_velocity_witness:
  "gameRunning (sample_world\<lparr>birdVelocity := 7\<rparr>) \<and>
   birdVelocity (flap (sample_world\<lparr>birdVelocity := 7\<rparr>)) = - 3 \<and>
   \<not> gameRunning (sample_world\<lparr>gameRunning := False\<rparr>) \<and>
   flap (sample_world\<lparr>gameRunning := False\<rparr>) = sample_world\<lparr>gameRunning := False\<rparr> \<and>
   gameRunning_js (sample_world_js\<lparr>birdVelocity_js := - 9\<rparr>) \<and>
   birdVelocity_js (jump (sample_world_js\<lparr>birdVelocity_js := - 9\<rparr>)) = - 3 \<and>
   \<not> gameRunning_js (sample_world_js\<lparr>gameRunning_js := False\<rparr>) \<and>
   jump (sample_world_js\<lparr>gameRunning_js := False\<rparr>) = sample_world_js\<lparr>gameRunning_js := False\<rparr>"
  using flap_sets_velocity [of "sample_world\<lparr>birdVelocity := 7\<rparr>"
      "sample_world_js\<lparr>birdVelocity_js := - 9\<rparr>"]
    flap_sets_velocity [of "sample_world\<lparr>gameRunning := False\<rparr>"
      "sample_world_js\<lparr>gameRunning_js := False\<rparr>"]
  by (simp add: sample_world_def sample_world_js_def CONFIG_def CONFIG_js_def)

text \<open>
  C2. The vertical physics of a step sets the velocity to the minimum of velocity plus
  gravity and the maximal velocity, and from a state whose velocity is at most the maximal
  velocity no sequence of operations (steps, guarded or not, flaps, restarts) leads to a
  state whose velocity exceeds it.
\<close>

theorem velocity_never_exceeds_max:
  "birdVelocity (updateBirdPosition w) =
     min (birdVelocity w + gravity CONFIG) (maxVelocity CONFIG) \<and>
   birdVelocity (after (update w)) = min (birdVelocity w + gravity CONFIG) (maxVelocity CONFIG) \<and>
   (birdVelocity w \<le> maxVelocity CONFIG \<longrightarrow> birdVelocity (run ops w) \<le> maxVelocity CONFIG) \<and>
   birdVelocity_js (after (update_js v)) =
     min (birdVelocity_js v + gravity_js CONFIG_js) (maxVelocity_js CONFIG_js) \<and>
   (birdVelocity_js v \<le> maxVelocity_js CONFIG_js \<longrightarrow>
      birdVelocity_js (run_js ops_js v) \<le> maxVelocity_js CONFIG_js)"
  by (simp add: updateBirdPosition_fields update_fields update_js_fields run_birdVelocity
      run_birdVelocity_js)

theorem velocity_never_exceeds_max_witness:
  "birdVelocity sample_world \<le> maxVelocity CONFIG \<and>
   birdVelocity (run [Update, Flap, GameLoop, Update] sample_world) \<le> maxVelocity CONFIG \<and>
   birdVelocity (after (update (sample_world\<lparr>birdVelocity := 4.99\<rparr>))) = 5 \<and>
   birdVelocity_js sample_world_js \<le> maxVelocity_js CONFIG_js \<and>
   birdVelocity_js (run_js [Update_js, Jump, GameLoop_js, Update_js] sample_world_js)
     \<le> maxVelocity_js CONFIG_js \<and>
   birdVelocity_js (after (update_js (sample_world_js\<lparr>birdVelocity_js := 4.99\<rparr>))) = 5"
  using velocity_never_exceeds_max [of sample_world "[Update, Flap, GameLoop, Update]"
      sample_world_js "[Update_js, Jump, GameLoop_js, Update_js]"]
    velocity_never_exceeds_max [of "sample_world\<lparr>birdVelocity := 4.99\<rparr>" "[]"
      "sample_world_js\<lparr>birdVelocity_js := 4.99\<rparr>" "[]"]
  by (simp add: sample_world_def sample_world_js_def gameState_initial_def
      gameState_initial_js_def CONFIG_def CONFIG_js_def)

text \<open>
  C3. The ground test does not fire for every obstacle configuration. \<open>update\<close> calls
  \<open>updateObstaclePassed\<close> before \<open>checkCollisions\<close>, and on a passed obstacle that calls
  \<open>addPoints\<close>, which reads \<open>ogp.ui\<close> without the guard that \<open>saveScore\<close> has. On a page whose
  SDK constructor threw, \<open>ogp\<close> is null. Take a running game there with the bird at
  569.55 falling at 4.95 and the obstacle at -50: the step moves the bird to 574.55, below
  the ground line, moves the obstacle to -52, which counts as passed, and throws in
  \<open>addPoints\<close>. The collision check is not reached and the game is left running; the frame
  is aborted with it. With the obstacle two pixels further right, or with an SDK object
  present, the same bird position ends the game. (Whenever the step does reach the collision check, the
  ground and ceiling test ends the game whatever the obstacle: \<open>checkCollisions_gameRunning\<close>,
  \<open>update_gameRunning\<close>; the step of \<open>game.js\<close>, which has no \<open>addPoints\<close>, always reaches it:
  \<open>update_js_gameRunning\<close>.)
\<close>

theorem collision_check_skipped_without_sdk:
  "update sdkless_pass = Inl (TypeError, after (update sdkless_pass)) \<and>
   gameLoop sdkless_pass = Inl (TypeError, after (update sdkless_pass)) \<and>
   gameRunning sdkless_pass \<and>
   birdY (after (update sdkless_pass)) = 574.55 \<and>
   canvasHeight CONFIG < birdY (after (update sdkless_pass)) + birdHeight CONFIG \<and>
   gameRunning (after (update sdkless_pass)) \<and>
   gameRunning (after (gameLoop sdkless_pass)) \<and>
   birdY (after (update (sdkless_pass\<lparr>obstacleX := - 48\<rparr>))) = 574.55 \<and>
   \<not> gameRunning (after (update (sdkless_pass\<lparr>obstacleX := - 48\<rparr>))) \<and>
   birdY (after (update (sdkless_pass\<lparr>ogpManager := sample_manager\<rparr>))) = 574.55 \<and>
   \<not> gameRunning (after (update (sdkless_pass\<lparr>ogpManager := sample_manager\<rparr>)))"
proof -
  note defs = sdkless_pass_def sample_world_def sample_manager_def failed_manager_def
    gameState_initial_def CONFIG_def
  have p: "obstacleX sdkless_pass - obstacleSpeed CONFIG < - obstacleWidth CONFIG"
    "ogp (ogpManager sdkless_pass) = None"
    by (simp_all add: defs)
  have r: "gameRunning sdkless_pass" by (simp add: defs)
  have i: "isl (update sdkless_pass)" unfolding update_thrown [OF p] by simp
  have u: "update sdkless_pass = Inl (TypeError, after (update sdkless_pass))"
    using i by (rule result_thrown)
  have g: "gameLoop sdkless_pass = Inl (TypeError, after (update sdkless_pass))"
    unfolding gameLoop_thrown [OF r i] by (rule u)
  have y: "birdY (after (update sdkless_pass)) = 574.55"
    by (simp add: update_fields defs)
  have ur: "gameRunning (after (update sdkless_pass))"
    unfolding update_gameRunning_thrown [OF p] by (rule r)
  have gr: "gameRunning (after (gameLoop sdkless_pass))"
    unfolding gameLoop_fields(9) [OF r] by (rule ur)
  have n1: "\<not> (obstacleX (sdkless_pass\<lparr>obstacleX := - 48\<rparr>) - obstacleSpeed CONFIG
        < - obstacleWidth CONFIG \<and>
      ogp (ogpManager (sdkless_pass\<lparr>obstacleX := - 48\<rparr>)) = None)"
    by (simp add: defs)
  have n2: "\<not> (obstacleX (sdkless_pass\<lparr>ogpManager := sample_manager\<rparr>) - obstacleSpeed CONFIG
        < - obstacleWidth CONFIG \<and>
      ogp (ogpManager (sdkless_pass\<lparr>ogpManager := sample_manager\<rparr>)) = None)"
    by (simp add: defs)
  have y1: "birdY (after (update (sdkless_pass\<lparr>obstacleX := - 48\<rparr>))) = 574.55"
    by (simp add: update_fields defs)
  have y2: "birdY (after (update (sdkless_pass\<lparr>ogpManager := sample_manager\<rparr>))) = 574.55"
    by (simp add: update_fields defs)
  have r1: "\<not> gameRunning (after (update (sdkless_pass\<lparr>obstacleX := - 48\<rparr>)))"
    unfolding update_gameRunning [OF n1] y1 by (simp add: CONFIG_def)
  have r2: "\<not> gameRunning (after (update (sdkless_pass\<lparr>ogpManager := sample_manager\<rparr>)))"
    unfolding update_gameRunning [OF n2] y2 by (simp add: CONFIG_def)
  have c: "canvasHeight CONFIG < birdY (after (update sdkless_pass)) + birdHeight CONFIG"
    unfolding y by (simp add: CONFIG_def)
  from u g r y c ur gr y1 r1 y2 r2 show ?thesis by blast
qed

text \<open>
  C4. The bound does not hold in every reachable running state. On a page whose SDK
  constructor threw, with the first gap drawn at 340, the player starts the game, flaps
  once after 66 frames and lets the bird fall through the gap: 160 frames later the bird
  crosses the ground line in the frame in which the obstacle is passed. \<open>addPoints\<close> throws,
  the collision check is skipped, and the game is running with the bird at 574.55, below
  570. No further frame is requested; a flap after it completes and leaves the game
  running in that position. (With an SDK object present the bound holds in every running
  state of every run, \<open>run_inBounds\<close>, and so it does in \<open>game.js\<close>, \<open>run_inBounds_js\<close>; the
  position is only ever changed by adding the velocity, never clamped.)
\<close>

theorem bird_out_of_range_while_running:
  "set sdkless_round \<subseteq> {StartGame, GameLoop, Flap} \<and>
   \<not> gameRunning sdkless_world \<and>
   gameRunning (run sdkless_round sdkless_world) \<and>
   birdY (run sdkless_round sdkless_world) = 574.55 \<and>
   canvasHeight CONFIG - birdHeight CONFIG < birdY (run sdkless_round sdkless_world) \<and>
   score (run sdkless_round sdkless_world) = 1 \<and>
   gameRunning (run (sdkless_round @ [Flap]) sdkless_world) \<and>
   birdY (run (sdkless_round @ [Flap]) sdkless_world) = 574.55 \<and>
   (\<exists>w. startState w \<and>
      run sdkless_round sdkless_world = (frame ^^ 160) (flap ((frame ^^ 66) w)) \<and>
      isl (gameLoop ((frame ^^ 159) (flap ((frame ^^ 66) w)))))"
proof -
  note r = sdkless_round_result
  have s: "set sdkless_round \<subseteq> {StartGame, GameLoop, Flap}"
    by (auto simp add: sdkless_round_def)
  have i: "\<not> gameRunning sdkless_world"
    by (simp add: sdkless_world_def gameState_initial_def)
  have c: "canvasHeight CONFIG - birdHeight CONFIG < birdY (run sdkless_round sdkless_world)"
    unfolding r(2) by (simp add: CONFIG_def)
  have f: "run (sdkless_round @ [Flap]) sdkless_world = flap (run sdkless_round sdkless_world)"
    by (simp add: run_append run_def)
  have fr: "gameRunning (run (sdkless_round @ [Flap]) sdkless_world)"
    "birdY (run (sdkless_round @ [Flap]) sdkless_world) = 574.55"
    unfolding f using r by (simp_all add: flap_fields)
  have e: "\<exists>w. startState w \<and>
      run sdkless_round sdkless_world = (frame ^^ 160) (flap ((frame ^^ 66) w)) \<and>
      isl (gameLoop ((frame ^^ 159) (flap ((frame ^^ 66) w))))"
    using sdkless_round_thrown by blast
  from s i r c fr e show ?thesis by blast
qed

text \<open>
  C5. A step adds one to the score exactly when the obstacle, after its advance, is left of
  minus the obstacle width, and otherwise leaves the score alone; in that same step the
  obstacle is put back at the canvas width. From an obstacle at the canvas width, no
  sequence of steps and flaps with at most 225 steps changes the score, and the 226th step
  in a row adds one again and puts the obstacle back once more: one obstacle, one point.
\<close>

theorem score_once_per_obstacle:
  "score (after (updateObstaclePassed w)) =
     (if obstacleX w < - obstacleWidth CONFIG then score w + 1 else score w) \<and>
   obstacleX (after (updateObstaclePassed w)) =
     (if obstacleX w < - obstacleWidth CONFIG then canvasWidth CONFIG else obstacleX w) \<and>
   score (after (update w)) =
     (if obstacleX w - obstacleSpeed CONFIG < - obstacleWidth CONFIG then score w + 1
      else score w) \<and>
   obstacleX (after (update w)) =
     (if obstacleX w - obstacleSpeed CONFIG < - obstacleWidth CONFIG then canvasWidth CONFIG
      else obstacleX w - obstacleSpeed CONFIG) \<and>
   (obstacleX w = canvasWidth CONFIG \<longrightarrow> set ops \<subseteq> {Update, GameLoop, Flap} \<longrightarrow>
    count_list ops Update + count_list ops GameLoop \<le> 225 \<longrightarrow>
      score (run ops w) = score w) \<and>
   (obstacleX w = canvasWidth CONFIG \<longrightarrow>
      score ((step ^^ 226) w) = score w + 1 \<and>
      obstacleX ((step ^^ 226) w) = canvasWidth CONFIG) \<and>
   score_js (after (update_js v)) =
     (if obstacleX_js v - obstacleSpeed_js CONFIG_js < - obstacleWidth_js CONFIG_js
      then score_js v + 1 else score_js v) \<and>
   obstacleX_js (after (update_js v)) =
     (if obstacleX_js v - obstacleSpeed_js CONFIG_js < - obstacleWidth_js CONFIG_js
      then canvasWidth_js CONFIG_js else obstacleX_js v - obstacleSpeed_js CONFIG_js) \<and>
   (obstacleX_js v = canvasWidth_js CONFIG_js \<longrightarrow> set ops_js \<subseteq> {Update_js, GameLoop_js, Jump} \<longrightarrow>
    count_list ops_js Update_js + count_list ops_js GameLoop_js \<le> 225 \<longrightarrow>
      score_js (run_js ops_js v) = score_js v) \<and>
   (obstacleX_js v = canvasWidth_js CONFIG_js \<longrightarrow>
      score_js ((step_js ^^ 226) v) = score_js v + 1 \<and>
      obstacleX_js ((step_js ^^ 226) v) = canvasWidth_js CONFIG_js)"
proof -
  have n: "(f ^^ 226) y = f ((f ^^ 225) y)" for f :: "'a \<Rightarrow> 'a" and y
  proof -
    have "(f ^^ (1 + 225)) y = f ((f ^^ 225) y)" unfolding funpow_add by simp
    then show ?thesis by simp
  qed
  have a: "score (run ops w) = score w"
    if "obstacleX w = canvasWidth CONFIG" "set ops \<subseteq> {Update, GameLoop, Flap}"
      "count_list ops Update + count_list ops GameLoop \<le> 225"
  proof (rule run_no_pass [OF that(2)])
    from that(3) have "real (count_list ops Update + count_list ops GameLoop) \<le> 225"
      by linarith
    with that(1) show "2 * real (count_list ops Update + count_list ops GameLoop)
        \<le> obstacleX w + obstacleWidth CONFIG"
      by (simp add: CONFIG_def)
  qed
  have b: "score ((step ^^ 226) w) = score w + 1 \<and>
      obstacleX ((step ^^ 226) w) = canvasWidth CONFIG"
    if "obstacleX w = canvasWidth CONFIG"
  proof -
    from that have "2 * real 225 \<le> obstacleX w + obstacleWidth CONFIG"
      by (simp add: CONFIG_def)
    from funpow_obstacle [OF this] that show ?thesis
      unfolding n by (simp add: step_def update_fields CONFIG_def)
  qed
  have a': "score_js (run_js ops_js v) = score_js v"
    if "obstacleX_js v = canvasWidth_js CONFIG_js" "set ops_js \<subseteq> {Update_js, GameLoop_js, Jump}"
      "count_list ops_js Update_js + count_list ops_js GameLoop_js \<le> 225"
  proof (rule run_no_pass_js [OF that(2)])
    from that(3) have "real (count_list ops_js Update_js + count_list ops_js GameLoop_js) \<le> 225"
      by linarith
    with that(1) show "2 * real (count_list ops_js Update_js + count_list ops_js GameLoop_js)
        \<le> obstacleX_js v + obstacleWidth_js CONFIG_js"
      by (simp add: CONFIG_js_def)
  qed
  have b': "score_js ((step_js ^^ 226) v) = score_js v + 1 \<and>
      obstacleX_js ((step_js ^^ 226) v) = canvasWidth_js CONFIG_js"
    if "obstacleX_js v = canvasWidth_js CONFIG_js"
  proof -
    from that have "2 * real 225 \<le> obstacleX_js v + obstacleWidth_js CONFIG_js"
      by (simp add: CONFIG_js_def)
    from funpow_obstacle_js [OF this] that show ?thesis
      unfolding n by (simp add: step_js_def update_js_fields CONFIG_js_def)
  qed
  show ?thesis
    using a b a' b'
    by (simp add: updateObstaclePassed_fields update_fields update_js_fields)
qed

theorem score_once_per_obstacle_witness:
  "obstacleX sample_world = canvasWidth CONFIG \<and>
   set [Update, Flap, GameLoop] \<subseteq> {Update, GameLoop, Flap} \<and>
   count_list [Update, Flap, GameLoop] Update + count_list [Update, Flap, GameLoop] GameLoop
     \<le> 225 \<and>
   score (run [Update, Flap, GameLoop] sample_world) = score sample_world \<and>
   score ((step ^^ 226) sample_world) = 1 \<and>
   score (after (update (sample_world\<lparr>obstacleX := - 49\<rparr>))) = 1 \<and>
   obstacleX (after (update (sample_world\<lparr>obstacleX := - 49\<rparr>))) = 400 \<and>
   obstacleX_js sample_world_js = canvasWidth_js CONFIG_js \<and>
   set [Update_js, Jump, GameLoop_js] \<subseteq> {Update_js, GameLoop_js, Jump} \<and>
   count_list [Update_js, Jump, GameLoop_js] Update_js
     + count_list [Update_js, Jump, GameLoop_js] GameLoop_js \<le> 225 \<and>
   score_js (run_js [Update_js, Jump, GameLoop_js] sample_world_js) = score_js sample_world_js \<and>
   score_js ((step_js ^^ 226) sample_world_js) = 1 \<and>
   score_js (after (update_js (sample_world_js\<lparr>obstacleX_js := - 49\<rparr>))) = 1 \<and>
   obstacleX_js (after (update_js (sample_world_js\<lparr>obstacleX_js := - 49\<rparr>))) = 400"
  using score_once_per_obstacle [of sample_world "[Update, Flap, GameLoop]" sample_world_js
      "[Update_js, Jump, GameLoop_js]"]
    score_once_per_obstacle [of "sample_world\<lparr>obstacleX := - 49\<rparr>" "[]"
      "sample_world_js\<lparr>obstacleX_js := - 49\<rparr>" "[]"]
  by (simp add: sample_world_def sample_world_js_def gameState_initial_def
      gameState_initial_js_def CONFIG_def CONFIG_js_def)

text \<open>
  C6. With the gap at its configured size and a random value in [0, 1), \<open>resetObstacle\<close>
  puts the obstacle at the right edge of the canvas and draws a gap top between 50 and the
  canvas height minus the gap minus 50, computed as random times (canvas height - gap - 100)
  plus 50. No operation changes the gap.
\<close>

theorem resetObstacle_gap_range:
  "(gap w = gapSize CONFIG \<longrightarrow> 0 \<le> random w (randomCalls w) \<longrightarrow> random w (randomCalls w) < 1 \<longrightarrow>
      50 \<le> obstacleHeight (resetObstacle w) \<and>
      obstacleHeight (resetObstacle w) \<le> canvasHeight CONFIG - gapSize CONFIG - 50) \<and>
   obstacleHeight (resetObstacle w) =
     random w (randomCalls w) * (canvasHeight CONFIG - gap w - 100) + 50 \<and>
   obstacleX (resetObstacle w) = canvasWidth CONFIG \<and>
   gap (run ops w) = gap w \<and>
   (gap_js v = gapSize_js CONFIG_js \<longrightarrow> 0 \<le> random_js v (randomCalls_js v) \<longrightarrow>
    random_js v (randomCalls_js v) < 1 \<longrightarrow>
      50 \<le> obstacleHeight_js (resetObstacle_js v) \<and>
      obstacleHeight_js (resetObstacle_js v)
        \<le> canvasHeight_js CONFIG_js - gapSize_js CONFIG_js - 50) \<and>
   obstacleHeight_js (resetObstacle_js v) =
     random_js v (randomCalls_js v) * (canvasHeight_js CONFIG_js - gap_js v - 100) + 50 \<and>
   obstacleX_js (resetObstacle_js v) = canvasWidth_js CONFIG_js \<and>
   gap_js (run_js ops_js v) = gap_js v"
  using resetObstacle_range [of w] resetObstacle_range_js [of v]
  by (simp add: resetObstacle_fields resetObstacle_js_fields run_gap run_gap_js)

theorem resetObstacle_gap_range_witness:
  "gap sample_world = gapSize CONFIG \<and> 0 \<le> random sample_world (randomCalls sample_world) \<and>
   random sample_world (randomCalls sample_world) < 1 \<and>
   obstacleHeight (resetObstacle sample_world) = 225 \<and>
   obstacleX (resetObstacle sample_world) = 400 \<and>
   gap_js sample_world_js = gapSize_js CONFIG_js \<and>
   0 \<le> random_js sample_world_js (randomCalls_js sample_world_js) \<and>
   random_js sample_world_js (randomCalls_js sample_world_js) < 1 \<and>
   obstacleHeight_js (resetObstacle_js sample_world_js) = 225 \<and>
   obstacleX_js (resetObstacle_js sample_world_js) = 400"
  using resetObstacle_gap_range [of sample_world "[]" sample_world_js "[]"]
  by (simp add: sample_world_def sample_world_js_def gameState_initial_def
      gameState_initial_js_def CONFIG_def CONFIG_js_def)

lemma simulationState_truncate:
  "simulationState w =
     (let g = gameState.truncate w
      in (birdY g, birdVelocity g, birdRotation g, birdRotationVelocity g, obstacleX g,
          obstacleHeight g, gap g, score g, gameRunning g))"
  by (simp add: simulationState_def gameState.truncate_def)

lemma gameLoop_simulationState_independent:
  assumes "ogp m = None \<longleftrightarrow> ogp (ogpManager w) = None"
  shows "simulationState (after (gameLoop (w\<lparr>ogpManager := m\<rparr>))) =
     simulationState (after (gameLoop w))"
proof (cases "gameRunning w")
  case True
  then have r: "gameRunning (w\<lparr>ogpManager := m\<rparr>)" by simp
  have "simulationState (after (update (w\<lparr>ogpManager := m\<rparr>))) =
      simulationState (after (update w))"
    unfolding simulationState_truncate update_state_independent(1) [OF assms] ..
  then show ?thesis
    by (simp add: simulationState_def gameLoop_fields [OF r] gameLoop_fields [OF True])
next
  case False
  then show ?thesis by (simp add: gameLoop_stopped simulationState_def)
qed

lemma simulationState_js_truncate:
  "simulationState_js w =
     (let g = gameState_js.truncate w
      in (birdY_js g, birdVelocity_js g, obstacleX_js g, obstacleHeight_js g, gap_js g,
          score_js g, gameRunning_js g))"
  by (simp add: simulationState_js_def gameState_js.truncate_def)

lemma gameLoop_js_simulationState_independent:
  "simulationState_js (after (gameLoop_js (w\<lparr>ogpManager_js := m\<rparr>))) =
     simulationState_js (after (gameLoop_js w))"
proof (cases "gameRunning_js w")
  case True
  then have r: "gameRunning_js (w\<lparr>ogpManager_js := m\<rparr>)" by simp
  have "simulationState_js (after (update_js (w\<lparr>ogpManager_js := m\<rparr>))) =
      simulationState_js (after (update_js w))"
    unfolding simulationState_js_truncate update_state_independent_js(1) ..
  then show ?thesis
    by (simp add: simulationState_js_def gameLoop_js_fields [OF r] gameLoop_js_fields [OF True])
next
  case False
  then show ?thesis by (simp add: gameLoop_js_stopped simulationState_js_def)
qed

lemma endGame_simulationState_independent:
  "simulationState (after (endGame (w\<lparr>ogpManager := m\<rparr>))) = simulationState (after (endGame w))"
  by (simp add: simulationState_def endGame_fields)

lemma endGame_js_simulationState_independent:
  "simulationState_js (after (endGame_js (w\<lparr>ogpManager_js := m\<rparr>))) =
     simulationState_js (after (endGame_js w))"
  by (simp add: simulationState_js_def endGame_js_fields)

text \<open>
  C7. Ending the game invokes \<open>saveScore\<close> once, with the score, when the score is
  positive, and not at all when it is zero. A frame of a running game makes that one
  invocation exactly when it ends the game, and none when the game goes on; a frame of a
  stopped game does nothing, and neither \<open>flap\<close> nor \<open>startGame\<close> invokes \<open>saveScore\<close>. The
  simulation state after \<open>endGame\<close> is the same for every manager. The outcome of the save
  is the way the promise of the SDK object's \<open>savePoints\<close> settles: the simulation state
  after a frame is the same for every SDK object put in place of the present one, whatever
  its \<open>savePoints\<close> and whatever the initialisation flag, and with the flag kept the whole
  game state and the frame's completion are the same too. In the rotation variant the
  comparison is between managers that both hold an SDK object or both hold none, since
  \<open>addPoints\<close> of that variant, which is not the save, reads the object on every passed
  obstacle; \<open>game.js\<close> has no \<open>addPoints\<close> and its simulation state is the same for every
  manager. (In \<open>game.js\<close> a listener refreshes the displayed account total \<open>ogpPoints\<close> some
  time after a successful save; that field is not part of the specification's simulation
  state and the listener is not part of the frame.)
\<close>

theorem saveScore_once_at_game_end:
  "saveScore_calls (trace (after (endGame w))) =
     saveScore_calls (trace w) @ (if score w > 0 then [score w] else []) \<and>
   (gameRunning w \<longrightarrow>
      saveScore_calls (trace (after (gameLoop w))) =
        saveScore_calls (trace w) @
          (if gameRunning (after (gameLoop w)) then []
           else if score (after (gameLoop w)) > 0 then [score (after (gameLoop w))] else [])) \<and>
   (\<not> gameRunning w \<longrightarrow> gameLoop w = Inr w) \<and>
   saveScore_calls (trace (flap w)) = saveScore_calls (trace w) \<and>
   saveScore_calls (trace (after (startGame w))) = saveScore_calls (trace w) \<and>
   simulationState (after (endGame (w\<lparr>ogpManager := m\<rparr>))) = simulationState (after (endGame w)) \<and>
   ((ogp m = None \<longleftrightarrow> ogp (ogpManager w) = None) \<longrightarrow>
      simulationState (after (gameLoop (w\<lparr>ogpManager := m\<rparr>))) =
        simulationState (after (gameLoop w))) \<and>
   ((ogp m = None \<longleftrightarrow> ogp (ogpManager w) = None) \<longrightarrow>
    isInitialized m = isInitialized (ogpManager w) \<longrightarrow>
      gameState.truncate (after (gameLoop (w\<lparr>ogpManager := m\<rparr>))) =
        gameState.truncate (after (gameLoop w)) \<and>
      isl (gameLoop (w\<lparr>ogpManager := m\<rparr>)) = isl (gameLoop w)) \<and>
   saveScore_calls (trace_js (after (endGame_js v))) =
     saveScore_calls (trace_js v) @ (if score_js v > 0 then [score_js v] else []) \<and>
   (gameRunning_js v \<longrightarrow>
      saveScore_calls (trace_js (after (gameLoop_js v))) =
        saveScore_calls (trace_js v) @
          (if gameRunning_js (after (gameLoop_js v)) then []
           else if score_js (after (gameLoop_js v)) > 0 then [score_js (after (gameLoop_js v))]
           else [])) \<and>
   (\<not> gameRunning_js v \<longrightarrow> gameLoop_js v = Inr v) \<and>
   saveScore_calls (trace_js (jump v)) = saveScore_calls (trace_js v) \<and>
   saveScore_calls (trace_js (after (startGame_js v))) = saveScore_calls (trace_js v) \<and>
   simulationState_js (after (endGame_js (v\<lparr>ogpManager_js := m\<rparr>))) =
     simulationState_js (after (endGame_js v)) \<and>
   simulationState_js (after (gameLoop_js (v\<lparr>ogpManager_js := m\<rparr>))) =
     simulationState_js (after (gameLoop_js v)) \<and>
   ((ogp m = None \<longleftrightarrow> ogp (ogpManager_js v) = None) \<longrightarrow>
    isInitialized m = isInitialized (ogpManager_js v) \<longrightarrow>
      gameState_js.truncate (after (gameLoop_js (v\<lparr>ogpManager_js := m\<rparr>))) =
        gameState_js.truncate (after (gameLoop_js v)) \<and>
      isl (gameLoop_js (v\<lparr>ogpManager_js := m\<rparr>)) = isl (gameLoop_js v))"
proof -
  note e = endGame_saveScore_calls [of w] endGame_saveScore_calls_js [of v]
    startGame_saveScore_calls [of w] startGame_saveScore_calls_js [of v]
    endGame_simulationState_independent [where w = w and m = m]
    endGame_js_simulationState_independent [where w = v and m = m]
    gameLoop_js_simulationState_independent [where w = v and m = m]
  show ?thesis
    by (intro conjI impI;
        (rule e | simp add: gameLoop_saveScore_calls gameLoop_saveScore_calls_js
           gameLoop_stopped gameLoop_js_stopped flap_fields jump_fields
           gameLoop_simulationState_independent gameLoop_state_independent
           gameLoop_isl_manager gameLoop_state_independent_js gameLoop_isl_manager_js))
qed

theorem saveScore_once_at_game_end_witness:
  "gameRunning (sample_world\<lparr>birdY := 569, birdVelocity := 2, score := 3\<rparr>) \<and>
   \<not> gameRunning (after (gameLoop (sample_world\<lparr>birdY := 569, birdVelocity := 2,
     score := 3\<rparr>))) \<and>
   saveScore_calls (trace (after (gameLoop (sample_world\<lparr>birdY := 569, birdVelocity := 2,
     score := 3\<rparr>)))) = [3] \<and>
   saveScore_calls (trace (after (gameLoop (sample_world\<lparr>birdY := 569,
     birdVelocity := 2\<rparr>)))) = [] \<and>
   gameRunning (after (gameLoop sample_world)) \<and>
   saveScore_calls (trace (after (gameLoop sample_world))) = [] \<and>
   \<not> gameRunning (sample_world\<lparr>gameRunning := False\<rparr>) \<and>
   gameLoop (sample_world\<lparr>gameRunning := False\<rparr>) = Inr (sample_world\<lparr>gameRunning := False\<rparr>) \<and>
   (ogp \<lparr>ogp = Some \<lparr>savePoints = (\<lambda>n. Rejected)\<rparr>, isInitialized = True\<rparr> = None \<longleftrightarrow>
    ogp (ogpManager (sample_world\<lparr>birdY := 569, birdVelocity := 2, score := 3\<rparr>)) = None) \<and>
   isInitialized \<lparr>ogp = Some \<lparr>savePoints = (\<lambda>n. Rejected)\<rparr>, isInitialized = True\<rparr> =
     isInitialized (ogpManager (sample_world\<lparr>birdY := 569, birdVelocity := 2, score := 3\<rparr>)) \<and>
   simulationState (after (gameLoop (sample_world\<lparr>birdY := 569, birdVelocity := 2, score := 3,
     ogpManager := \<lparr>ogp = Some \<lparr>savePoints = (\<lambda>n. Rejected)\<rparr>, isInitialized = True\<rparr>\<rparr>))) =
   simulationState (after (gameLoop (sample_world\<lparr>birdY := 569, birdVelocity := 2,
     score := 3\<rparr>))) \<and>
   gameState.truncate (after (gameLoop (sample_world\<lparr>birdY := 569, birdVelocity := 2,
     score := 3,
     ogpManager := \<lparr>ogp = Some \<lparr>savePoints = (\<lambda>n. Rejected)\<rparr>, isInitialized = True\<rparr>\<rparr>))) =
   gameState.truncate (after (gameLoop (sample_world\<lparr>birdY := 569, birdVelocity := 2,
     score := 3\<rparr>))) \<and>
   gameRunning_js (sample_world_js\<lparr>birdY_js := 569, birdVelocity_js := 2, score_js := 3\<rparr>) \<and>
   \<not> gameRunning_js (after (gameLoop_js (sample_world_js\<lparr>birdY_js := 569,
     birdVelocity_js := 2, score_js := 3\<rparr>))) \<and>
   saveScore_calls (trace_js (after (gameLoop_js (sample_world_js\<lparr>birdY_js := 569,
     birdVelocity_js := 2, score_js := 3\<rparr>)))) = [3] \<and>
   saveScore_calls (trace_js (after (gameLoop_js (sample_world_js\<lparr>birdY_js := 569,
     birdVelocity_js := 2\<rparr>)))) = [] \<and>
   gameRunning_js (after (gameLoop_js sample_world_js)) \<and>
   saveScore_calls (trace_js (after (gameLoop_js sample_world_js))) = [] \<and>
   \<not> gameRunning_js (sample_world_js\<lparr>gameRunning_js := False\<rparr>) \<and>
   gameLoop_js (sample_world_js\<lparr>gameRunning_js := False\<rparr>) =
     Inr (sample_world_js\<lparr>gameRunning_js := False\<rparr>) \<and>
   (ogp \<lparr>ogp = Some \<lparr>savePoints = (\<lambda>n. Rejected)\<rparr>, isInitialized = True\<rparr> = None \<longleftrightarrow>
    ogp (ogpManager_js (sample_world_js\<lparr>birdY_js := 569, birdVelocity_js := 2,
      score_js := 3\<rparr>)) = None) \<and>
   isInitialized \<lparr>ogp = Some \<lparr>savePoints = (\<lambda>n. Rejected)\<rparr>, isInitialized = True\<rparr> =
     isInitialized (ogpManager_js (sample_world_js\<lparr>birdY_js := 569, birdVelocity_js := 2,
       score_js := 3\<rparr>)) \<and>
   gameState_js.truncate (after (gameLoop_js (sample_world_js\<lparr>birdY_js := 569,
     birdVelocity_js := 2, score_js := 3,
     ogpManager_js := \<lparr>ogp = Some \<lparr>savePoints = (\<lambda>n. Rejected)\<rparr>,
       isInitialized = True\<rparr>\<rparr>))) =
   gameState_js.truncate (after (gameLoop_js (sample_world_js\<lparr>birdY_js := 569,
     birdVelocity_js := 2, score_js := 3\<rparr>)))"
proof -
  let ?c = "sample_world\<lparr>birdY := 569, birdVelocity := 2, score := 3\<rparr>"
  let ?z = "sample_world\<lparr>birdY := 569, birdVelocity := 2\<rparr>"
  let ?s = "sample_world\<lparr>gameRunning := False\<rparr>"
  let ?cj = "sample_world_js\<lparr>birdY_js := 569, birdVelocity_js := 2, score_js := 3\<rparr>"
  let ?zj = "sample_world_js\<lparr>birdY_js := 569, birdVelocity_js := 2\<rparr>"
  let ?sj = "sample_world_js\<lparr>gameRunning_js := False\<rparr>"
  let ?m = "\<lparr>ogp = Some \<lparr>savePoints = (\<lambda>n. Rejected)\<rparr>, isInitialized = True\<rparr>"
  note defs = sample_world_def sample_world_js_def sample_manager_def gameState_initial_def
    gameState_initial_js_def CONFIG_def CONFIG_js_def
  have r: "gameRunning ?c" "gameRunning ?z" "gameRunning sample_world" "\<not> gameRunning ?s"
    "gameRunning_js ?cj" "gameRunning_js ?zj" "gameRunning_js sample_world_js"
    "\<not> gameRunning_js ?sj"
    by (simp_all add: defs)
  have t: "trace ?c = []" "trace ?z = []" "trace sample_world = []"
    "trace_js ?cj = []" "trace_js ?zj = []" "trace_js sample_world_js = []"
    by (simp_all add: defs)
  have o: "ogp ?m = None \<longleftrightarrow> ogp (ogpManager ?c) = None"
    "isInitialized ?m = isInitialized (ogpManager ?c)"
    "ogp ?m = None \<longleftrightarrow> ogp (ogpManager_js ?cj) = None"
    "isInitialized ?m = isInitialized (ogpManager_js ?cj)"
    by (simp_all add: defs)
  have n: "\<not> (obstacleX ?c - obstacleSpeed CONFIG < - obstacleWidth CONFIG \<and>
        ogp (ogpManager ?c) = None)"
    "\<not> (obstacleX ?z - obstacleSpeed CONFIG < - obstacleWidth CONFIG \<and>
        ogp (ogpManager ?z) = None)"
    "\<not> (obstacleX sample_world - obstacleSpeed CONFIG < - obstacleWidth CONFIG \<and>
        ogp (ogpManager sample_world) = None)"
    by (simp_all add: defs)
  have g: "\<not> gameRunning (after (gameLoop ?c))" "\<not> gameRunning (after (gameLoop ?z))"
    "gameRunning (after (gameLoop sample_world))"
    "\<not> gameRunning_js (after (gameLoop_js ?cj))" "\<not> gameRunning_js (after (gameLoop_js ?zj))"
    "gameRunning_js (after (gameLoop_js sample_world_js))"
    unfolding gameLoop_fields(9) [OF r(1)] gameLoop_fields(9) [OF r(2)]
      gameLoop_fields(9) [OF r(3)] gameLoop_js_fields(7) [OF r(5)]
      gameLoop_js_fields(7) [OF r(6)] gameLoop_js_fields(7) [OF r(7)]
      update_gameRunning [OF n(1)] update_gameRunning [OF n(2)] update_gameRunning [OF n(3)]
      update_js_gameRunning
    by (simp_all add: update_fields update_js_fields defs)
  have sc: "score (after (gameLoop ?c)) = 3" "score (after (gameLoop ?z)) = 0"
    "score_js (after (gameLoop_js ?cj)) = 3" "score_js (after (gameLoop_js ?zj)) = 0"
    unfolding gameLoop_fields(8) [OF r(1)] gameLoop_fields(8) [OF r(2)]
      gameLoop_js_fields(6) [OF r(5)] gameLoop_js_fields(6) [OF r(6)]
    by (simp_all add: update_fields update_js_fields defs)
  show ?thesis
    using r t g sc o
      saveScore_once_at_game_end [where w = ?c and v = ?cj and m = ?m]
      saveScore_once_at_game_end [where w = ?z and v = ?zj]
      saveScore_once_at_game_end [where w = sample_world and v = sample_world_js]
      saveScore_once_at_game_end [where w = ?s and v = ?sj]
    by simp
qed

text \<open>No frame of the free fall throws.\<close>

lemma falling_completes:
  assumes s: "startState w"
  shows "\<not> isl (gameLoop ((frame ^^ k) w))"
proof -
  have low: "\<not> isl (gameLoop v)" if "score v = 0" "0 \<le> obstacleX v" for v
  proof -
    from that(2) have "\<not> obstacleX v - obstacleSpeed CONFIG < - obstacleWidth CONFIG"
      by (simp add: CONFIG_def)
    with that(1) have "\<not> isl (update v)" by (intro update_not_thrown) simp_all
    then show ?thesis by (simp add: gameLoop_isl)
  qed
  consider "k \<le> 100" | "100 < k" "k \<le> 103" | "104 \<le> k" by linarith
  then show ?thesis
  proof cases
    case 1
    from falling_accelerating [OF s 1] 1
    have "score ((frame ^^ k) w) = 0" "0 \<le> obstacleX ((frame ^^ k) w)" by simp_all
    then show ?thesis by (rule low)
  next
    case 2
    then have "k = (k - 100) + 100" "k - 100 \<le> 3" by simp_all
    then obtain j where j: "k = j + 100" "j \<le> 3" by blast
    from falling_accelerating [OF s, of 100]
    have "gameRunning ((frame ^^ 100) w) \<and> birdVelocity ((frame ^^ 100) w) = 5 \<and>
        birdY ((frame ^^ 100) w) = 552.5 \<and> obstacleX ((frame ^^ 100) w) = 200 \<and>
        score ((frame ^^ 100) w) = 0"
      by simp
    from falling_terminal [OF this j(2)] j(2)
    have "score ((frame ^^ j) ((frame ^^ 100) w)) = 0"
      "0 \<le> obstacleX ((frame ^^ j) ((frame ^^ 100) w))" by simp_all
    then have "\<not> isl (gameLoop ((frame ^^ j) ((frame ^^ 100) w)))" by (rule low)
    then show ?thesis unfolding j(1) funpow_add by simp
  next
    case 3
    then have "k = (k - 104) + 104" by simp
    then obtain j where j: "k = j + 104" by blast
    have "(frame ^^ k) w = (frame ^^ 104) w"
      unfolding j funpow_add using falling_ground(2) [OF s]
      by (simp add: gameLoop_stays_stopped)
    with falling_ground(2) [OF s] show ?thesis by (simp add: gameLoop_isl)
  qed
qed

lemma falling_completes_js:
  assumes s: "startState_js w"
  shows "\<not> isl (gameLoop_js ((frame_js ^^ k) w))"
proof -
  have low: "\<not> isl (gameLoop_js v)" if "score_js v = 0" "0 \<le> obstacleX_js v" for v
  proof -
    from that have "score_js (after (update_js v)) \<le> 0"
      by (simp add: update_js_fields CONFIG_js_def)
    then have "\<not> isl (update_js v)" by (rule update_not_thrown_js)
    then show ?thesis by (simp add: gameLoop_js_isl)
  qed
  consider "k \<le> 100" | "100 < k" "k \<le> 103" | "104 \<le> k" by linarith
  then show ?thesis
  proof cases
    case 1
    from falling_accelerating_js [OF s 1] 1
    have "score_js ((frame_js ^^ k) w) = 0" "0 \<le> obstacleX_js ((frame_js ^^ k) w)"
      by simp_all
    then show ?thesis by (rule low)
  next
    case 2
    then have "k = (k - 100) + 100" "k - 100 \<le> 3" by simp_all
    then obtain j where j: "k = j + 100" "j \<le> 3" by blast
    from falling_accelerating_js [OF s, of 100]
    have "gameRunning_js ((frame_js ^^ 100) w) \<and> birdVelocity_js ((frame_js ^^ 100) w) = 5 \<and>
        birdY_js ((frame_js ^^ 100) w) = 552.5 \<and> obstacleX_js ((frame_js ^^ 100) w) = 200 \<and>
        score_js ((frame_js ^^ 100) w) = 0"
      by simp
    from falling_terminal_js [OF this j(2)] j(2)
    have "score_js ((frame_js ^^ j) ((frame_js ^^ 100) w)) = 0"
      "0 \<le> obstacleX_js ((frame_js ^^ j) ((frame_js ^^ 100) w))" by simp_all
    then have "\<not> isl (gameLoop_js ((frame_js ^^ j) ((frame_js ^^ 100) w)))" by (rule low)
    then show ?thesis unfolding j(1) funpow_add by simp
  next
    case 3
    then have "k = (k - 104) + 104" by simp
    then obtain j where j: "k = j + 104" by blast
    have "(frame_js ^^ k) w = (frame_js ^^ 104) w"
      unfolding j funpow_add using falling_ground_js(2) [OF s]
      by (simp add: gameLoop_stays_stopped_js)
    with falling_ground_js(2) [OF s] show ?thesis by (simp add: gameLoop_js_isl)
  qed
qed

lemma fall_summary:
  "startState w \<longrightarrow>
     (\<exists>n < 200. gameRunning ((frame ^^ n) w) \<and> \<not> gameRunning ((frame ^^ Suc n) w) \<and>
        birdY ((frame ^^ Suc n) w) + birdHeight CONFIG > canvasHeight CONFIG) \<and>
     gameRunning ((frame ^^ 103) w) \<and> \<not> gameRunning ((frame ^^ 104) w) \<and>
     \<not> gameRunning ((frame ^^ 200) w) \<and>
     birdY ((frame ^^ 200) w) + birdHeight CONFIG > canvasHeight CONFIG"
proof
  assume s: "startState w"
  note g = falling_ground [OF s]
  have e: "Suc 103 = 104" by simp
  have "(frame ^^ (96 + 104)) w = (frame ^^ 104) w"
    unfolding funpow_add using g(2) by (simp add: gameLoop_stays_stopped)
  then have l: "(frame ^^ 200) w = (frame ^^ 104) w" by simp
  have y: "birdY ((frame ^^ 104) w) + birdHeight CONFIG > canvasHeight CONFIG"
    using g(3) by (simp add: CONFIG_def)
  have "(103::nat) < 200 \<and> gameRunning ((frame ^^ 103) w) \<and>
      \<not> gameRunning ((frame ^^ Suc 103) w) \<and>
      birdY ((frame ^^ Suc 103) w) + birdHeight CONFIG > canvasHeight CONFIG"
    unfolding e using g y by simp
  then have "\<exists>n < 200. gameRunning ((frame ^^ n) w) \<and> \<not> gameRunning ((frame ^^ Suc n) w) \<and>
        birdY ((frame ^^ Suc n) w) + birdHeight CONFIG > canvasHeight CONFIG"
    by (rule exI)
  with g y l show "(\<exists>n < 200. gameRunning ((frame ^^ n) w) \<and>
        \<not> gameRunning ((frame ^^ Suc n) w) \<and>
        birdY ((frame ^^ Suc n) w) + birdHeight CONFIG > canvasHeight CONFIG) \<and>
     gameRunning ((frame ^^ 103) w) \<and> \<not> gameRunning ((frame ^^ 104) w) \<and>
     \<not> gameRunning ((frame ^^ 200) w) \<and>
     birdY ((frame ^^ 200) w) + birdHeight CONFIG > canvasHeight CONFIG"
    by simp
qed

lemma fall_from_startGame: "\<not> gameRunning ((frame ^^ 199) (after (startGame u)))"
proof -
  obtain w where w: "startState w" "startGame u = gameLoop w"
    using startGame_startState by blast
  have "(frame ^^ (199 + 1)) w = (frame ^^ 199) (frame w)"
    unfolding funpow_add by simp
  then have "(frame ^^ 199) (after (startGame u)) = (frame ^^ 200) w"
    using w(2) by (simp add: frame_def)
  with fall_summary [of w] w(1) show ?thesis by simp
qed

lemma fall_summary_js:
  "startState_js w \<longrightarrow>
     (\<exists>n < 200. gameRunning_js ((frame_js ^^ n) w) \<and> \<not> gameRunning_js ((frame_js ^^ Suc n) w) \<and>
        birdY_js ((frame_js ^^ Suc n) w) + birdHeight_js CONFIG_js > canvasHeight_js CONFIG_js) \<and>
     gameRunning_js ((frame_js ^^ 103) w) \<and> \<not> gameRunning_js ((frame_js ^^ 104) w) \<and>
     \<not> gameRunning_js ((frame_js ^^ 200) w) \<and>
     birdY_js ((frame_js ^^ 200) w) + birdHeight_js CONFIG_js > canvasHeight_js CONFIG_js"
proof
  assume s: "startState_js w"
  note g = falling_ground_js [OF s]
  have e: "Suc 103 = 104" by simp
  have "(frame_js ^^ (96 + 104)) w = (frame_js ^^ 104) w"
    unfolding funpow_add using g(2) by (simp add: gameLoop_stays_stopped_js)
  then have l: "(frame_js ^^ 200) w = (frame_js ^^ 104) w" by simp
  have y: "birdY_js ((frame_js ^^ 104) w) + birdHeight_js CONFIG_js > canvasHeight_js CONFIG_js"
    using g(3) by (simp add: CONFIG_js_def)
  have "(103::nat) < 200 \<and> gameRunning_js ((frame_js ^^ 103) w) \<and>
      \<not> gameRunning_js ((frame_js ^^ Suc 103) w) \<and>
      birdY_js ((frame_js ^^ Suc 103) w) + birdHeight_js CONFIG_js > canvasHeight_js CONFIG_js"
    unfolding e using g y by simp
  then have "\<exists>n < 200. gameRunning_js ((frame_js ^^ n) w) \<and> \<not> gameRunning_js ((frame_js ^^ Suc n) w) \<and>
        birdY_js ((frame_js ^^ Suc n) w) + birdHeight_js CONFIG_js > canvasHeight_js CONFIG_js"
    by (rule exI)
  with g y l show "(\<exists>n < 200. gameRunning_js ((frame_js ^^ n) w) \<and>
        \<not> gameRunning_js ((frame_js ^^ Suc n) w) \<and>
        birdY_js ((frame_js ^^ Suc n) w) + birdHeight_js CONFIG_js > canvasHeight_js CONFIG_js) \<and>
     gameRunning_js ((frame_js ^^ 103) w) \<and> \<not> gameRunning_js ((frame_js ^^ 104) w) \<and>
     \<not> gameRunning_js ((frame_js ^^ 200) w) \<and>
     birdY_js ((frame_js ^^ 200) w) + birdHeight_js CONFIG_js > canvasHeight_js CONFIG_js"
    by simp
qed

lemma fall_from_startGame_js: "\<not> gameRunning_js ((frame_js ^^ 199) (after (startGame_js u)))"
proof -
  obtain w where w: "startState_js w" "startGame_js u = gameLoop_js w"
    using startGame_js_startState by blast
  have "(frame_js ^^ (199 + 1)) w = (frame_js ^^ 199) (frame_js w)"
    unfolding funpow_add by simp
  then have "(frame_js ^^ 199) (after (startGame_js u)) = (frame_js ^^ 200) w"
    using w(2) by (simp add: frame_js_def)
  with fall_summary_js [of w] w(1) show ?thesis by simp
qed

lemma startGame_completes: "\<not> isl (startGame u)"
proof -
  obtain w where w: "startState w" "startGame u = gameLoop w"
    using startGame_startState by blast
  from falling_completes [OF w(1), of 0] w(2) show ?thesis by simp
qed

lemma startGame_completes_js: "\<not> isl (startGame_js u)"
proof -
  obtain w where w: "startState_js w" "startGame_js u = gameLoop_js w"
    using startGame_js_startState by blast
  from falling_completes_js [OF w(1), of 0] w(2) show ?thesis by simp
qed

text \<open>
  C8. From the state that \<open>startGame\<close> sets up (bird at 300, velocity 0), frames without any
  flap keep the game running for 103 frames; the 104th frame puts the bird at 572.5, below
  the ground line of 600 - 30, and ends the game. So within 200 frames there is a frame at
  which the ground condition holds and running becomes false, and after 200 frames the
  game is over with the bird below the ground. Since \<open>startGame\<close> runs the first frame
  itself, 199 more frames after it suffice. None of these frames throws, so each
  of them requests the next one until the game is over.
\<close>

theorem falls_to_ground_within_200:
  "(startState w \<longrightarrow>
     (\<exists>n < 200. gameRunning ((frame ^^ n) w) \<and> \<not> gameRunning ((frame ^^ Suc n) w) \<and>
        birdY ((frame ^^ Suc n) w) + birdHeight CONFIG > canvasHeight CONFIG) \<and>
     gameRunning ((frame ^^ 103) w) \<and> \<not> gameRunning ((frame ^^ 104) w) \<and>
     \<not> gameRunning ((frame ^^ 200) w) \<and>
     birdY ((frame ^^ 200) w) + birdHeight CONFIG > canvasHeight CONFIG \<and>
     (\<forall>k. \<not> isl (gameLoop ((frame ^^ k) w)))) \<and>
   \<not> gameRunning ((frame ^^ 199) (after (startGame u))) \<and>
   \<not> isl (startGame u) \<and>
   (startState_js v \<longrightarrow>
     (\<exists>n < 200. gameRunning_js ((frame_js ^^ n) v) \<and>
        \<not> gameRunning_js ((frame_js ^^ Suc n) v) \<and>
        birdY_js ((frame_js ^^ Suc n) v) + birdHeight_js CONFIG_js
          > canvasHeight_js CONFIG_js) \<and>
     gameRunning_js ((frame_js ^^ 103) v) \<and> \<not> gameRunning_js ((frame_js ^^ 104) v) \<and>
     \<not> gameRunning_js ((frame_js ^^ 200) v) \<and>
     birdY_js ((frame_js ^^ 200) v) + birdHeight_js CONFIG_js > canvasHeight_js CONFIG_js \<and>
     (\<forall>k. \<not> isl (gameLoop_js ((frame_js ^^ k) v)))) \<and>
   \<not> gameRunning_js ((frame_js ^^ 199) (after (startGame_js x))) \<and>
   \<not> isl (startGame_js x)"
  using fall_summary [of w] fall_from_startGame [of u] fall_summary_js [of v]
    fall_from_startGame_js [of x] falling_completes [of w] falling_completes_js [of v]
    startGame_completes [of u] startGame_completes_js [of x]
  by blast

theorem falls_to_ground_within_200_witness:
  "startState sample_world \<and>
   gameRunning ((frame ^^ 103) sample_world) \<and>
   \<not> gameRunning ((frame ^^ 104) sample_world) \<and>
   \<not> gameRunning ((frame ^^ 200) sample_world) \<and>
   birdY ((frame ^^ 200) sample_world) + birdHeight CONFIG > canvasHeight CONFIG \<and>
   startState_js sample_world_js \<and>
   gameRunning_js ((frame_js ^^ 103) sample_world_js) \<and>
   \<not> gameRunning_js ((frame_js ^^ 104) sample_world_js) \<and>
   \<not> gameRunning_js ((frame_js ^^ 200) sample_world_js) \<and>
   birdY_js ((frame_js ^^ 200) sample_world_js) + birdHeight_js CONFIG_js
     > canvasHeight_js CONFIG_js"
proof -
  have s: "startState sample_world" "startState_js sample_world_js"
    by (simp_all add: startState_def startState_js_def sample_world_def sample_world_js_def
        gameState_initial_def gameState_initial_js_def)
  with falls_to_ground_within_200 [of sample_world _ sample_world_js] show ?thesis
    by blast
qed

text \<open>
  C9. The rotation update of a step is the specification's sequence: the target is the
  velocity times the sensitivity clamped to the maximal rotation, the spring force
  (target - rotation) * 0.1 is added to the rotation velocity, the sum is multiplied by the
  friction, and the result is added to the rotation. The velocity that enters is the one
  the same step has just computed, and nothing else in the step, nor \<open>flap\<close>, writes the
  rotation or its velocity.
\<close>

theorem rotation_update_order:
  "updateBirdRotation w =
     (let (r, rv) = spec_rotation (rotationSensitivity CONFIG) (maxRotation CONFIG) 0.1
                      (rotationFriction CONFIG) (birdVelocity w)
                      (birdRotation w, birdRotationVelocity w)
      in w\<lparr>birdRotationVelocity := rv, birdRotation := r\<rparr>) \<and>
   (birdRotation (after (update w)), birdRotationVelocity (after (update w))) =
     spec_rotation (rotationSensitivity CONFIG) (maxRotation CONFIG) 0.1
       (rotationFriction CONFIG) (birdVelocity (after (update w)))
       (birdRotation w, birdRotationVelocity w) \<and>
   birdRotationVelocity (after (update w)) =
     (birdRotationVelocity w +
      (clamp (birdVelocity (after (update w)) * rotationSensitivity CONFIG)
         (- maxRotation CONFIG) (maxRotation CONFIG) - birdRotation w) * 0.1)
     * rotationFriction CONFIG \<and>
   birdRotation (after (update w)) = birdRotation w + birdRotationVelocity (after (update w)) \<and>
   birdRotation (flap w) = birdRotation w \<and>
   birdRotationVelocity (flap w) = birdRotationVelocity w"
proof -
  have "birdRotation (flap w) = birdRotation w"
    "birdRotationVelocity (flap w) = birdRotationVelocity w"
    by (simp_all add: flap_def updateAnimationFrame_def Let_def)
  then show ?thesis
    using update_rotation [of w] updateBirdRotation_spec [of w]
    by (simp add: spec_rotation_def Let_def)
qed

theorem rotation_update_order_witness:
  "birdRotationVelocity (after (update (sample_world\<lparr>birdVelocity := 0.95, birdRotation := 0.1,
       birdRotationVelocity := 1\<rparr>))) = 0.408 \<and>
   birdRotation (after (update (sample_world\<lparr>birdVelocity := 0.95, birdRotation := 0.1,
       birdRotationVelocity := 1\<rparr>))) = 0.508 \<and>
   birdRotationVelocity (after (update (sample_world\<lparr>birdVelocity := 5\<rparr>))) = pi / 100 \<and>
   birdRotation (after (update (sample_world\<lparr>birdVelocity := 5\<rparr>))) = pi / 100"
proof -
  let ?a = "sample_world\<lparr>birdVelocity := 0.95, birdRotation := 0.1, birdRotationVelocity := 1\<rparr>"
  let ?b = "sample_world\<lparr>birdVelocity := 5\<rparr>"
  have v: "birdVelocity (after (update ?a)) = 1" "birdVelocity (after (update ?b)) = 5"
    by (simp_all add: update_fields sample_world_def gameState_initial_def CONFIG_def)
  have c: "clamp (3 / 10) (- (pi / 4)) (pi / 4) = 3 / 10"
    "clamp (3 / 2) (- (pi / 4)) (pi / 4) = pi / 4"
    using pi_ge_two pi_less_4 by (simp_all add: clamp_def)
  from rotation_update_order [of ?a]
  have a1: "birdRotationVelocity (after (update ?a)) =
      (birdRotationVelocity ?a +
       (clamp (birdVelocity (after (update ?a)) * rotationSensitivity CONFIG)
          (- maxRotation CONFIG) (maxRotation CONFIG) - birdRotation ?a) * 0.1)
      * rotationFriction CONFIG"
    and a2: "birdRotation (after (update ?a)) = birdRotation ?a + birdRotationVelocity (after (update ?a))"
    by blast+
  from rotation_update_order [of ?b]
  have b1: "birdRotationVelocity (after (update ?b)) =
      (birdRotationVelocity ?b +
       (clamp (birdVelocity (after (update ?b)) * rotationSensitivity CONFIG)
          (- maxRotation CONFIG) (maxRotation CONFIG) - birdRotation ?b) * 0.1)
      * rotationFriction CONFIG"
    and b2: "birdRotation (after (update ?b)) = birdRotation ?b + birdRotationVelocity (after (update ?b))"
    by blast+
  show ?thesis
    unfolding a2 b2 a1 b1 v
    by (simp add: c sample_world_def gameState_initial_def CONFIG_def)
qed

text \<open>
  C10. \<open>endGame\<close> writes two fields of the state and no other: \<open>gameRunning\<close> becomes false
  and a pending frame handle is cancelled and cleared. Score, position, velocity, rotation,
  obstacle position, obstacle height and gap are those of the moment of the collision, and
  the score written to the page and handed to \<open>saveScore\<close> is that score. The collision
  check either leaves the world as it is or is this one call of \<open>endGame\<close>.
\<close>

theorem game_over_frame:
  "after (endGame w) =
     w\<lparr>gameRunning := False,
       animationFrameId := (case animationFrameId w of None \<Rightarrow> None
                            | Some h \<Rightarrow> if h \<noteq> 0 then None else Some h),
       trace := trace (after (endGame w))\<rparr> \<and>
   score (after (endGame w)) = score w \<and> birdY (after (endGame w)) = birdY w \<and>
   birdVelocity (after (endGame w)) = birdVelocity w \<and> birdRotation (after (endGame w)) = birdRotation w \<and>
   obstacleX (after (endGame w)) = obstacleX w \<and> obstacleHeight (after (endGame w)) = obstacleHeight w \<and>
   gap (after (endGame w)) = gap w \<and> \<not> gameRunning (after (endGame w)) \<and>
   trace (after (endGame w)) =
     trace w @
     (case animationFrameId w of None \<Rightarrow> []
      | Some h \<Rightarrow> if h \<noteq> 0 then [CancelAnimationFrame h] else []) @
     [SetTextContent ''roundScore'' (score w), SetDisplay ''gameOverScreen'' ''block''] @
     (if score w > 0 then trace (after (saveScore (score w) (w\<lparr>trace := []\<rparr>))) else []) \<and>
   saveScore_calls (trace (after (saveScore (score w) (w\<lparr>trace := []\<rparr>)))) = [score w] \<and>
   (checkCollisions w = Inr w \<or> checkCollisions w = endGame w) \<and>
   after (endGame_js v) =
     v\<lparr>gameRunning_js := False,
       animationFrameId_js := (case animationFrameId_js v of None \<Rightarrow> None
                               | Some h \<Rightarrow> if h \<noteq> 0 then None else Some h),
       trace_js := trace_js (after (endGame_js v))\<rparr> \<and>
   score_js (after (endGame_js v)) = score_js v \<and> birdY_js (after (endGame_js v)) = birdY_js v \<and>
   birdVelocity_js (after (endGame_js v)) = birdVelocity_js v \<and>
   obstacleX_js (after (endGame_js v)) = obstacleX_js v \<and>
   obstacleHeight_js (after (endGame_js v)) = obstacleHeight_js v \<and>
   gap_js (after (endGame_js v)) = gap_js v \<and> \<not> gameRunning_js (after (endGame_js v)) \<and>
   trace_js (after (endGame_js v)) =
     trace_js v @
     (case animationFrameId_js v of None \<Rightarrow> []
      | Some h \<Rightarrow> if h \<noteq> 0 then [CancelAnimationFrame h] else []) @
     [SetTextContent ''finalScore'' (score_js v), SetTextContent ''ogpPoints'' (ogpPoints_js v),
      SetDisplay ''gameOverScreen'' ''block''] @
     (if score_js v > 0 then trace_js (after (saveScore_js (score_js v) (v\<lparr>trace_js := []\<rparr>))) else []) \<and>
   saveScore_calls (trace_js (after (saveScore_js (score_js v) (v\<lparr>trace_js := []\<rparr>)))) = [score_js v] \<and>
   (checkCollisions_js v = Inr v \<or> checkCollisions_js v = endGame_js v)"
proof -
  have a: "saveScore_calls (trace (after (saveScore (score w) (w\<lparr>trace := []\<rparr>)))) = [score w]"
    by (simp add: saveScore_saveScore_calls)
  have b: "saveScore_calls (trace_js (after (saveScore_js (score_js v) (v\<lparr>trace_js := []\<rparr>)))) =
      [score_js v]"
    by (simp add: saveScore_saveScore_calls_js)
  have c: "checkCollisions w = Inr w \<or> checkCollisions w = endGame w"
    by (simp add: checkCollisions_def Let_def)
  have d: "checkCollisions_js v = Inr v \<or> checkCollisions_js v = endGame_js v"
    by (simp add: checkCollisions_js_def Let_def)
  note e = endGame_frame [of w] endGame_frame_js [of v] endGame_reports [of w]
    endGame_reports_js [of v] a b c d
  show ?thesis
    by (intro conjI; (rule e | simp add: endGame_fields endGame_js_fields))
qed

theorem game_over_frame_witness:
  "trace (after (endGame (sample_world\<lparr>birdY := 580, score := 3, animationFrameId := Some 5\<rparr>))) =
     [CancelAnimationFrame 5, SetTextContent ''roundScore'' 3,
      SetDisplay ''gameOverScreen'' ''block'', SaveScore 3, SavePoints 3,
      ConsoleLog ''Points saved:''] \<and>
   score (after (endGame (sample_world\<lparr>birdY := 580, score := 3, animationFrameId := Some 5\<rparr>))) = 3 \<and>
   birdY (after (endGame (sample_world\<lparr>birdY := 580, score := 3, animationFrameId := Some 5\<rparr>))) = 580 \<and>
   \<not> gameRunning (after (endGame (sample_world\<lparr>birdY := 580, score := 3,
       animationFrameId := Some 5\<rparr>))) \<and>
   trace_js (after (endGame_js (sample_world_js\<lparr>birdY_js := 580, score_js := 3,
       animationFrameId_js := Some 5\<rparr>))) =
     [CancelAnimationFrame 5, SetTextContent ''finalScore'' 3, SetTextContent ''ogpPoints'' 0,
      SetDisplay ''gameOverScreen'' ''block'', SaveScore 3, SavePoints 3,
      ConsoleLog ''Points saved:''] \<and>
   score_js (after (endGame_js (sample_world_js\<lparr>birdY_js := 580, score_js := 3,
       animationFrameId_js := Some 5\<rparr>))) = 3 \<and>
   birdY_js (after (endGame_js (sample_world_js\<lparr>birdY_js := 580, score_js := 3,
       animationFrameId_js := Some 5\<rparr>))) = 580 \<and>
   \<not> gameRunning_js (after (endGame_js (sample_world_js\<lparr>birdY_js := 580, score_js := 3,
       animationFrameId_js := Some 5\<rparr>)))"
proof -
  let ?c = "sample_world\<lparr>birdY := 580, score := 3, animationFrameId := Some 5\<rparr>"
  let ?d = "sample_world_js\<lparr>birdY_js := 580, score_js := 3, animationFrameId_js := Some 5\<rparr>"
  note defs = sample_world_def sample_world_js_def sample_manager_def gameState_initial_def
    gameState_initial_js_def CONFIG_def CONFIG_js_def
  from game_over_frame [of ?c ?d]
  have t: "trace (after (endGame ?c)) =
     trace ?c @
     (case animationFrameId ?c of None \<Rightarrow> []
      | Some h \<Rightarrow> if h \<noteq> 0 then [CancelAnimationFrame h] else []) @
     [SetTextContent ''roundScore'' (score ?c), SetDisplay ''gameOverScreen'' ''block''] @
     (if score ?c > 0 then trace (after (saveScore (score ?c) (?c\<lparr>trace := []\<rparr>))) else [])"
    and f: "score (after (endGame ?c)) = score ?c" "birdY (after (endGame ?c)) = birdY ?c"
      "\<not> gameRunning (after (endGame ?c))"
    and tj: "trace_js (after (endGame_js ?d)) =
     trace_js ?d @
     (case animationFrameId_js ?d of None \<Rightarrow> []
      | Some h \<Rightarrow> if h \<noteq> 0 then [CancelAnimationFrame h] else []) @
     [SetTextContent ''finalScore'' (score_js ?d), SetTextContent ''ogpPoints'' (ogpPoints_js ?d),
      SetDisplay ''gameOverScreen'' ''block''] @
     (if score_js ?d > 0 then trace_js (after (saveScore_js (score_js ?d) (?d\<lparr>trace_js := []\<rparr>)))
      else [])"
    and fj: "score_js (after (endGame_js ?d)) = score_js ?d" "birdY_js (after (endGame_js ?d)) = birdY_js ?d"
      "\<not> gameRunning_js (after (endGame_js ?d))"
    by blast+
  show ?thesis
    unfolding t tj f(1,2) fj(1,2) using f(3) fj(3)
    by (simp add: defs saveScore_def saveScore_js_def emit_def emit_js_def)
qed

end
